theory Spec2Isabelle
  imports Main "HOL-Library.Char_ord" "HOL-Library.List_Lexorder" "HOL-Library.AList"
begin

chapter \<open>Certificate generator: a model of the scripts\<close>

section \<open>Python values: exceptions, characters, strings\<close>

text \<open>
  The scripts are Python 3. A Python \<open>str\<close> is modelled as a \<^typ>\<open>string\<close> whose
  characters are the code points below 256; \<open>bytes\<close> are a \<^typ>\<open>string\<close> too, whose
  characters are the bytes; \<open>int\<close> values that are never negative are \<^typ>\<open>nat\<close>. A
  call that may raise returns \<open>exn + 'a\<close>, with \<open>Inl\<close> the exception.
\<close>

datatype cmd =
    Shell string                   \<comment> \<open>\<open>subprocess.run(command, shell=True, ...)\<close>\<close>
  | Argv "string list" string      \<comment> \<open>\<open>subprocess.run([...], cwd=folder, ...)\<close>\<close>

datatype exn =
    CalledProcessError cmd nat     \<comment> \<open>command and its non-zero exit status\<close>
  | AttributeError
  | FileNotFoundError string
  | ValueError
  | TypeError
  | KeyError string
  | IndexError
  | OSError string               \<comment> \<open>the message of the operating system\<close>
  | UnicodeDecodeError
  | UnicodeEncodeError
  | YAMLError

definition is_space :: "char \<Rightarrow> bool" where
  \<comment> \<open>\<open>str.isspace\<close> and the regular expression class \<open>\s\<close> on code points below 256\<close>
  "is_space c =
     (let n = (of_char c :: nat)
      in (9 \<le> n \<and> n \<le> 13) \<or> (28 \<le> n \<and> n \<le> 32) \<or> n = 133 \<or> n = 160)"

definition is_digit :: "char \<Rightarrow> bool" where
  \<comment> \<open>the regular expression class \<open>\d\<close> on code points below 256\<close>
  "is_digit c = (let n = (of_char c :: nat) in 48 \<le> n \<and> n \<le> 57)"

definition strip :: "string \<Rightarrow> string" where
  "strip s = rev (dropWhile is_space (rev (dropWhile is_space s)))"

definition startswith :: "string \<Rightarrow> string \<Rightarrow> bool" where
  "startswith s p = (take (length p) s = p)"

definition endswith :: "string \<Rightarrow> string \<Rightarrow> bool" where
  "endswith s p = (length p \<le> length s \<and> drop (length s - length p) s = p)"

definition removesuffix :: "string \<Rightarrow> string \<Rightarrow> string" where
  "removesuffix s p = (if p \<noteq> [] \<and> endswith s p then take (length s - length p) s else s)"

fun join :: "string \<Rightarrow> string list \<Rightarrow> string" where
  "join sep [] = []"
| "join sep [x] = x"
| "join sep (x # y # ys) = x @ sep @ join sep (y # ys)"

definition digit_char :: "nat \<Rightarrow> char" where
  "digit_char d = ''0123456789'' ! d"

function dec :: "nat \<Rightarrow> string" where
  \<comment> \<open>\<open>str(n)\<close> for a non-negative integer\<close>
  "dec n = (if n < 10 then [digit_char n] else dec (n div 10) @ [digit_char (n mod 10)])"
  by pat_completeness auto
termination
  by (relation "measure id") auto

declare dec.simps [simp del]

definition digit_val :: "char \<Rightarrow> nat" where
  "digit_val c = of_char c - 48"

definition int_of_digits :: "string \<Rightarrow> nat" where
  \<comment> \<open>\<open>int(s)\<close> for a string of decimal digits\<close>
  "int_of_digits s = foldl (\<lambda>acc c. 10 * acc + digit_val c) 0 s"

definition range_step :: "nat \<Rightarrow> nat \<Rightarrow> nat list" where
  \<comment> \<open>\<open>range(0, n, k)\<close>\<close>
  "range_step n k = map (\<lambda>j. j * k) [0 ..< (n + k - 1) div k]"

definition slice :: "'a list \<Rightarrow> nat \<Rightarrow> nat \<Rightarrow> 'a list" where
  \<comment> \<open>\<open>s[i:j]\<close> for \<open>0 \<le> i \<le> j\<close>; Python clips both ends to the length\<close>
  "slice s i j = take (j - i) (drop i s)"

definition py_index :: "'a list \<Rightarrow> int \<Rightarrow> exn + 'a" where
  \<comment> \<open>\<open>xs[i]\<close>: from the end when \<open>i\<close> is negative; \<open>IndexError\<close> outside the list\<close>
  "py_index xs i =
     (if 0 \<le> i \<and> i < int (length xs) then Inr (xs ! nat i)
      else if i < 0 \<and> - int (length xs) \<le> i then Inr (xs ! nat (int (length xs) + i))
      else Inl IndexError)"

section \<open>Python values: \<open>repr\<close> and the text of an exception\<close>

definition hex2 :: "nat \<Rightarrow> string" where
  "hex2 n = [''0123456789abcdef'' ! (n div 16), ''0123456789abcdef'' ! (n mod 16)]"

definition is_printable :: "char \<Rightarrow> bool" where
  \<comment> \<open>\<open>str.isprintable\<close> on code points below 256\<close>
  "is_printable c =
     (let n = (of_char c :: nat) in (32 \<le> n \<and> n \<le> 126) \<or> (161 \<le> n \<and> n \<noteq> 173))"

definition repr_char :: "char \<Rightarrow> char \<Rightarrow> string" where
  "repr_char quote c =
     (if c = quote \<or> c = CHR 0x5C then [CHR 0x5C, c]
      else if c = CHR 0x09 then [CHR 0x5C, CHR ''t'']
      else if c = CHR 0x0A then [CHR 0x5C, CHR ''n'']
      else if c = CHR 0x0D then [CHR 0x5C, CHR ''r'']
      else if is_printable c then [c]
      else [CHR 0x5C, CHR ''x''] @ hex2 (of_char c))"

definition repr :: "string \<Rightarrow> string" where
  \<comment> \<open>\<open>repr(s)\<close> of a \<open>str\<close>: double quotes only when \<open>s\<close> has a single quote and no
      double quote\<close>
  "repr s =
     (let quote = (if CHR 0x27 \<in> set s \<and> CHR 0x22 \<notin> set s then CHR 0x22 else CHR 0x27)
      in [quote] @ concat (map (repr_char quote) s) @ [quote])"

definition str_cmd :: "cmd \<Rightarrow> string" where
  \<comment> \<open>\<open>str\<close> of the \<open>args\<close> of a process: the command line, or the list of arguments\<close>
  "str_cmd c = (case c of Shell line \<Rightarrow> line
                | Argv args cwd \<Rightarrow> ''['' @ join '', '' (map repr args) @ '']'')"

definition repr_cmd :: "cmd \<Rightarrow> string" where
  "repr_cmd c = (case c of Shell line \<Rightarrow> repr line
                 | Argv args cwd \<Rightarrow> ''['' @ join '', '' (map repr args) @ '']'')"

definition str_exn :: "exn \<Rightarrow> string" where
  \<comment> \<open>\<open>str(e)\<close>, what an f-string shows of a caught exception. The handlers of the
      scripts format a \<open>CalledProcessError\<close> or an error of the operating system; the
      exceptions that carry no message in this model are shown by their name\<close>
  "str_exn e =
     (case e of
        CalledProcessError c status \<Rightarrow>
          ''Command '' @ [CHR 0x27] @ str_cmd c @ [CHR 0x27] @
          '' returned non-zero exit status '' @ dec status @ ''.''
      | AttributeError \<Rightarrow> ''AttributeError''
      | FileNotFoundError path \<Rightarrow> ''[Errno 2] No such file or directory: '' @ repr path
      | ValueError \<Rightarrow> ''ValueError''
      | TypeError \<Rightarrow> ''TypeError''
      | KeyError k \<Rightarrow> repr k
      | IndexError \<Rightarrow> ''IndexError''
      | OSError msg \<Rightarrow> msg
      | UnicodeDecodeError \<Rightarrow> ''UnicodeDecodeError''
      | UnicodeEncodeError \<Rightarrow> ''UnicodeEncodeError''
      | YAMLError \<Rightarrow> ''YAMLError'')"

section \<open>The environment: files, console, external programs\<close>

text \<open>
  The scripts keep their state in the file system and run external programs (\<open>ots\<close>,
  \<open>curl\<close>, \<open>gpg\<close>, \<open>lualatex\<close>). A world holds the files (path and bytes, in directory
  order), what the script has printed, and the commands it has run, oldest first. A file
  is known by one path: the world has no links and no second spelling of a path.
  Directories are taken to exist, and printing does not fail.

  What the environment does is a parameter of the model:
  \<^item> the encoding of the locale, with which Python reads and writes text files and the
    output of a process: \<open>decode\<close> and \<open>encode\<close> return \<open>None\<close> where Python raises
    \<open>UnicodeDecodeError\<close> and \<open>UnicodeEncodeError\<close>;
  \<^item> the external programs: from the command and the files, either the message of the
    error that keeps the process from starting, or the exit status, the bytes written
    to standard output and standard error, and the files the process leaves. An exit
    status is a natural number: a child killed by a signal is outside the model.
\<close>

record codec =
  decode :: "string \<Rightarrow> string option"
  encode :: "string \<Rightarrow> string option"

type_synonym filesystem = "(string \<times> string) list"

record process =
  exit_status :: nat
  out_bytes :: string
  err_bytes :: string
  files_left :: filesystem

type_synonym programs = "cmd \<Rightarrow> filesystem \<Rightarrow> string + process"

record completed =
  returncode :: nat
  stdout :: string
  stderr :: string

record world =
  files :: filesystem
  console :: "string list"
  ran :: "cmd list"

definition print_line :: "string \<Rightarrow> world \<Rightarrow> world" where
  "print_line s w = w\<lparr>console := console w @ [s]\<rparr>"

definition has_nul :: "string \<Rightarrow> bool" where
  \<comment> \<open>a path or an argument with the character 0 is refused with \<open>ValueError\<close> before
      the operating system sees it\<close>
  "has_nul s = (CHR 0x00 \<in> set s)"

definition cmd_has_nul :: "cmd \<Rightarrow> bool" where
  "cmd_has_nul c =
     (case c of Shell line \<Rightarrow> has_nul line
      | Argv args cwd \<Rightarrow> list_ex has_nul args \<or> has_nul cwd)"

definition path_exists :: "world \<Rightarrow> string \<Rightarrow> bool" where
  \<comment> \<open>\<open>os.path.exists\<close>, for the path of a file; \<open>False\<close> on a path Python refuses\<close>
  "path_exists w path = (\<not> has_nul path \<and> map_of (files w) path \<noteq> None)"

definition repr_completed :: "cmd \<Rightarrow> completed \<Rightarrow> string" where
  "repr_completed c r =
     ''CompletedProcess(args='' @ repr_cmd c @ '', returncode='' @ dec (returncode r) @
     '', stdout='' @ repr (stdout r) @ '', stderr='' @ repr (stderr r) @ '')''"

fun universal_newlines :: "string \<Rightarrow> string" where
  \<comment> \<open>reading in text mode turns \<open>\r\n\<close> and a lone \<open>\r\<close> into \<open>\n\<close>\<close>
  "universal_newlines (c # d # cs) =
     (if c = CHR 0x0D \<and> d = CHR 0x0A then CHR 0x0A # universal_newlines cs
      else if c = CHR 0x0D then CHR 0x0A # universal_newlines (d # cs)
      else c # universal_newlines (d # cs))"
| "universal_newlines [c] = [if c = CHR 0x0D then CHR 0x0A else c]"
| "universal_newlines [] = []"

definition subprocess_run ::
  "codec \<Rightarrow> programs \<Rightarrow> cmd \<Rightarrow> world \<Rightarrow> (exn + completed) \<times> world" where
  \<comment> \<open>\<open>subprocess.run(..., check=True, text=True, capture_output=True)\<close>: the output is
      decoded, with universal newlines, before the exit status is looked at\<close>
  "subprocess_run cd env c w =
     (if cmd_has_nul c then (Inl ValueError, w)
      else case env c (files w) of
             Inl msg \<Rightarrow> (Inl (OSError msg), w)
           | Inr p \<Rightarrow>
               (let w' = w\<lparr>files := files_left p, ran := ran w @ [c]\<rparr>
                in case decode cd (out_bytes p) of
                     None \<Rightarrow> (Inl UnicodeDecodeError, w')
                   | Some out \<Rightarrow>
                       (case decode cd (err_bytes p) of
                          None \<Rightarrow> (Inl UnicodeDecodeError, w')
                        | Some err \<Rightarrow>
                            if exit_status p \<noteq> 0
                            then (Inl (CalledProcessError c (exit_status p)), w')
                            else (Inr \<lparr>returncode = exit_status p,
                                       stdout = universal_newlines out,
                                       stderr = universal_newlines err\<rparr>, w'))))"

definition answers ::
  "codec \<Rightarrow> programs \<Rightarrow> cmd \<Rightarrow> filesystem \<Rightarrow> process \<Rightarrow> string \<Rightarrow> string \<Rightarrow> bool" where
  \<comment> \<open>the command is accepted, the process starts on the files \<open>fs\<close> and ends as \<open>p\<close>,
      and its output decodes to the texts \<open>out\<close> and \<open>err\<close>\<close>
  "answers cd env c fs p out err =
     (\<not> cmd_has_nul c \<and> env c fs = Inr p \<and>
      decode cd (out_bytes p) = Some out \<and> decode cd (err_bytes p) = Some err)"

definition subprocess_run_plain :: "programs \<Rightarrow> cmd \<Rightarrow> world \<Rightarrow> (exn + unit) \<times> world" where
  \<comment> \<open>\<open>subprocess.run(..., check=True)\<close> without capture: the output goes to the
      terminal and is not decoded\<close>
  "subprocess_run_plain env c w =
     (if cmd_has_nul c then (Inl ValueError, w)
      else case env c (files w) of
             Inl msg \<Rightarrow> (Inl (OSError msg), w)
           | Inr p \<Rightarrow>
               (let w' = w\<lparr>files := files_left p, ran := ran w @ [c]\<rparr>
                in if exit_status p \<noteq> 0
                   then (Inl (CalledProcessError c (exit_status p)), w')
                   else (Inr (), w')))"

definition read_bytes :: "world \<Rightarrow> string \<Rightarrow> exn + string" where
  \<comment> \<open>\<open>open(path, "rb")\<close> and all the bytes of the file\<close>
  "read_bytes w path =
     (if has_nul path then Inl ValueError
      else case map_of (files w) path of
             None \<Rightarrow> Inl (FileNotFoundError path)
           | Some bytes \<Rightarrow> Inr bytes)"

definition read_text :: "codec \<Rightarrow> world \<Rightarrow> string \<Rightarrow> exn + string" where
  \<comment> \<open>\<open>open(path, "r").read()\<close>\<close>
  "read_text cd w path =
     (case read_bytes w path of
        Inl e \<Rightarrow> Inl e
      | Inr bytes \<Rightarrow>
          (case decode cd bytes of
             None \<Rightarrow> Inl UnicodeDecodeError
           | Some content \<Rightarrow> Inr (universal_newlines content)))"

definition write_text :: "codec \<Rightarrow> string \<Rightarrow> string \<Rightarrow> world \<Rightarrow> (exn + unit) \<times> world" where
  \<comment> \<open>\<open>open(path, "w").write(content)\<close>: opening empties the file, so a text that cannot
      be encoded leaves it empty\<close>
  "write_text cd path content w =
     (if has_nul path then (Inl ValueError, w)
      else case encode cd content of
             None \<Rightarrow> (Inl UnicodeEncodeError, w\<lparr>files := AList.update path [] (files w)\<rparr>)
           | Some bytes \<Rightarrow> (Inr (), w\<lparr>files := AList.update path bytes (files w)\<rparr>))"

definition os_remove :: "string \<Rightarrow> world \<Rightarrow> (exn + unit) \<times> world" where
  "os_remove path w =
     (if has_nul path then (Inl ValueError, w)
      else if map_of (files w) path \<noteq> None
      then (Inr (), w\<lparr>files := AList.delete path (files w)\<rparr>)
      else (Inl (FileNotFoundError path), w))"

section \<open>Paths: \<open>os.path\<close> on POSIX\<close>

definition rfind_sep :: "string \<Rightarrow> nat" where
  \<comment> \<open>\<open>p.rfind('/') + 1\<close>: the length of \<open>p\<close> up to and with its last slash, 0 without one\<close>
  "rfind_sep p = length p - length (takeWhile (\<lambda>c. c \<noteq> CHR ''/'') (rev p))"

definition basename :: "string \<Rightarrow> string" where
  "basename p = drop (rfind_sep p) p"

definition dirname :: "string \<Rightarrow> string" where
  "dirname p =
     (let head = take (rfind_sep p) p
      in if head \<noteq> [] \<and> head \<noteq> replicate (length head) CHR ''/''
         then rev (dropWhile (\<lambda>c. c = CHR ''/'') (rev head)) else head)"

definition path_join :: "string \<Rightarrow> string \<Rightarrow> string" where
  \<comment> \<open>\<open>os.path.join(a, b)\<close>\<close>
  "path_join a b =
     (if startswith b ''/'' then b
      else if a = [] \<or> endswith a ''/'' then a @ b
      else a @ ''/'' @ b)"

section \<open>generate.py: display formatting of a hash\<close>

definition format_hash :: "string \<Rightarrow> string" where
  "format_hash hash_value =
     (let chunks = map (\<lambda>i. slice hash_value i (i + 4)) (range_step (length hash_value) 4);
          formatted_hash = join '' '' chunks
      in formatted_hash)"

definition split_and_format_hash :: "string \<Rightarrow> string \<times> string" where
  "split_and_format_hash h =
     (let midpoint = length h div 2;
          first_half = take midpoint h;
          second_half = drop midpoint h
      in (format_hash first_half, format_hash second_half))"

text \<open>
  Undoing the display format: \<open>format_hash\<close> puts its separator at the positions
  4, 9, 14, ... of its result, and \<open>remove_inserted\<close> deletes the characters at exactly
  these positions, whatever they are.
\<close>

fun remove_inserted :: "string \<Rightarrow> string" where
  "remove_inserted (a # b # c # d # sp # rest) = a # b # c # d # remove_inserted rest"
| "remove_inserted xs = xs"

section \<open>generate.py: date formatting\<close>

text \<open>
  \<open>datetime.strptime(date_string, "%Y-%m-%d")\<close>. The library compiles the format to the
  regular expression
  \<^verbatim>\<open>(?P<Y>\d\d\d\d)-(?P<m>1[0-2]|0[1-9]|[1-9])-(?P<d>3[0-1]|[1-2]\d|0[1-9]|[1-9]| [1-9])\<close>,
  matches it at the start of the string, raises \<open>ValueError\<close> when it does not match
  or when text remains after the match, and raises \<open>ValueError\<close> again when year,
  month and day are not a date of the calendar (the year 0, the 30th of February).
\<close>

definition in_range :: "char \<Rightarrow> char \<Rightarrow> char \<Rightarrow> bool" where
  "in_range lo hi c = ((of_char lo :: nat) \<le> of_char c \<and> (of_char c :: nat) \<le> of_char hi)"

definition match_year :: "string \<Rightarrow> (nat \<times> string) option" where
  "match_year s =
     (case s of
        a # b # c # d # r \<Rightarrow>
          if is_digit a \<and> is_digit b \<and> is_digit c \<and> is_digit d
          then Some (int_of_digits [a, b, c, d], r) else None
      | _ \<Rightarrow> None)"

definition match_month :: "string \<Rightarrow> (nat \<times> string) list" where
  \<comment> \<open>the alternatives of \<open>%m\<close> that match at the start of \<open>s\<close>, in the order the
      regular expression tries them\<close>
  "match_month s =
     (case s of
        a # b # r \<Rightarrow>
          (if a = CHR ''1'' \<and> in_range CHR ''0'' CHR ''2'' b then [(int_of_digits [a, b], r)] else []) @
          (if a = CHR ''0'' \<and> in_range CHR ''1'' CHR ''9'' b then [(int_of_digits [a, b], r)] else []) @
          (if in_range CHR ''1'' CHR ''9'' a then [(int_of_digits [a], b # r)] else [])
      | [a] \<Rightarrow> (if in_range CHR ''1'' CHR ''9'' a then [(int_of_digits [a], [])] else [])
      | [] \<Rightarrow> [])"

definition match_day :: "string \<Rightarrow> (nat \<times> string) list" where
  \<comment> \<open>the alternatives of \<open>%d\<close> that match at the start of \<open>s\<close>, in order\<close>
  "match_day s =
     (case s of
        a # b # r \<Rightarrow>
          (if a = CHR ''3'' \<and> in_range CHR ''0'' CHR ''1'' b then [(int_of_digits [a, b], r)] else []) @
          (if in_range CHR ''1'' CHR ''2'' a \<and> is_digit b then [(int_of_digits [a, b], r)] else []) @
          (if a = CHR ''0'' \<and> in_range CHR ''1'' CHR ''9'' b then [(int_of_digits [a, b], r)] else []) @
          (if in_range CHR ''1'' CHR ''9'' a then [(int_of_digits [a], b # r)] else []) @
          (if a = CHR '' '' \<and> in_range CHR ''1'' CHR ''9'' b then [(int_of_digits [b], r)] else [])
      | [a] \<Rightarrow> (if in_range CHR ''1'' CHR ''9'' a then [(int_of_digits [a], [])] else [])
      | [] \<Rightarrow> [])"

definition is_leap :: "nat \<Rightarrow> bool" where
  "is_leap y = (y mod 4 = 0 \<and> (y mod 100 \<noteq> 0 \<or> y mod 400 = 0))"

definition days_in_month :: "nat \<Rightarrow> nat \<Rightarrow> nat" where
  "days_in_month y m =
     (if m = 2 then (if is_leap y then 29 else 28)
      else if m = 4 \<or> m = 6 \<or> m = 9 \<or> m = 11 then 30 else 31)"

definition valid_date :: "nat \<Rightarrow> nat \<Rightarrow> nat \<Rightarrow> bool" where
  \<comment> \<open>the dates \<open>datetime\<close> accepts: years 1 to 9999\<close>
  "valid_date y m d =
     (1 \<le> y \<and> y \<le> 9999 \<and> 1 \<le> m \<and> m \<le> 12 \<and> 1 \<le> d \<and> d \<le> days_in_month y m)"

definition strptime :: "string \<Rightarrow> exn + (nat \<times> nat \<times> nat)" where
  "strptime s =
     (case match_year s of
        None \<Rightarrow> Inl ValueError
      | Some (y, r1) \<Rightarrow>
          (case [(m, d, r4). startswith r1 ''-'',
                              (m, r2) \<leftarrow> match_month (drop 1 r1), startswith r2 ''-'',
                              (d, r4) \<leftarrow> match_day (drop 1 r2)] of
             [] \<Rightarrow> Inl ValueError
           | (m, d, r4) # _ \<Rightarrow>
               if r4 \<noteq> [] then Inl ValueError
               else if valid_date y m d then Inr (y, m, d)
               else Inl ValueError))"

definition month_name :: "nat \<Rightarrow> string" where
  \<comment> \<open>\<open>strftime('%B')\<close> in the C locale, for a month from 1 to 12\<close>
  "month_name m =
     [''January'', ''February'', ''March'', ''April'', ''May'', ''June'', ''July'',
      ''August'', ''September'', ''October'', ''November'', ''December''] ! (m - 1)"

definition year_text :: "bool \<Rightarrow> nat \<Rightarrow> string" where
  \<comment> \<open>\<open>strftime('%Y')\<close>: the C library decides whether a year below 1000 is padded
      with zeros to four digits (\<open>padded\<close>) or not\<close>
  "year_text padded y =
     (if padded then replicate (4 - length (dec y)) CHR ''0'' @ dec y else dec y)"

definition format_date :: "bool \<Rightarrow> string \<Rightarrow> exn + string" where
  "format_date padded date_string =
     (case strptime date_string of
        Inl e \<Rightarrow> Inl e
      | Inr (year, month, day) \<Rightarrow>
          (case (if (4 \<le> day \<and> day \<le> 20) \<or> (24 \<le> day \<and> day \<le> 30) then Inr ''th''
                 else py_index [''st'', ''nd'', ''rd''] (int (day mod 10) - 1)) of
             Inl e \<Rightarrow> Inl e
           | Inr suffix \<Rightarrow>
               Inr (dec day @ suffix @ '' '' @ month_name month @ '', '' @ year_text padded year)))"

section \<open>generate.py: reading a property from the signed text\<close>

text \<open>
  \<open>re.search(pattern, content, re.IGNORECASE)\<close> tries the pattern at every position of
  the text from the left and stops at the first position where it matches;
  \<open>re_search m\<close> does this for a pattern given as the function \<open>m\<close>, which returns the
  pattern's group 1 when the pattern matches at the start of its argument.
\<close>

fun re_search :: "(string \<Rightarrow> 'a option) \<Rightarrow> string \<Rightarrow> 'a option" where
  "re_search m [] = m []"
| "re_search m (c # cs) = (case m (c # cs) of Some v \<Rightarrow> Some v | None \<Rightarrow> re_search m cs)"

definition lower_ord :: "char \<Rightarrow> nat" where
  \<comment> \<open>the lower-case form of a code point below 256, as \<open>re.IGNORECASE\<close> compares\<close>
  "lower_ord c =
     (let n = (of_char c :: nat)
      in if (65 \<le> n \<and> n \<le> 90) \<or> (192 \<le> n \<and> n \<le> 222 \<and> n \<noteq> 215) then n + 32 else n)"

definition ci_eq :: "char \<Rightarrow> char \<Rightarrow> bool" where
  "ci_eq c d = (lower_ord c = lower_ord d)"

definition ci_startswith :: "string \<Rightarrow> string \<Rightarrow> bool" where
  "ci_startswith s p = (length p \<le> length s \<and> list_all2 ci_eq (take (length p) s) p)"

definition rest_of_line :: "string \<Rightarrow> string" where
  \<comment> \<open>what the greedy \<open>.+\<close> takes: every character up to the next line feed\<close>
  "rest_of_line s = takeWhile (\<lambda>c. c \<noteq> CHR 0x0A) s"

definition match_value :: "string \<Rightarrow> string option" where
  \<comment> \<open>\<open>\s*(.+)\<close> at the start of \<open>r\<close>: the greedy \<open>\s*\<close> takes all the white space,
      then gives it back one character at a time until \<open>.+\<close> finds a character that
      is not a line feed\<close>
  "match_value r =
     (let n = length (takeWhile is_space r)
      in case filter (\<lambda>k. k < length r \<and> r ! k \<noteq> CHR 0x0A) (rev [0 ..< Suc n]) of
           [] \<Rightarrow> None
         | k # _ \<Rightarrow> Some (rest_of_line (drop k r)))"

definition match_property :: "string \<Rightarrow> string \<Rightarrow> string option" where
  \<comment> \<open>\<open>re.escape(property_name) + ":?\s*(.+)"\<close> at the start of \<open>s\<close>: the name, letter case
      ignored, then the colon if there is one (and without it when that fails)\<close>
  "match_property property_name s =
     (if ci_startswith s property_name then
        (let r = drop (length property_name) s
         in case (if startswith r '':'' then match_value (drop 1 r) else None) of
              Some v \<Rightarrow> Some v
            | None \<Rightarrow> match_value r)
      else None)"

definition extract_property :: "codec \<Rightarrow> world \<Rightarrow> string \<Rightarrow> string \<Rightarrow> exn + string option" where
  "extract_property cd w txt_file property_name =
     (case read_text cd w txt_file of
        Inl e \<Rightarrow> Inl e
      | Inr content \<Rightarrow>
          (case re_search (match_property property_name) content of
             Some group1 \<Rightarrow> Inr (Some (strip group1))
           | None \<Rightarrow> Inr None))"


section \<open>generate.py: filling the LaTeX template\<close>

function replace :: "string \<Rightarrow> string \<Rightarrow> string \<Rightarrow> string" where
  \<comment> \<open>\<open>s.replace(old, new)\<close>: the occurrences of \<open>old\<close> from the left, not overlapping;
      an empty \<open>old\<close> matches before every character and at the end\<close>
  "replace old new s =
     (if old = [] then new @ concat (map (\<lambda>c. c # new) s)
      else if s = [] then []
      else if startswith s old then new @ replace old new (drop (length old) s)
      else hd s # replace old new (tl s))"
  by pat_completeness auto
termination
  by (relation "measure (\<lambda>(old, new, s). length s)") auto

declare replace.simps [simp del]

text \<open>
  \<open>certificate_data\<close> is a dictionary: its items, in insertion order, with the values
  already as \<open>str(value)\<close> shows them.
\<close>

definition modify_and_save_tex ::
  "codec \<Rightarrow> string \<Rightarrow> string \<Rightarrow> (string \<times> string) list \<Rightarrow> world \<Rightarrow>
   (exn + unit) \<times> world" where
  "modify_and_save_tex cd template_path new_tex_path certificate_data w =
     (case read_text cd w template_path of
        Inl e \<Rightarrow> (Inl e, w)
      | Inr content \<Rightarrow>
          (let content' = foldl (\<lambda>content (key, val). replace (''{'' @ key @ ''}'') val content)
                            content certificate_data
           in write_text cd new_tex_path content' w))"

section \<open>generate.py: the timestamp proof\<close>

definition match_block_height :: "string \<Rightarrow> string option" where
  \<comment> \<open>\<open>Bitcoin block (\d+)\<close> at the start of \<open>s\<close>: group 1, all the digits that follow\<close>
  "match_block_height s =
     (let digits = takeWhile is_digit (drop 14 s)
      in if startswith s ''Bitcoin block '' \<and> digits \<noteq> [] then Some digits else None)"

definition ots_command :: "string \<Rightarrow> string \<Rightarrow> string \<Rightarrow> string \<Rightarrow> string" where
  "ots_command user password verb ots_file_path =
     ''ots --bitcoin-node http://'' @ user @ '':'' @ password @ ''@127.0.0.1:8332/ '' @ verb @
     '' '' @ ots_file_path"

definition header_command :: "string \<Rightarrow> string" where
  "header_command block_height =
     ''curl -sSL '' @ [CHR 0x27] @ ''https://mempool.space/api/block-height/'' @ block_height @
     [CHR 0x27]"

definition is_ots_done :: "codec \<Rightarrow> programs \<Rightarrow> string \<Rightarrow> world \<Rightarrow> (exn + bool) \<times> world" where
  "is_ots_done cd env ots_file_path w =
     (let handler = (\<lambda>e w'. case e of
                       CalledProcessError c status \<Rightarrow>
                         (Inr False, print_line (''Failed to process: '' @ str_exn e) w')
                     | _ \<Rightarrow> (Inl e, w'));
          upgrade_command = ots_command ''asi0'' ''asi0'' ''upgrade'' ots_file_path
      in case subprocess_run cd env (Shell upgrade_command) w of
           (Inl e, w1) \<Rightarrow> handler e w1
         | (Inr upgrade_result, w1) \<Rightarrow>
             (let verify_command = ots_command ''asi0'' ''asi0'' ''verify'' ots_file_path
              in case subprocess_run cd env (Shell verify_command) w1 of
                   (Inl e, w2) \<Rightarrow> handler e w2
                 | (Inr verify_result, w2) \<Rightarrow>
                     (let w3 = print_line (repr_completed (Shell verify_command) verify_result) w2;
                          block_height = re_search match_block_height (stderr verify_result)
                      in (Inr (block_height \<noteq> None), w3))))"

definition get_ots_blockhash :: "codec \<Rightarrow> programs \<Rightarrow> string \<Rightarrow> world \<Rightarrow> (exn + string) \<times> world" where
  "get_ots_blockhash cd env ots_file_path w =
     (let handler = (\<lambda>e w'. case e of
                       CalledProcessError c status \<Rightarrow> (Inr (''Failed to process: '' @ str_exn e), w')
                     | AttributeError \<Rightarrow>
                         (Inr ''Block height not found in OTS verification output'', w')
                     | _ \<Rightarrow> (Inl e, w'));
          upgrade_command = ots_command ''asi0'' ''asi0'' ''upgrade'' ots_file_path
      in case subprocess_run cd env (Shell upgrade_command) w of
           (Inl e, w1) \<Rightarrow> handler e w1
         | (Inr upgrade_result, w1) \<Rightarrow>
             (let verify_command = ots_command ''asi0'' ''asi0'' ''verify'' ots_file_path
              in case subprocess_run cd env (Shell verify_command) w1 of
                   (Inl e, w2) \<Rightarrow> handler e w2
                 | (Inr verify_result, w2) \<Rightarrow>
                     (let w3 = print_line (repr_completed (Shell verify_command) verify_result) w2
                      in case re_search match_block_height (stderr verify_result) of
                           None \<Rightarrow> handler AttributeError w3
                         | Some block_height \<Rightarrow>
                             (let w4 = print_line block_height w3
                              in case subprocess_run cd env (Shell (header_command block_height)) w4 of
                                   (Inl e, w5) \<Rightarrow> handler e w5
                                 | (Inr header_result, w5) \<Rightarrow>
                                     (Inr (strip (stdout header_result)), w5)))))"

section \<open>generate\_bitcoin\_pdf\_certificate.py: the timestamp proof\<close>

text \<open>
  The same two functions in the script for the Bitcoin certificates: the credentials of
  the node come from the environment (\<open>RPC_USER\<close>, \<open>RPC_PASSWORD\<close>, as an f-string shows
  them), and nothing is printed on the way.
\<close>

definition pdf_is_ots_done ::
  "string \<Rightarrow> string \<Rightarrow> codec \<Rightarrow> programs \<Rightarrow> string \<Rightarrow> world \<Rightarrow> (exn + bool) \<times> world" where
  "pdf_is_ots_done rpc_user rpc_password cd env ots_file_path w =
     (let handler = (\<lambda>e w'. case e of
                       CalledProcessError c status \<Rightarrow>
                         (Inr False, print_line (''Failed to process: '' @ str_exn e) w')
                     | _ \<Rightarrow> (Inl e, w'));
          upgrade_command = ots_command rpc_user rpc_password ''upgrade'' ots_file_path
      in case subprocess_run cd env (Shell upgrade_command) w of
           (Inl e, w1) \<Rightarrow> handler e w1
         | (Inr upgrade_result, w1) \<Rightarrow>
             (let verify_command = ots_command rpc_user rpc_password ''verify'' ots_file_path
              in case subprocess_run cd env (Shell verify_command) w1 of
                   (Inl e, w2) \<Rightarrow> handler e w2
                 | (Inr verify_result, w2) \<Rightarrow>
                     (let block_height = re_search match_block_height (stderr verify_result)
                      in (Inr (block_height \<noteq> None), w2))))"

definition pdf_get_ots_blockhash ::
  "string \<Rightarrow> string \<Rightarrow> codec \<Rightarrow> programs \<Rightarrow> string \<Rightarrow> world \<Rightarrow> (exn + string) \<times> world" where
  "pdf_get_ots_blockhash rpc_user rpc_password cd env ots_file_path w =
     (let handler = (\<lambda>e w'. case e of
                       CalledProcessError c status \<Rightarrow> (Inr (''Failed to process: '' @ str_exn e), w')
                     | AttributeError \<Rightarrow>
                         (Inr ''Block height not found in OTS verification output'', w')
                     | _ \<Rightarrow> (Inl e, w'));
          upgrade_command = ots_command rpc_user rpc_password ''upgrade'' ots_file_path
      in case subprocess_run cd env (Shell upgrade_command) w of
           (Inl e, w1) \<Rightarrow> handler e w1
         | (Inr upgrade_result, w1) \<Rightarrow>
             (let verify_command = ots_command rpc_user rpc_password ''verify'' ots_file_path
              in case subprocess_run cd env (Shell verify_command) w1 of
                   (Inl e, w2) \<Rightarrow> handler e w2
                 | (Inr verify_result, w2) \<Rightarrow>
                     (case re_search match_block_height (stderr verify_result) of
                        None \<Rightarrow> handler AttributeError w2
                      | Some block_height \<Rightarrow>
                          (case subprocess_run cd env (Shell (header_command block_height)) w2 of
                             (Inl e, w5) \<Rightarrow> handler e w5
                           | (Inr header_result, w5) \<Rightarrow>
                               (Inr (strip (stdout header_result)), w5)))))"

section \<open>generate.py: the digest of a file\<close>

text \<open>
  \<open>hashlib\<close> is a library: its hash object is a parameter, a state with the three
  operations the script uses (\<open>hashlib.sha256()\<close>, \<open>update\<close>, \<open>hexdigest\<close>).
\<close>

record 's hashlib =
  hash_new :: 's
  hash_update :: "'s \<Rightarrow> string \<Rightarrow> 's"
  hash_hexdigest :: "'s \<Rightarrow> string"

function read_chunks :: "'s hashlib \<Rightarrow> string \<Rightarrow> 's \<Rightarrow> 's" where
  \<comment> \<open>\<open>for chunk in iter(lambda: file.read(4096), b""): hash_sha256.update(chunk)\<close>, with
      the bytes of the file that have not been read yet\<close>
  "read_chunks H unread hash_sha256 =
     (let chunk = take 4096 unread
      in if chunk = [] then hash_sha256
         else read_chunks H (drop 4096 unread) (hash_update H hash_sha256 chunk))"
  by pat_completeness auto
termination
  by (relation "measure (\<lambda>(H, unread, hash_sha256). length unread)") auto

declare read_chunks.simps [simp del]

definition compute_sha256 :: "'s hashlib \<Rightarrow> world \<Rightarrow> string \<Rightarrow> exn + string" where
  "compute_sha256 H w file_path =
     (case read_bytes w file_path of
        Inl e \<Rightarrow> Inl e
      | Inr bytes \<Rightarrow> Inr (hash_hexdigest H (read_chunks H bytes (hash_new H))))"

section \<open>generate.py: archiving\<close>

text \<open>
  The world holds files, not folders, so what \<open>os.makedirs(final_dir, exist_ok=True)\<close>
  leaves behind is not recorded; what it raises is. The path is refused when it holds
  the character 0, a file of that name is in the way (\<open>FileExistsError\<close>, an
  \<open>OSError\<close>), or the operating system denies the folder (\<open>denied path\<close> is then the
  message).

  \<open>shutil.move\<close> renames the file, replacing a file that has the name already. The
  operating system may refuse (permissions, a full disk): \<open>refuse src dst\<close> is then the
  message of the error raised, and the files are left as they were.
\<close>

type_synonym refusal = "string \<Rightarrow> string \<Rightarrow> string option"

definition os_makedirs :: "(string \<Rightarrow> string option) \<Rightarrow> string \<Rightarrow> world \<Rightarrow> exn + unit" where
  "os_makedirs denied path w =
     (if has_nul path then Inl ValueError
      else if map_of (files w) path \<noteq> None
      then Inl (OSError (''[Errno 17] File exists: '' @ repr path))
      else (case denied path of Some msg \<Rightarrow> Inl (OSError msg) | None \<Rightarrow> Inr ()))"

definition shutil_move :: "refusal \<Rightarrow> string \<Rightarrow> string \<Rightarrow> world \<Rightarrow> (exn + unit) \<times> world" where
  "shutil_move refuse src dst w =
     (if has_nul src \<or> has_nul dst then (Inl ValueError, w)
      else case map_of (files w) src of
        None \<Rightarrow> (Inl (FileNotFoundError src), w)
      | Some content \<Rightarrow>
          (case refuse src dst of
             Some msg \<Rightarrow> (Inl (OSError msg), w)
           | None \<Rightarrow> (Inr (), w\<lparr>files := AList.update dst content (AList.delete src (files w))\<rparr>)))"

fun move_each :: "refusal \<Rightarrow> string \<Rightarrow> string list \<Rightarrow> world \<Rightarrow> (exn + unit) \<times> world" where
  \<comment> \<open>the loop over \<open>files_to_move\<close>; an exception leaves the loop\<close>
  "move_each refuse final_dir [] w = (Inr (), w)"
| "move_each refuse final_dir (file_path # rest) w =
     (if path_exists w file_path then
        (case shutil_move refuse file_path (path_join final_dir (basename file_path)) w of
           (Inl e, w') \<Rightarrow> (Inl e, w')
         | (Inr u, w') \<Rightarrow> move_each refuse final_dir rest w')
      else move_each refuse final_dir rest
             (print_line (''Warning: File not found: '' @ file_path) w))"

definition move_files_to_final ::
  "(string \<Rightarrow> string option) \<Rightarrow> refusal \<Rightarrow> string \<Rightarrow> string \<Rightarrow> string \<Rightarrow> world
   \<Rightarrow> (exn + bool) \<times> world" where
  \<comment> \<open>\<open>os.makedirs\<close> stands before the \<open>try\<close>: what it raises leaves the function\<close>
  "move_files_to_final denied refuse pathfile signed_txt_path pdf_path w =
     (let current_dir = dirname pathfile;
          final_dir = path_join (dirname current_dir) ''final''
      in case os_makedirs denied final_dir w of
           Inl e \<Rightarrow> (Inl e, w)
         | Inr made \<Rightarrow>
             (let files_to_move = [pathfile, signed_txt_path, pdf_path]
              in case move_each refuse final_dir files_to_move w of
                   (Inr u, w') \<Rightarrow> (Inr True, w')
                 | (Inl e, w') \<Rightarrow>
                     (Inr False, print_line (''Error moving files: '' @ str_exn e) w')))"

definition final_path :: "string \<Rightarrow> string \<Rightarrow> string" where
  \<comment> \<open>where \<open>move_files_to_final\<close> puts a file: in the folder \<open>final\<close> beside the folder of
      \<open>pathfile\<close>, under the file's own name\<close>
  "final_path pathfile file_path =
     path_join (path_join (dirname (dirname pathfile)) ''final'') (basename file_path)"

section \<open>The plaintext certificates\<close>

text \<open>
  The two scripts that write the certificates as text work on data loaded from YAML
  and JSON, and call libraries: \<open>requests\<close>, \<open>yaml\<close>, \<open>str.format\<close>, the built-in \<open>sum\<close>,
  \<open>>=\<close> and \<open>str\<close> on loaded values, \<open>str.upper\<close>, and the clock. The loaded values are a
  datatype; a value of another type (a float, a date) is \<open>POther\<close> with its text. The
  library calls are parameters: a request gives the response or the message of the
  error raised (an \<open>OSError\<close>), a loader gives no value on a text it cannot parse.
\<close>

datatype pyval =
    PNone
  | PBool bool
  | PInt int
  | PStr string
  | PList "pyval list"
  | PDict "(pyval \<times> pyval) list"
  | POther string

record response =
  response_text :: string
  response_json :: "pyval option"

record library =
  requests_get :: "string \<Rightarrow> string + response"
  yaml_safe_load :: "string \<Rightarrow> pyval option"
  str_format :: "string \<Rightarrow> (string \<times> pyval) list \<Rightarrow> exn + string"
  builtin_sum :: "pyval list \<Rightarrow> exn + pyval"
  at_least :: "pyval \<Rightarrow> int \<Rightarrow> exn + bool"
  builtin_str :: "pyval \<Rightarrow> string"
  str_upper :: "string \<Rightarrow> string"
  today :: string

definition and_then ::
  "(exn + 'a) \<times> world \<Rightarrow> ('a \<Rightarrow> world \<Rightarrow> (exn + 'b) \<times> world) \<Rightarrow> (exn + 'b) \<times> world" where
  \<comment> \<open>one statement after another: an exception ends the sequence\<close>
  "and_then r k = (case r of (Inl e, w) \<Rightarrow> (Inl e, w) | (Inr x, w) \<Rightarrow> k x w)"

fun find_at :: "string \<Rightarrow> string \<Rightarrow> nat option" where
  \<comment> \<open>where \<open>sub\<close> first occurs in the text\<close>
  "find_at sub [] = (if sub = [] then Some 0 else None)"
| "find_at sub (c # cs) =
     (if startswith (c # cs) sub then Some 0 else map_option Suc (find_at sub cs))"

definition str_find :: "string \<Rightarrow> string \<Rightarrow> nat \<Rightarrow> int" where
  \<comment> \<open>\<open>s.find(sub, start)\<close> for a \<open>sub\<close> that is not empty\<close>
  "str_find s sub start =
     (case find_at sub (drop start s) of None \<Rightarrow> - 1 | Some i \<Rightarrow> int (start + i))"

definition slice_int :: "string \<Rightarrow> int \<Rightarrow> int \<Rightarrow> string" where
  \<comment> \<open>\<open>s[i:j]\<close>: a negative index counts from the end, and both are clipped\<close>
  "slice_int s i j =
     (let n = int (length s);
          lo = (if i < 0 then max 0 (n + i) else min i n);
          hi = (if j < 0 then max 0 (n + j) else min j n)
      in take (nat (hi - lo)) (drop (nat lo) s))"

definition dict_get :: "pyval \<Rightarrow> string \<Rightarrow> pyval \<Rightarrow> exn + pyval" where
  \<comment> \<open>\<open>d.get(key, default)\<close>\<close>
  "dict_get d key dflt =
     (case d of
        PDict items \<Rightarrow> (case map_of items (PStr key) of Some v \<Rightarrow> Inr v | None \<Rightarrow> Inr dflt)
      | _ \<Rightarrow> Inl AttributeError)"

definition subscript :: "pyval \<Rightarrow> string \<Rightarrow> exn + pyval" where
  \<comment> \<open>\<open>d[key]\<close> for a text \<open>key\<close>\<close>
  "subscript d key =
     (case d of
        PDict items \<Rightarrow> (case map_of items (PStr key) of Some v \<Rightarrow> Inr v | None \<Rightarrow> Inl (KeyError key))
      | _ \<Rightarrow> Inl TypeError)"

definition first_item :: "pyval \<Rightarrow> exn + pyval" where
  \<comment> \<open>\<open>xs[0]\<close>\<close>
  "first_item xs =
     (case xs of
        PList (x # rest) \<Rightarrow> Inr x
      | PList [] \<Rightarrow> Inl IndexError
      | PStr (c # rest) \<Rightarrow> Inr (PStr [c])
      | PStr [] \<Rightarrow> Inl IndexError
      | PDict items \<Rightarrow> (case map_of items (PInt 0) of Some v \<Rightarrow> Inr v | None \<Rightarrow> Inl (KeyError ''0''))
      | _ \<Rightarrow> Inl TypeError)"

definition contains :: "string \<Rightarrow> pyval \<Rightarrow> exn + bool" where
  \<comment> \<open>\<open>key in d\<close> for a text \<open>key\<close>\<close>
  "contains key d =
     (case d of
        PDict items \<Rightarrow> Inr (map_of items (PStr key) \<noteq> None)
      | PList xs \<Rightarrow> Inr (PStr key \<in> set xs)
      | PStr s \<Rightarrow> Inr (find_at key s \<noteq> None)
      | _ \<Rightarrow> Inl TypeError)"

definition dict_values :: "pyval \<Rightarrow> exn + pyval list" where
  \<comment> \<open>\<open>d.values()\<close>\<close>
  "dict_values d = (case d of PDict items \<Rightarrow> Inr (map snd items) | _ \<Rightarrow> Inl AttributeError)"

subsection \<open>Helpers of both scripts\<close>

definition height_command :: string where
  "height_command =
     ''curl -sSL '' @ [CHR 0x27] @ ''https://mempool.space/api/blocks/tip/height'' @ [CHR 0x27]"

definition get_latest_block_header ::
  "bool \<Rightarrow> codec \<Rightarrow> programs \<Rightarrow> world \<Rightarrow> (exn + string) \<times> world" where
  \<comment> \<open>\<open>labelled\<close>: generate\_bitcoin\_txt\_certificate.py prints height and header behind a
      label, generate\_course\_txt\_certificate.py prints them bare\<close>
  "get_latest_block_header labelled cd env w =
     (let handler = (\<lambda>e w'. case e of
                       CalledProcessError c status \<Rightarrow>
                         (Inr (''Failed to fetch block data: '' @ str_exn e), w')
                     | _ \<Rightarrow> (Inl e, w'))
      in case subprocess_run cd env (Shell height_command) w of
           (Inl e, w1) \<Rightarrow> handler e w1
         | (Inr height_result, w1) \<Rightarrow>
             (let current_height = strip (stdout height_result);
                  w2 = print_line ((if labelled then ''Current block height: '' else [])
                                   @ current_height) w1
              in case subprocess_run cd env (Shell (header_command current_height)) w2 of
                   (Inl e, w3) \<Rightarrow> handler e w3
                 | (Inr header_result, w3) \<Rightarrow>
                     (let current_header = strip (stdout header_result);
                          w4 = print_line ((if labelled then ''Current block header: '' else [])
                                           @ current_header) w3
                      in (Inr current_header, w4))))"

definition sign_command :: "string \<Rightarrow> string \<Rightarrow> string" where
  "sign_command signed_file file_path =
     ''gpg --default-key admin@planb.network --output '' @ [CHR 0x22] @ signed_file @ [CHR 0x22] @
     '' --clearsign '' @ [CHR 0x22] @ file_path @ [CHR 0x22]"

definition sign_certificate :: "programs \<Rightarrow> string \<Rightarrow> world \<Rightarrow> (exn + string) \<times> world" where
  \<comment> \<open>\<open>file_path[:-4]\<close> drops the last four characters\<close>
  "sign_certificate env file_path w =
     (let signed_file = slice_int file_path 0 (- 4) @ ''-signed.txt''
      in case subprocess_run_plain env (Shell (sign_command signed_file file_path)) w of
           (Inl e, w') \<Rightarrow> (Inl e, w')
         | (Inr finished, w') \<Rightarrow> (Inr signed_file, w'))"

definition timestamp_command :: "string \<Rightarrow> string" where
  "timestamp_command file_path = ''ots stamp '' @ [CHR 0x22] @ file_path @ [CHR 0x22]"

definition timestamp_file :: "programs \<Rightarrow> string \<Rightarrow> world \<Rightarrow> (exn + unit) \<times> world" where
  "timestamp_file env file_path w = subprocess_run_plain env (Shell (timestamp_command file_path)) w"

definition get_total_score :: "library \<Rightarrow> pyval \<Rightarrow> world \<Rightarrow> (exn + pyval) \<times> world" where
  "get_total_score lib result_data w =
     (case contains ''categories'' result_data of
        Inl e \<Rightarrow> (Inl e, w)
      | Inr present \<Rightarrow>
          if \<not> present
          then (Inr (PInt 0),
                print_line (''No '' @ [CHR 0x27] @ ''categories'' @ [CHR 0x27] @
                            '' found in result data'') w)
          else (case subscript result_data ''categories'' of
                  Inl e \<Rightarrow> (Inl e, w)
                | Inr categories \<Rightarrow>
                    (case dict_values categories of
                       Inl e \<Rightarrow> (Inl e, w)
                     | Inr scores \<Rightarrow> (builtin_sum lib scores, w))))"

subsection \<open>generate\_bitcoin\_txt\_certificate.py\<close>

definition bitcoin_generate_certificate ::
  "library \<Rightarrow> codec \<Rightarrow> programs \<Rightarrow> pyval \<Rightarrow> pyval \<Rightarrow> string \<Rightarrow> world \<Rightarrow> (exn + unit) \<times> world" where
  "bitcoin_generate_certificate lib cd env edition_data result_data result_folder_path w =
     and_then (Inr (), print_line ''Generating certificate...'' w) (\<lambda>printed w.
     and_then (dict_get result_data ''username'' (PStr ''Unknown''), w) (\<lambda>username w.
     and_then (dict_get result_data ''display_name'' (PStr ''Unknown''), w) (\<lambda>fullname w.
     and_then (get_total_score lib result_data w) (\<lambda>total_score w.
     and_then (dict_get edition_data ''exam_id'' (PStr ''Unknown''), w) (\<lambda>exam_id w.
     and_then (dict_get edition_data ''location'' (PStr ''Unknown''), w) (\<lambda>location w.
     and_then (dict_get edition_data ''date'' PNone, w) (\<lambda>date w.
     and_then (get_latest_block_header True cd env w) (\<lambda>last_block_header w.
     and_then (read_text cd w (path_join ''../templates'' ''pbn_bitcoin_certificate.txt''), w)
       (\<lambda>template_content w.
     and_then (str_format lib template_content
                 [(''username'', username), (''fullname'', fullname),
                  (''total_score'', total_score), (''exam_id'', exam_id),
                  (''location'', location), (''date'', date),
                  (''last_block_header'', PStr last_block_header)], w)
       (\<lambda>certificate_content w.
     (let file_path = path_join result_folder_path ''bitcoin_certificate.txt''
      in
     and_then (write_text cd file_path certificate_content w) (\<lambda>written w.
     and_then (Inr (), print_line (''Certificate generated: '' @ file_path) w) (\<lambda>printed w.
     and_then (sign_certificate env file_path w) (\<lambda>signed_file w.
     and_then (Inr (), print_line (''Certificate signed: '' @ signed_file) w) (\<lambda>printed w.
     and_then (os_remove file_path w) (\<lambda>removed w.
     and_then (timestamp_file env signed_file w) (\<lambda>stamped w.
     (Inr (), print_line (''Certificate timestamped: '' @ signed_file) w))))))))))))))))))"

subsection \<open>generate\_course\_txt\_certificate.py\<close>

definition content_url :: "string \<Rightarrow> string \<Rightarrow> string" where
  "content_url course_id file_name =
     ''https://raw.githubusercontent.com/PlanB-Network/bitcoin-educational-content/mainnet/courses/''
     @ course_id @ ''/'' @ file_name"

definition fetch :: "library \<Rightarrow> string \<Rightarrow> exn + response" where
  \<comment> \<open>\<open>requests.get(url)\<close>\<close>
  "fetch lib url = (case requests_get lib url of Inl msg \<Rightarrow> Inl (OSError msg) | Inr r \<Rightarrow> Inr r)"

definition safe_load :: "library \<Rightarrow> string \<Rightarrow> exn + pyval" where
  \<comment> \<open>\<open>yaml.safe_load(text)\<close>\<close>
  "safe_load lib s = (case yaml_safe_load lib s of None \<Rightarrow> Inl YAMLError | Some v \<Rightarrow> Inr v)"

definition get_last_commit_hash ::
  "library \<Rightarrow> string \<Rightarrow> string \<Rightarrow> string \<Rightarrow> exn + pyval" where
  "get_last_commit_hash lib repo_owner repo_name file_path =
     (let api_url = ''https://api.github.com/repos/'' @ repo_owner @ ''/'' @ repo_name @
                    ''/commits?path='' @ file_path
      in case fetch lib api_url of
           Inl e \<Rightarrow> Inl e
         | Inr response \<Rightarrow>
             (case response_json response of
                None \<Rightarrow> Inl ValueError
              | Some commits \<Rightarrow>
                  (case first_item commits of
                     Inl e \<Rightarrow> Inl e
                   | Inr commit \<Rightarrow> subscript commit ''sha'')))"

definition course_generate_certificate ::
  "library \<Rightarrow> codec \<Rightarrow> programs \<Rightarrow> (string \<Rightarrow> string option) \<Rightarrow> string \<Rightarrow> string \<Rightarrow> string \<Rightarrow>
   world \<Rightarrow> (exn + unit) \<times> world" where
  "course_generate_certificate lib cd env denied username fullname course_id w =
     and_then (fetch lib (content_url course_id ''course.yml''), w) (\<lambda>response w.
     and_then (safe_load lib (response_text response), w) (\<lambda>course_data w.
     and_then (subscript course_data ''level'', w) (\<lambda>level w.
     and_then (subscript course_data ''hours'', w) (\<lambda>duration w.
     and_then (fetch lib (content_url course_id ''en.md''), w) (\<lambda>response w.
     (let en_content = response_text response;
          header_start = str_find en_content ''---'' 0;
          header_end = str_find en_content ''---'' (nat (header_start + 1));
          header_content = strip (slice_int en_content (header_start + 3) header_end)
      in
     and_then (safe_load lib header_content, w) (\<lambda>header_data w.
     and_then (subscript header_data ''name'', w) (\<lambda>course_name w.
     and_then (subscript header_data ''goal'', w) (\<lambda>goal w.
     and_then (get_last_commit_hash lib ''PlanB-Network'' ''bitcoin-educational-content''
                 (''courses/'' @ course_id @ ''/en.md''), w) (\<lambda>last_commit_hash w.
     (let completion_date = today lib
      in
     and_then (get_latest_block_header False cd env w) (\<lambda>last_block_header w.
     and_then (read_text cd w (path_join ''../templates'' ''pbn_course_certificate.txt''), w)
       (\<lambda>template_content w.
     and_then (str_format lib template_content
                 [(''username'', PStr username), (''fullname'', PStr fullname),
                  (''course_name'', course_name), (''course_id'', PStr (str_upper lib course_id)),
                  (''level'', level), (''goal'', goal), (''duration'', duration),
                  (''last_commit_hash'', last_commit_hash), (''date'', PStr completion_date),
                  (''last_block_header'', PStr last_block_header)], w)
       (\<lambda>certificate_content w.
     (let file_name = ''course_certificate_'' @ username @ ''_'' @ course_id @ ''.txt'';
          pending_folder = ''../pending''
      in
     and_then (os_makedirs denied pending_folder w, w) (\<lambda>made w.
     (let file_path = path_join pending_folder file_name
      in
     and_then (write_text cd file_path certificate_content w) (\<lambda>written w.
     and_then (Inr (), print_line (''Certificate generated: '' @ file_path) w) (\<lambda>printed w.
     and_then (sign_certificate env file_path w) (\<lambda>signed_file w.
     and_then (Inr (), print_line (''Certificate signed: '' @ signed_file) w) (\<lambda>printed w.
     and_then (os_remove file_path w) (\<lambda>removed w.
     and_then (timestamp_file env signed_file w) (\<lambda>stamped w.
     (Inr (), print_line (''Certificate timestamped: '' @ signed_file) w))))))))))))))))))))))))"

subsection \<open>The files of a certificate\<close>

definition bitcoin_certificate_path :: "string \<Rightarrow> string" where
  \<comment> \<open>\<open>file_path\<close> in generate\_bitcoin\_txt\_certificate.py\<close>
  "bitcoin_certificate_path result_folder_path =
     path_join result_folder_path ''bitcoin_certificate.txt''"

definition course_certificate_path :: "string \<Rightarrow> string \<Rightarrow> string" where
  \<comment> \<open>\<open>file_path\<close> in generate\_course\_txt\_certificate.py\<close>
  "course_certificate_path username course_id =
     path_join ''../pending'' (''course_certificate_'' @ username @ ''_'' @ course_id @ ''.txt'')"

definition signed_path :: "string \<Rightarrow> string" where
  \<comment> \<open>\<open>signed_file\<close> in \<open>sign_certificate\<close>\<close>
  "signed_path file_path = slice_int file_path 0 (- 4) @ ''-signed.txt''"

subsection \<open>generate\_bitcoin\_txt\_certificate.py: one result\<close>

definition load_yaml_file :: "library \<Rightarrow> codec \<Rightarrow> world \<Rightarrow> string \<Rightarrow> exn + pyval" where
  "load_yaml_file lib cd w file_path =
     (case read_text cd w file_path of
        Inl e \<Rightarrow> Inl e
      | Inr yaml_file \<Rightarrow> safe_load lib yaml_file)"

definition process_result ::
  "library \<Rightarrow> codec \<Rightarrow> programs \<Rightarrow> pyval \<Rightarrow> string \<Rightarrow> string \<Rightarrow> world \<Rightarrow> (exn + unit) \<times> world" where
  "process_result lib cd env edition_data result_folder subfolder w =
     (let result_yml_path = path_join (path_join result_folder subfolder) ''result.yml''
      in if \<not> path_exists w result_yml_path
         then (Inr (), print_line (''result.yml not found in '' @ path_join result_folder subfolder) w)
         else
     and_then (load_yaml_file lib cd w result_yml_path, w) (\<lambda>result_data w.
     and_then (dict_get result_data ''username'' (PStr ''Unknown''), w) (\<lambda>username w.
     and_then (Inr (), print_line (''Processing result for: '' @ builtin_str lib username) w)
       (\<lambda>printed w.
     and_then (get_total_score lib result_data w) (\<lambda>total_score w.
     and_then (at_least lib total_score 80, w) (\<lambda>passed w.
     and_then
       (if passed then
          and_then (Inr (), print_line (''user has passed with '' @ builtin_str lib total_score) w)
            (\<lambda>printed w.
          (let result_folder_path = path_join result_folder subfolder;
               ots_file = path_join result_folder_path ''bitcoin_certificate-signed.txt.ots''
           in if path_exists w ots_file
              then and_then (dict_get result_data ''username'' (PStr ''Unknown''), w) (\<lambda>username w.
                   (Inr (), print_line (''Certificate already generated for '' @
                                        builtin_str lib username) w))
              else and_then (Inr (), print_line ''generation in progress..'' w) (\<lambda>printed w.
                   bitcoin_generate_certificate lib cd env edition_data result_data
                     result_folder_path w)))
        else (Inr (), print_line (''user did not pass with '' @ builtin_str lib total_score) w))
       (\<lambda>finished w. (Inr (), print_line [] w))))))))"

section \<open>generate\_bitcoin\_pdf\_certificate.py: the pending certificates\<close>

definition splitext_root :: "string \<Rightarrow> string" where
  \<comment> \<open>\<open>os.path.splitext(name)[0]\<close> for a name without a slash: the name up to its last
      dot, unless only dots stand before that dot\<close>
  "splitext_root name =
     (let dot = length name - length (takeWhile (\<lambda>c. c \<noteq> CHR ''.'') (rev name))
      in if dot = 0 \<or> list_all (\<lambda>c. c = CHR ''.'') (take (dot - 1) name) then name
         else take (dot - 1) name)"

definition pdf_compile_tex_to_pdf ::
  "codec \<Rightarrow> programs \<Rightarrow> string \<Rightarrow> world \<Rightarrow> (exn + bool) \<times> world" where
  "pdf_compile_tex_to_pdf cd env tex_filepath w =
     (let folder_path = dirname tex_filepath;
          file_name = splitext_root (basename tex_filepath);
          handler = (\<lambda>e w'. case e of
                       CalledProcessError c status \<Rightarrow>
                         (Inr False, print_line (''Error running lualatex: '' @ str_exn e) w')
                     | _ \<Rightarrow> (Inl e, w'));
          lualatex = Argv [''lualatex'', ''-interaction=nonstopmode'', tex_filepath] folder_path
      in case subprocess_run cd env lualatex w of
           (Inl e, w1) \<Rightarrow> handler e w1
         | (Inr result, w1) \<Rightarrow>
             (case subprocess_run cd env lualatex w1 of
                (Inl e, w2) \<Rightarrow> handler e w2
              | (Inr result, w2) \<Rightarrow>
                  (let pdf_path = path_join folder_path (file_name @ ''.pdf'')
                   in if path_exists w2 pdf_path then (Inr True, w2)
                      else (Inr False, print_line ''PDF not produced after two passes.'' w2))))"

definition os_listdir :: "world \<Rightarrow> string \<Rightarrow> exn + string list" where
  \<comment> \<open>the names of the files that lie in the folder itself\<close>
  "os_listdir w folder_path =
     (if has_nul folder_path then Inl ValueError
      else if folder_path = [] then Inl (FileNotFoundError folder_path)
      else (let inside = (if endswith folder_path ''/'' then folder_path else folder_path @ ''/'')
            in Inr (remdups
                 (filter (\<lambda>name. name \<noteq> [] \<and> CHR ''/'' \<notin> set name)
                    (map (\<lambda>path. drop (length inside) path)
                       (filter (\<lambda>path. startswith path inside) (map fst (files w))))))))"

fun clean_each :: "string \<Rightarrow> string list \<Rightarrow> world \<Rightarrow> (exn + unit) \<times> world" where
  \<comment> \<open>the loop of \<open>clean_bak_files\<close>; \<open>FileNotFoundError\<close> is an \<open>OSError\<close>\<close>
  "clean_each folder_path [] w = (Inr (), w)"
| "clean_each folder_path (file # rest) w =
     (if endswith file ''.bak'' then
        (let file_path = path_join folder_path file
         in case os_remove file_path w of
              (Inr removed, w') \<Rightarrow>
                clean_each folder_path rest (print_line (''Removed backup file: '' @ file) w')
            | (Inl e, w') \<Rightarrow>
                (case e of
                   OSError msg \<Rightarrow>
                     clean_each folder_path rest
                       (print_line (''Error removing '' @ file @ '': '' @ str_exn e) w')
                 | FileNotFoundError path \<Rightarrow>
                     clean_each folder_path rest
                       (print_line (''Error removing '' @ file @ '': '' @ str_exn e) w')
                 | _ \<Rightarrow> (Inl e, w')))
      else clean_each folder_path rest w)"

definition clean_bak_files :: "string \<Rightarrow> world \<Rightarrow> (exn + unit) \<times> world" where
  "clean_bak_files folder_path w =
     (case os_listdir w folder_path of
        Inl e \<Rightarrow> (Inl e, w)
      | Inr listed \<Rightarrow> clean_each folder_path listed w)"

definition ots_file_in :: "string \<Rightarrow> string" where
  "ots_file_in result_folder_path =
     path_join result_folder_path ''bitcoin_certificate-signed.txt.ots''"

definition pdf_file_in :: "string \<Rightarrow> string" where
  "pdf_file_in result_folder_path =
     path_join result_folder_path ''bitcoin_certificate-signed.pdf''"

definition process_subfolder ::
  "string \<Rightarrow> string \<Rightarrow> bool \<Rightarrow> 's hashlib \<Rightarrow> codec \<Rightarrow> programs \<Rightarrow> refusal \<Rightarrow> string \<Rightarrow> string \<Rightarrow>
   world \<Rightarrow> (exn + unit) \<times> world" where
  \<comment> \<open>the body of the loop over the subfolders of a results folder\<close>
  "process_subfolder rpc_user rpc_password padded H cd env refuse result_folder subfolder w =
     (let result_folder_path = path_join result_folder subfolder;
          ots_file = path_join result_folder_path ''bitcoin_certificate-signed.txt.ots'';
          pdf_file = path_join result_folder_path ''bitcoin_certificate-signed.pdf''
      in if path_exists w ots_file \<and> \<not> path_exists w pdf_file then
     and_then (Inr (), print_line (''Processing '' @ subfolder @ ''..'') w) (\<lambda>printed w.
     and_then (pdf_is_ots_done rpc_user rpc_password cd env ots_file w) (\<lambda>timestamped w.
     and_then
       (if timestamped then
          (let signed_txt_path = removesuffix ots_file ''.ots''
           in
          and_then (pdf_get_ots_blockhash rpc_user rpc_password cd env ots_file w) (\<lambda>blockhash w.
          (let (txid_1, txid_2) = split_and_format_hash blockhash
           in
          and_then (compute_sha256 H w signed_txt_path, w) (\<lambda>digest w.
          (let (hash_1, hash_2) = split_and_format_hash digest
           in
          and_then (extract_property cd w signed_txt_path ''Display name'', w) (\<lambda>fullname w.
          and_then (extract_property cd w signed_txt_path ''Date of completion'', w)
            (\<lambda>completion w.
          and_then (case completion of
                      None \<Rightarrow> Inl TypeError
                    | Some date_string \<Rightarrow> format_date padded date_string, w) (\<lambda>date w.
          (let certificate_data =
                 [(''fullname'', case fullname of None \<Rightarrow> ''None'' | Some name \<Rightarrow> name),
                  (''date'', date), (''hash1'', hash_1), (''hash2'', hash_2),
                  (''txid1'', txid_1), (''txid2'', txid_2)];
               pending_folder = ''../pending'';
               tex_template_path = ''../templates/pbn_bitcoin_certificate.tex'';
               temp_tex_path = path_join pending_folder ''bitcoin_certificate-signed.tex'';
               temp_pdf_path = path_join pending_folder ''bitcoin_certificate-signed.pdf''
           in
          and_then (modify_and_save_tex cd tex_template_path temp_tex_path certificate_data w)
            (\<lambda>saved w.
          and_then (pdf_compile_tex_to_pdf cd env temp_tex_path w) (\<lambda>compiled w.
          if path_exists w temp_pdf_path then
            (let target_pdf_path = path_join result_folder_path ''bitcoin_certificate-signed.pdf''
             in
            and_then (shutil_move refuse temp_pdf_path target_pdf_path w) (\<lambda>moved w.
            and_then (Inr (), print_line ''PDF Certificate generated and moved to target folder'' w)
              (\<lambda>printed w.
            clean_bak_files result_folder_path w)))
          else (Inr (), print_line ''Failed to generate PDF certificate'' w))))))))))))
        else (Inr (), print_line ''Timestamp not ready yet..'' w))
       (\<lambda>finished w. (Inr (), print_line [] w))))
      else (Inr (), w))"

fun process_subfolders ::
  "string \<Rightarrow> string \<Rightarrow> bool \<Rightarrow> 's hashlib \<Rightarrow> codec \<Rightarrow> programs \<Rightarrow> refusal \<Rightarrow> string \<Rightarrow>
   string list \<Rightarrow> world \<Rightarrow> (exn + unit) \<times> world" where
  \<comment> \<open>\<open>for subfolder in sorted(subfolders)\<close>, on the sorted list\<close>
  "process_subfolders rpc_user rpc_password padded H cd env refuse result_folder [] w = (Inr (), w)"
| "process_subfolders rpc_user rpc_password padded H cd env refuse result_folder (subfolder # rest) w =
     and_then (process_subfolder rpc_user rpc_password padded H cd env refuse result_folder subfolder w)
       (\<lambda>finished w'.
          process_subfolders rpc_user rpc_password padded H cd env refuse result_folder rest w')"

definition process_results_folder ::
  "string \<Rightarrow> string \<Rightarrow> bool \<Rightarrow> 's hashlib \<Rightarrow> codec \<Rightarrow> programs \<Rightarrow> refusal \<Rightarrow> string \<Rightarrow>
   string list \<Rightarrow> world \<Rightarrow> (exn + unit) \<times> world" where
  \<comment> \<open>\<open>subfolders = sorted(subfolders)\<close> and the loop over \<open>sorted(subfolders)\<close>\<close>
  "process_results_folder rpc_user rpc_password padded H cd env refuse result_folder subfolders w =
     process_subfolders rpc_user rpc_password padded H cd env refuse result_folder
       (sort (sort subfolders)) w"

chapter \<open>Properties\<close>


section \<open>Display split of a hash\<close>

lemma range_step_4:
  "0 < n \<Longrightarrow> range_step n 4 = 0 # map (\<lambda>i. i + 4) (range_step (n - 4) 4)"
proof -
  assume n: "0 < n"
  have d: "(n + 4 - 1) div 4 = Suc ((n - 4 + 4 - 1) div 4)"
    using n by (cases "n < 4") auto
  show ?thesis
    unfolding range_step_def d
    by (simp add: upt_rec [of 0 "Suc _"] map_Suc_upt [symmetric] o_def del: upt_Suc)
qed

lemma range_step_0: "range_step 0 4 = []"
  by (simp add: range_step_def)

lemma format_hash_join:
  "format_hash h = join '' '' (map (\<lambda>i. slice h i (i + 4)) (range_step (length h) 4))"
  by (simp add: format_hash_def)

lemma join_Cons: "join sep (x # xs) = (if xs = [] then x else x @ sep @ join sep xs)"
  by (cases xs) auto

lemma format_hash_rec:
  "format_hash h = (if length h \<le> 4 then h else take 4 h @ '' '' @ format_hash (drop 4 h))"
proof (cases "h = []")
  case True
  then show ?thesis by (simp add: format_hash_join range_step_0)
next
  case False
  have c: "map (\<lambda>i. slice h i (i + 4)) (range_step (length h) 4) =
           take 4 h # map (\<lambda>i. slice (drop 4 h) i (i + 4)) (range_step (length (drop 4 h)) 4)"
    using False by (simp add: range_step_4 slice_def o_def add.commute)
  have e: "map (\<lambda>i. slice (drop 4 h) i (i + 4)) (range_step (length (drop 4 h)) 4) = []
           \<longleftrightarrow> length h \<le> 4"
  proof (cases "length h \<le> 4")
    case True
    then show ?thesis by (simp add: range_step_0)
  next
    case False
    then show ?thesis by (simp add: range_step_4)
  qed
  show ?thesis
    unfolding format_hash_join [of h] c join_Cons e
    by (simp add: format_hash_join)
qed

lemma remove_inserted_format_hash: "remove_inserted (format_hash h) = h"
proof (induction h rule: length_induct)
  case (1 h)
  show ?case
  proof (cases "length h \<le> 4")
    case True
    then have "format_hash h = h" using format_hash_rec [of h] by simp
    moreover have "remove_inserted h = h" using True
      by (cases h rule: remove_inserted.cases) auto
    ultimately show ?thesis by simp
  next
    case False
    then obtain a b c d r where h: "h = a # b # c # d # r" and r: "r \<noteq> []"
      by (cases h rule: remove_inserted.cases) auto
    have "format_hash h = a # b # c # d # CHR '' '' # format_hash r"
      using format_hash_rec [of h] h r by simp
    moreover have "remove_inserted (format_hash r) = r"
      using 1 h by simp
    ultimately show ?thesis using h by simp
  qed
qed

lemma filter_format_hash:
  "CHR '' '' \<notin> set h \<Longrightarrow> filter (\<lambda>c. c \<noteq> CHR '' '') (format_hash h) = h"
proof (induction h rule: length_induct)
  case (1 h)
  show ?case
  proof (cases "length h \<le> 4")
    case True
    then have "format_hash h = h" using format_hash_rec [of h] by simp
    then show ?thesis using 1(2) by (auto simp: filter_id_conv)
  next
    case False
    then have e: "format_hash h = take 4 h @ '' '' @ format_hash (drop 4 h)"
      using format_hash_rec [of h] by simp
    have "CHR '' '' \<notin> set (drop 4 h)" "CHR '' '' \<notin> set (take 4 h)"
      using 1(2) by (auto dest: in_set_dropD in_set_takeD)
    moreover have "length (drop 4 h) < length h" using False by simp
    ultimately have "filter (\<lambda>c. c \<noteq> CHR '' '') (format_hash (drop 4 h)) = drop 4 h"
      and "filter (\<lambda>c. c \<noteq> CHR '' '') (take 4 h) = take 4 h"
      using 1(1) by (auto simp: filter_id_conv)
    then show ?thesis by (simp add: e)
  qed
qed

text \<open>
  Claim C2. \<open>split_and_format_hash\<close> cuts its argument at \<open>len // 2\<close>, so the first half of
  a string of odd length is one character shorter than the second, and formats each half
  with \<open>format_hash\<close>, which puts one space after every full group of four characters
  that more characters follow. Deleting the inserted separators from both halves and
  concatenating gives the argument back, for every string; when the argument has no
  space of its own, deleting every space does the same.
\<close>

theorem split_and_format_hash_round_trip:
  "split_and_format_hash s =
     (format_hash (take (length s div 2) s), format_hash (drop (length s div 2) s))
   \<and> length (take (length s div 2) s) + length s mod 2 = length (drop (length s div 2) s)
   \<and> (\<forall>h. format_hash h =
          (if length h \<le> 4 then h else take 4 h @ '' '' @ format_hash (drop 4 h)))
   \<and> remove_inserted (fst (split_and_format_hash s)) @
       remove_inserted (snd (split_and_format_hash s)) = s
   \<and> (CHR '' '' \<notin> set s \<longrightarrow>
        filter (\<lambda>c. c \<noteq> CHR '' '')
          (fst (split_and_format_hash s) @ snd (split_and_format_hash s)) = s)"
proof -
  have split: "split_and_format_hash s =
     (format_hash (take (length s div 2) s), format_hash (drop (length s div 2) s))"
    by (simp add: split_and_format_hash_def Let_def)
  have len: "length (take (length s div 2) s) + length s mod 2
             = length (drop (length s div 2) s)"
  proof -
    have "length (take (length s div 2) s) = length s div 2"
      by (simp add: min_absorb2)
    moreover have "length (drop (length s div 2) s) = length s - length s div 2"
      by simp
    ultimately show ?thesis by presburger
  qed
  have round: "remove_inserted (fst (split_and_format_hash s)) @
              remove_inserted (snd (split_and_format_hash s)) = s"
    by (simp add: split remove_inserted_format_hash)
  have plain: "filter (\<lambda>c. c \<noteq> CHR '' '')
                 (fst (split_and_format_hash s) @ snd (split_and_format_hash s)) = s"
    if "CHR '' '' \<notin> set s"
  proof -
    have "CHR '' '' \<notin> set (take (length s div 2) s)" "CHR '' '' \<notin> set (drop (length s div 2) s)"
      using that by (auto dest: in_set_takeD in_set_dropD)
    then show ?thesis by (simp add: split filter_format_hash)
  qed
  have rec: "\<forall>h. format_hash h =
          (if length h \<le> 4 then h else take 4 h @ '' '' @ format_hash (drop 4 h))"
    by (rule allI) (rule format_hash_rec)
  from plain have plain': "CHR '' '' \<notin> set s \<longrightarrow>
        filter (\<lambda>c. c \<noteq> CHR '' '')
          (fst (split_and_format_hash s) @ snd (split_and_format_hash s)) = s"
    by (rule impI)
  show ?thesis
    by (intro conjI) (rule split, rule len, rule rec, rule round, rule plain')
qed

theorem split_and_format_hash_round_trip_witness:
  "CHR '' '' \<notin> set ''0123456789abcde''
   \<and> split_and_format_hash ''0123456789abcde'' = (''0123 456'', ''789a bcde'')
   \<and> filter (\<lambda>c. c \<noteq> CHR '' '') (''0123 456'' @ ''789a bcde'') = ''0123456789abcde''"
proof -
  note t = split_and_format_hash_round_trip [of "''0123456789abcde''"]
  have h: "CHR '' '' \<notin> set ''0123456789abcde''" by simp
  have f: "format_hash ''0123456'' = ''0123 456''" "format_hash ''789abcde'' = ''789a bcde''"
    by (simp_all add: format_hash_rec [of "''0123456''"] format_hash_rec [of "''789abcde''"]
        format_hash_rec [of "''456''"] format_hash_rec [of "''bcde''"])
  have v: "split_and_format_hash ''0123456789abcde'' = (''0123 456'', ''789a bcde'')"
    using t [THEN conjunct1] f by simp
  have p: "filter (\<lambda>c. c \<noteq> CHR '' '')
             (fst (split_and_format_hash ''0123456789abcde'') @
              snd (split_and_format_hash ''0123456789abcde'')) = ''0123456789abcde''"
    by (rule mp [OF t [THEN conjunct2, THEN conjunct2, THEN conjunct2, THEN conjunct2] h])
  from p have p': "filter (\<lambda>c. c \<noteq> CHR '' '') (''0123 456'' @ ''789a bcde'') = ''0123456789abcde''"
    unfolding v fst_conv snd_conv .
  show ?thesis
    by (intro conjI) (rule h, rule v, rule p')
qed


section \<open>Date formatting\<close>

lemma chr_eq_ord:
  "(c = CHR ''0'') = (of_char c = (48::nat))"
  "(c = CHR ''1'') = (of_char c = (49::nat))"
  "(c = CHR ''3'') = (of_char c = (51::nat))"
  "(c = CHR '' '') = (of_char c = (32::nat))"
  "(c = CHR ''-'') = (of_char c = (45::nat))"
  using of_char_eq_iff [of c "CHR ''0''", where ?'a = nat]
    of_char_eq_iff [of c "CHR ''1''", where ?'a = nat]
    of_char_eq_iff [of c "CHR ''3''", where ?'a = nat]
    of_char_eq_iff [of c "CHR '' ''", where ?'a = nat]
    of_char_eq_iff [of c "CHR ''-''", where ?'a = nat]
  by simp_all

lemma int_of_digits_2: "int_of_digits [a, b] = 10 * digit_val a + digit_val b"
  by (simp add: int_of_digits_def)

lemma int_of_digits_1: "int_of_digits [a] = digit_val a"
  by (simp add: int_of_digits_def)

lemma match_month_two:
  assumes "is_digit a" "is_digit b"
    and "1 \<le> int_of_digits [a, b]" "int_of_digits [a, b] \<le> 12"
  shows "[(m, r2). (m, r2) \<leftarrow> match_month (a # b # CHR ''-'' # r), startswith r2 ''-'']
         = [(int_of_digits [a, b], CHR ''-'' # r)]"
  using assms
  unfolding match_month_def int_of_digits_2 int_of_digits_1 is_digit_def in_range_def digit_val_def
    startswith_def Let_def
  by (auto simp: chr_eq_ord)

lemma match_day_two:
  assumes "is_digit a" "is_digit b"
    and "1 \<le> int_of_digits [a, b]" "int_of_digits [a, b] \<le> 31"
  shows "\<exists>rest. match_day [a, b] = (int_of_digits [a, b], []) # rest"
  using assms
  unfolding match_day_def int_of_digits_2 int_of_digits_1 is_digit_def in_range_def digit_val_def
    Let_def
  by (auto simp: chr_eq_ord)

lemma match_year_four:
  assumes "is_digit a" "is_digit b" "is_digit c" "is_digit d"
  shows "match_year (a # b # c # d # r) = Some (int_of_digits [a, b, c, d], r)"
  using assms by (simp add: match_year_def)

lemma candidates_split:
  "[(m, d, r4). (m, r2) \<leftarrow> xs, startswith r2 ''-'', (d, r4) \<leftarrow> match_day (drop 1 r2)]
   = concat (map (\<lambda>(m, r2). map (\<lambda>(d, r4). (m, d, r4)) (match_day (drop 1 r2)))
       [(m, r2). (m, r2) \<leftarrow> xs, startswith r2 ''-''])"
  by (induction xs) (auto simp: case_prod_beta)

lemma strptime_iso:
  assumes "list_all is_digit [y1, y2, y3, y4, m1, m2, d1, d2]"
    and "valid_date (int_of_digits [y1, y2, y3, y4]) (int_of_digits [m1, m2]) (int_of_digits [d1, d2])"
  shows "strptime [y1, y2, y3, y4, CHR ''-'', m1, m2, CHR ''-'', d1, d2]
         = Inr (int_of_digits [y1, y2, y3, y4], int_of_digits [m1, m2], int_of_digits [d1, d2])"
proof -
  let ?y = "int_of_digits [y1, y2, y3, y4]" and ?m = "int_of_digits [m1, m2]"
    and ?d = "int_of_digits [d1, d2]"
  have m: "1 \<le> ?m" "?m \<le> 12" and d: "1 \<le> ?d" "?d \<le> 31"
    using assms(2) by (auto simp: valid_date_def days_in_month_def split: if_splits)
  have mm: "[(m, r2). (m, r2) \<leftarrow> match_month [m1, m2, CHR ''-'', d1, d2], startswith r2 ''-'']
            = [(?m, [CHR ''-'', d1, d2])]"
    using match_month_two [of m1 m2 "[d1, d2]"] assms(1) m by simp
  obtain rest where dd: "match_day [d1, d2] = (?d, []) # rest"
    using match_day_two [of d1 d2] assms(1) d by auto
  have "[(m, d, r4). (m, r2) \<leftarrow> match_month [m1, m2, CHR ''-'', d1, d2], startswith r2 ''-'',
                      (d, r4) \<leftarrow> match_day (drop 1 r2)]
        = concat (map (\<lambda>(m, r2). map (\<lambda>(d, r4). (m, d, r4)) (match_day (drop 1 r2)))
            [(m, r2). (m, r2) \<leftarrow> match_month [m1, m2, CHR ''-'', d1, d2], startswith r2 ''-''])"
    by (rule candidates_split)
  also have "\<dots> = (?m, ?d, []) # map (\<lambda>(d, r4). (?m, d, r4)) rest"
    unfolding mm by (simp add: dd)
  finally have c: "[(m, d, r4). (m, r2) \<leftarrow> match_month [m1, m2, CHR ''-'', d1, d2],
                      startswith r2 ''-'', (d, r4) \<leftarrow> match_day (drop 1 r2)]
        = (?m, ?d, []) # map (\<lambda>(d, r4). (?m, d, r4)) rest" .
  have y: "match_year [y1, y2, y3, y4, CHR ''-'', m1, m2, CHR ''-'', d1, d2]
           = Some (?y, [CHR ''-'', m1, m2, CHR ''-'', d1, d2])"
    using assms(1) by (simp add: match_year_four)
  show ?thesis
    unfolding strptime_def y
    using c assms(2) by (simp add: startswith_def)
qed

lemma suffix_table:
  assumes "1 \<le> day" "day \<le> 31"
  shows "(if (4 \<le> day \<and> day \<le> 20) \<or> (24 \<le> day \<and> day \<le> 30) then Inr ''th''
          else py_index [''st'', ''nd'', ''rd''] (int (day mod 10) - 1))
         = Inr (if day \<in> {1, 21, 31} then ''st'' else if day \<in> {2, 22} then ''nd''
                else if day \<in> {3, 23} then ''rd'' else ''th'')"
proof -
  consider "4 \<le> day \<and> day \<le> 20" | "24 \<le> day \<and> day \<le> 30" | "day = 1" | "day = 2" | "day = 3"
    | "day = 21" | "day = 22" | "day = 23" | "day = 31"
    using assms by arith
  then show ?thesis
    by cases (auto simp: py_index_def)
qed

lemma format_date_iso:
  assumes "list_all is_digit [y1, y2, y3, y4, m1, m2, d1, d2]"
    and "year = int_of_digits [y1, y2, y3, y4]" and "month = int_of_digits [m1, m2]"
    and "day = int_of_digits [d1, d2]"
    and "valid_date year month day"
  shows "format_date padded [y1, y2, y3, y4, CHR ''-'', m1, m2, CHR ''-'', d1, d2] =
     Inr (dec day @
          (if day \<in> {1, 21, 31} then ''st'' else if day \<in> {2, 22} then ''nd''
           else if day \<in> {3, 23} then ''rd'' else ''th'') @
          '' '' @ month_name month @ '', '' @ year_text padded year)"
proof -
  have d: "1 \<le> day" "day \<le> 31"
    using assms(5) by (auto simp: valid_date_def days_in_month_def split: if_splits)
  have p: "strptime [y1, y2, y3, y4, CHR ''-'', m1, m2, CHR ''-'', d1, d2] = Inr (year, month, day)"
    using strptime_iso [of y1 y2 y3 y4 m1 m2 d1 d2] assms by simp
  show ?thesis
    unfolding format_date_def p
    by (simp only: sum.case prod.case suffix_table [OF d])
qed

lemma dec_2024: "dec 2024 = ''2024''"
  by code_simp

lemma format_date_january_2024:
  assumes "is_digit d1" "is_digit d2" "day = int_of_digits [d1, d2]" "1 \<le> day" "day \<le> 31"
  shows "format_date padded (''2024-01-'' @ [d1, d2]) =
     Inr (dec day @
          (if day \<in> {1, 21, 31} then ''st'' else if day \<in> {2, 22} then ''nd''
           else if day \<in> {3, 23} then ''rd'' else ''th'') @ '' January, 2024'')"
proof -
  have a: "list_all is_digit [CHR ''2'', CHR ''0'', CHR ''2'', CHR ''4'', CHR ''0'', CHR ''1'', d1, d2]"
    using assms(1,2) by (simp add: is_digit_def)
  have y: "(2024::nat) = int_of_digits ''2024''" and m: "(1::nat) = int_of_digits ''01''"
    by (simp_all add: int_of_digits_def digit_val_def)
  have v: "valid_date 2024 1 day"
    using assms(4,5) by (simp add: valid_date_def days_in_month_def)
  have t: "year_text padded 2024 = ''2024''"
    by (simp add: year_text_def dec_2024)
  have n: "month_name 1 = ''January''"
    by (simp add: month_name_def)
  show ?thesis
    using format_date_iso [OF a y m assms(3) v, of padded]
    unfolding t n by simp
qed

lemma format_date_examples:
  "format_date padded ''2024-01-04'' = Inr ''4th January, 2024''"
  "format_date padded ''2024-01-21'' = Inr ''21st January, 2024''"
  "format_date padded ''2024-01-23'' = Inr ''23rd January, 2024''"
proof -
  have d: "dec 4 = ''4''" "dec 21 = ''21''" "dec 23 = ''23''"
    by code_simp+
  have i: "(4::nat) = int_of_digits ''04''" "(21::nat) = int_of_digits ''21''"
    "(23::nat) = int_of_digits ''23''"
    by (simp_all add: int_of_digits_def digit_val_def)
  have g: "is_digit CHR ''0''" "is_digit CHR ''1''" "is_digit CHR ''2''" "is_digit CHR ''3''"
    "is_digit CHR ''4''"
    by (simp_all add: is_digit_def)
  show "format_date padded ''2024-01-04'' = Inr ''4th January, 2024''"
    using format_date_january_2024 [OF g(1) g(5) i(1), of padded] by (simp add: d)
  show "format_date padded ''2024-01-21'' = Inr ''21st January, 2024''"
    using format_date_january_2024 [OF g(3) g(2) i(2), of padded] by (simp add: d)
  show "format_date padded ''2024-01-23'' = Inr ''23rd January, 2024''"
    using format_date_january_2024 [OF g(3) g(4) i(3), of padded] by (simp add: d)
qed


text \<open>
  Claim C6. For a date string of the form YYYY-MM-DD that names a date of the calendar,
  \<open>format_date\<close> returns the day without a leading zero, the English ordinal suffix
  (\<open>st\<close> for 1, 21 and 31, \<open>nd\<close> for 2 and 22, \<open>rd\<close> for 3 and 23, \<open>th\<close> for 4 to 20 and
  24 to 30), a space, the full month name, a comma and a space, and the year; the three
  dates of the specification are formatted as it says.
\<close>

theorem format_date_ordinal:
  "(\<forall>year month day.
      list_all is_digit [y1, y2, y3, y4, m1, m2, d1, d2] \<and>
      year = int_of_digits [y1, y2, y3, y4] \<and> month = int_of_digits [m1, m2] \<and>
      day = int_of_digits [d1, d2] \<and> valid_date year month day \<longrightarrow>
      format_date padded [y1, y2, y3, y4, CHR ''-'', m1, m2, CHR ''-'', d1, d2] =
        Inr (dec day @
             (if day \<in> {1, 21, 31} then ''st'' else if day \<in> {2, 22} then ''nd''
              else if day \<in> {3, 23} then ''rd'' else ''th'') @
             '' '' @ month_name month @ '', '' @ year_text padded year))
   \<and> format_date padded ''2024-01-04'' = Inr ''4th January, 2024''
   \<and> format_date padded ''2024-01-21'' = Inr ''21st January, 2024''
   \<and> format_date padded ''2024-01-23'' = Inr ''23rd January, 2024''"
proof (intro conjI allI impI)
  fix year month day
  assume "list_all is_digit [y1, y2, y3, y4, m1, m2, d1, d2] \<and>
      year = int_of_digits [y1, y2, y3, y4] \<and> month = int_of_digits [m1, m2] \<and>
      day = int_of_digits [d1, d2] \<and> valid_date year month day"
  then show "format_date padded [y1, y2, y3, y4, CHR ''-'', m1, m2, CHR ''-'', d1, d2] =
        Inr (dec day @
             (if day \<in> {1, 21, 31} then ''st'' else if day \<in> {2, 22} then ''nd''
              else if day \<in> {3, 23} then ''rd'' else ''th'') @
             '' '' @ month_name month @ '', '' @ year_text padded year)"
    using format_date_iso [of y1 y2 y3 y4 m1 m2 d1 d2 year month day padded] by blast
qed (rule format_date_examples)+

theorem format_date_ordinal_witness:
  "list_all is_digit ''20240229'' \<and> valid_date 2024 2 29
   \<and> format_date False ''2024-02-29'' = Inr ''29th February, 2024''"
proof -
  have h: "list_all is_digit ''20240229'' \<and> 2024 = int_of_digits ''2024'' \<and>
           2 = int_of_digits ''02'' \<and> 29 = int_of_digits ''29'' \<and> valid_date 2024 2 29"
    by (simp add: is_digit_def int_of_digits_def digit_val_def valid_date_def days_in_month_def
        is_leap_def)
  have d: "dec 29 = ''29''"
    by code_simp
  have "format_date False ''2024-02-29'' =
        Inr (dec 29 @
             (if (29::nat) \<in> {1, 21, 31} then ''st'' else if (29::nat) \<in> {2, 22} then ''nd''
              else if (29::nat) \<in> {3, 23} then ''rd'' else ''th'') @
             '' '' @ month_name 2 @ '', '' @ year_text False 2024)"
    by (rule format_date_ordinal [of "CHR ''2''" "CHR ''0''" "CHR ''2''" "CHR ''4''" "CHR ''0''"
          "CHR ''2''" "CHR ''2''" "CHR ''9''" False, THEN conjunct1, THEN spec, THEN spec, THEN spec,
          THEN mp, OF h])
  then have "format_date False ''2024-02-29'' = Inr ''29th February, 2024''"
    by (simp add: month_name_def year_text_def d dec_2024)
  with h show ?thesis by blast
qed


section \<open>Property extraction\<close>

lemma re_search_Some:
  "re_search m s = Some v \<Longrightarrow> \<exists>pre suf. s = pre @ suf \<and> m suf = Some v"
proof (induction s)
  case Nil
  then show ?case by simp
next
  case (Cons c cs)
  show ?case
  proof (cases "m (c # cs)")
    case None
    with Cons obtain pre suf where "cs = pre @ suf" "m suf = Some v" by auto
    then have "c # cs = (c # pre) @ suf \<and> m suf = Some v" by simp
    then show ?thesis by blast
  next
    case (Some u)
    with Cons.prems have "c # cs = [] @ (c # cs) \<and> m (c # cs) = Some v" by simp
    then show ?thesis by blast
  qed
qed

lemma re_search_None:
  "re_search m s = None \<longleftrightarrow> (\<forall>pre suf. s = pre @ suf \<longrightarrow> m suf = None)"
proof (induction s)
  case Nil
  then show ?case by simp
next
  case (Cons c cs)
  show ?case
  proof (cases "m (c # cs)")
    case None
    have "(\<forall>pre suf. c # cs = pre @ suf \<longrightarrow> m suf = None)
          \<longleftrightarrow> (\<forall>pre suf. cs = pre @ suf \<longrightarrow> m suf = None)"
      using None by (auto simp: Cons_eq_append_conv)
    with Cons None show ?thesis by simp
  next
    case (Some u)
    then show ?thesis by (auto intro: exI [of _ "[]"])
  qed
qed















section \<open>Template rendering\<close>

text \<open>
  Claim C8. The claim holds of a renderer that replaces the placeholders of the template,
  as the docstring of \<open>modify_and_save_tex\<close> says. The function instead applies the
  fields one after the other, each with \<open>str.replace\<close> on the text the earlier fields
  have left, so a placeholder that the earlier values and the braces around them form is
  replaced too. In the template \<open>\textbf{{fullname}}\<close> the only placeholder is
  \<open>{fullname}\<close>; with the name \<open>date\<close> and the date \<open>4th May\<close> the claim gives
  \<open>\textbf{date}\<close>, and the file written holds \<open>\textbf4th May\<close>: the braces of the
  template are gone and the name is replaced by the date.
\<close>

theorem modify_and_save_tex_resubstitutes:
  "modify_and_save_tex
     \<lparr>decode = (\<lambda>b. if list_all (\<lambda>c. (of_char c :: nat) < 128) b then Some b else None),
      encode = (\<lambda>t. if list_all (\<lambda>c. (of_char c :: nat) < 128) t then Some t else None)\<rparr>
     ''t.tex'' ''o.tex'' [(''fullname'', ''date''), (''date'', ''4th May'')]
     \<lparr>files = [(''t.tex'', CHR 0x5C # ''textbf{{fullname}}'')], console = [], ran = []\<rparr>
   = (Inr (),
      \<lparr>files = [(''t.tex'', CHR 0x5C # ''textbf{{fullname}}''),
                (''o.tex'', CHR 0x5C # ''textbf4th May'')],
       console = [], ran = []\<rparr>)"
proof -
  have r: "replace ''{date}'' ''4th May''
             (replace ''{fullname}'' ''date'' (CHR 0x5C # ''textbf{{fullname}}''))
           = CHR 0x5C # ''textbf4th May''"
    by code_simp
  have u: "universal_newlines (CHR 0x5C # ''textbf{{fullname}}'') = CHR 0x5C # ''textbf{{fullname}}''"
    by simp
  show ?thesis
    unfolding modify_and_save_tex_def read_text_def read_bytes_def write_text_def
    by (simp add: has_nul_def r del: universal_newlines.simps)
       (simp add: u r del: universal_newlines.simps)
qed


section \<open>The timestamp proof\<close>

lemma match_block_height_iff:
  "match_block_height s \<noteq> None \<longleftrightarrow>
   (\<exists>d post. s = ''Bitcoin block '' @ d # post \<and> is_digit d)"
proof
  assume "match_block_height s \<noteq> None"
  then have p: "startswith s ''Bitcoin block ''" and t: "takeWhile is_digit (drop 14 s) \<noteq> []"
    by (auto simp: match_block_height_def Let_def split: if_splits)
  have l: "length ''Bitcoin block '' = 14"
    by simp
  from p have a: "take 14 s = ''Bitcoin block ''"
    unfolding startswith_def l .
  have s: "s = ''Bitcoin block '' @ drop 14 s"
    unfolding a [symmetric] by simp
  from t obtain d post where d: "drop 14 s = d # post" "is_digit d"
    by (cases "drop 14 s") (auto split: if_splits)
  from s d have "s = ''Bitcoin block '' @ d # post \<and> is_digit d"
    by simp
  then show "\<exists>d post. s = ''Bitcoin block '' @ d # post \<and> is_digit d"
    by blast
next
  assume "\<exists>d post. s = ''Bitcoin block '' @ d # post \<and> is_digit d"
  then obtain d post where "s = ''Bitcoin block '' @ d # post" "is_digit d"
    by blast
  then show "match_block_height s \<noteq> None"
    by (simp add: match_block_height_def startswith_def)
qed


lemma search_block_height_iff:
  "re_search match_block_height s \<noteq> None \<longleftrightarrow>
   (\<exists>pre d post. s = pre @ ''Bitcoin block '' @ d # post \<and> is_digit d)"
proof
  assume "re_search match_block_height s \<noteq> None"
  then obtain v where "re_search match_block_height s = Some v" by auto
  from re_search_Some [OF this] obtain pre suf where
    p: "s = pre @ suf" "match_block_height suf = Some v" by auto
  from p(2) have "match_block_height suf \<noteq> None" by simp
  then obtain d post where q: "suf = ''Bitcoin block '' @ d # post" "is_digit d"
    using match_block_height_iff [of suf] by auto
  have "s = pre @ ''Bitcoin block '' @ d # post \<and> is_digit d"
    unfolding p(1) q(1) using q(2) by simp
  then show "\<exists>pre d post. s = pre @ ''Bitcoin block '' @ d # post \<and> is_digit d"
    by (intro exI)
next
  assume "\<exists>pre d post. s = pre @ ''Bitcoin block '' @ d # post \<and> is_digit d"
  then obtain pre d post where d: "s = pre @ ''Bitcoin block '' @ d # post" "is_digit d"
    by (elim exE conjE)
  have "\<exists>d' post'. ''Bitcoin block '' @ d # post = ''Bitcoin block '' @ d' # post' \<and> is_digit d'"
    using d(2) by (intro exI [of _ d] exI [of _ post]) simp
  then have m: "match_block_height (''Bitcoin block '' @ d # post) \<noteq> None"
    using match_block_height_iff [of "''Bitcoin block '' @ d # post"] by (simp only:)
  show "re_search match_block_height s \<noteq> None"
  proof
    assume "re_search match_block_height s = None"
    then have "\<forall>pre suf. s = pre @ suf \<longrightarrow> match_block_height suf = None"
      by (simp only: re_search_None)
    then have "match_block_height (''Bitcoin block '' @ d # post) = None"
      using d(1) by (elim allE [of _ pre] allE [of _ "''Bitcoin block '' @ d # post"] impE)
    with m show False by (elim notE)
  qed
qed

lemma subprocess_run_decoded:
  assumes "\<not> cmd_has_nul c" "env c (files w) = Inr p"
    and "decode cd (out_bytes p) = Some out" "decode cd (err_bytes p) = Some err"
  shows "subprocess_run cd env c w =
     (if exit_status p \<noteq> 0 then Inl (CalledProcessError c (exit_status p))
      else Inr \<lparr>returncode = exit_status p, stdout = universal_newlines out,
                stderr = universal_newlines err\<rparr>,
      w\<lparr>files := files_left p, ran := ran w @ [c]\<rparr>)"
  using assms by (simp add: subprocess_run_def)

lemma subprocess_run_nul:
  "cmd_has_nul c \<Longrightarrow> subprocess_run cd env c w = (Inl ValueError, w)"
  by (simp add: subprocess_run_def)

lemma subprocess_run_not_started:
  "\<not> cmd_has_nul c \<Longrightarrow> env c (files w) = Inl msg \<Longrightarrow>
   subprocess_run cd env c w = (Inl (OSError msg), w)"
  by (simp add: subprocess_run_def)

lemma subprocess_run_undecodable:
  assumes "\<not> cmd_has_nul c" "env c (files w) = Inr p"
    and "decode cd (out_bytes p) = None \<or> decode cd (err_bytes p) = None"
  shows "subprocess_run cd env c w =
     (Inl UnicodeDecodeError, w\<lparr>files := files_left p, ran := ran w @ [c]\<rparr>)"
  using assms by (auto simp: subprocess_run_def Let_def split: option.splits)

lemma subprocess_run_raises:
  assumes "subprocess_run cd env c w = (Inl e, w')"
  shows "e = ValueError \<or> (\<exists>msg. e = OSError msg) \<or> e = UnicodeDecodeError \<or>
         (\<exists>status. e = CalledProcessError c status \<and> status \<noteq> 0)"
  using assms
  by (auto simp: subprocess_run_def Let_def split: if_splits sum.splits option.splits)

lemma files_after_run [simp]: "files (w\<lparr>files := fs, ran := rs\<rparr>) = fs"
  by simp

lemma files_print_line [simp]: "files (print_line s w) = files w"
  by (simp add: print_line_def)

lemma has_nul_append [simp]: "has_nul (a @ b) \<longleftrightarrow> has_nul a \<or> has_nul b"
  by (auto simp: has_nul_def)

lemma ots_command_nul:
  "cmd_has_nul (Shell (ots_command user password verb path)) \<longleftrightarrow>
   has_nul user \<or> has_nul password \<or> has_nul verb \<or> has_nul path"
  by (auto simp: cmd_has_nul_def ots_command_def has_nul_def)

lemma digits_no_nul: "list_all is_digit ds \<Longrightarrow> \<not> has_nul ds"
  by (induction ds) (auto simp: has_nul_def is_digit_def)

lemma header_command_nul:
  "cmd_has_nul (Shell (header_command h)) \<longleftrightarrow> has_nul h"
  by (auto simp: cmd_has_nul_def header_command_def has_nul_def)

lemma match_block_height_digits:
  "match_block_height s = Some h \<Longrightarrow> list_all is_digit h"
  by (auto simp: match_block_height_def Let_def list_all_iff split: if_splits dest: set_takeWhileD)

lemma search_block_height_digits:
  "re_search match_block_height s = Some h \<Longrightarrow> list_all is_digit h"
  using re_search_Some [of match_block_height s h] match_block_height_digits by blast

lemma is_ots_done_value:
  assumes n: "\<not> has_nul path"
    and u: "env (Shell (ots_command ''asi0'' ''asi0'' ''upgrade'' path)) (files w) = Inr p1"
    and d1: "decode cd (out_bytes p1) = Some o1" "decode cd (err_bytes p1) = Some e1"
  shows "exit_status p1 \<noteq> 0 \<Longrightarrow> fst (is_ots_done cd env path w) = Inr False"
    and "exit_status p1 = 0 \<Longrightarrow>
         env (Shell (ots_command ''asi0'' ''asi0'' ''verify'' path)) (files_left p1) = Inr p2 \<Longrightarrow>
         decode cd (out_bytes p2) = Some o2 \<Longrightarrow> decode cd (err_bytes p2) = Some e2 \<Longrightarrow>
         fst (is_ots_done cd env path w) =
           Inr (exit_status p2 = 0 \<and> re_search match_block_height (universal_newlines e2) \<noteq> None)"
proof -
  let ?up = "Shell (ots_command ''asi0'' ''asi0'' ''upgrade'' path)"
  let ?ve = "Shell (ots_command ''asi0'' ''asi0'' ''verify'' path)"
  let ?w1 = "w\<lparr>files := files_left p1, ran := ran w @ [?up]\<rparr>"
  have nu: "\<not> cmd_has_nul ?up" and nv: "\<not> cmd_has_nul ?ve"
    using n by (simp_all add: ots_command_nul has_nul_def)
  have ru: "subprocess_run cd env ?up w =
     (if exit_status p1 \<noteq> 0 then Inl (CalledProcessError ?up (exit_status p1))
      else Inr \<lparr>returncode = exit_status p1, stdout = universal_newlines o1,
                stderr = universal_newlines e1\<rparr>, ?w1)"
    using subprocess_run_decoded [of ?up env w p1 cd o1 e1] nu u d1 by simp
  {
    assume "exit_status p1 \<noteq> 0"
    then show "fst (is_ots_done cd env path w) = Inr False"
      unfolding is_ots_done_def Let_def ru by simp
  }
  {
    assume z: "exit_status p1 = 0"
      and v: "env ?ve (files_left p1) = Inr p2"
      and d2: "decode cd (out_bytes p2) = Some o2" "decode cd (err_bytes p2) = Some e2"
    have rv: "subprocess_run cd env ?ve ?w1 =
       (if exit_status p2 \<noteq> 0 then Inl (CalledProcessError ?ve (exit_status p2))
        else Inr \<lparr>returncode = exit_status p2, stdout = universal_newlines o2,
                  stderr = universal_newlines e2\<rparr>,
        ?w1\<lparr>files := files_left p2, ran := ran ?w1 @ [?ve]\<rparr>)"
      using subprocess_run_decoded [of ?ve env ?w1 p2 cd o2 e2] nv v d2 by simp
    show "fst (is_ots_done cd env path w) =
           Inr (exit_status p2 = 0 \<and> re_search match_block_height (universal_newlines e2) \<noteq> None)"
      unfolding is_ots_done_def Let_def ru using z
      by (cases "exit_status p2 = 0") (simp_all add: rv del: not_None_eq)
  }
qed

lemma is_ots_done_no_CalledProcessError:
  "fst (is_ots_done cd env path w) \<noteq> Inl (CalledProcessError c status)"
proof -
  let ?up = "Shell (ots_command ''asi0'' ''asi0'' ''upgrade'' path)"
  let ?ve = "Shell (ots_command ''asi0'' ''asi0'' ''verify'' path)"
  obtain x1 w1 where r1: "subprocess_run cd env ?up w = (x1, w1)"
    by (cases "subprocess_run cd env ?up w")
  obtain x2 w2 where r2: "subprocess_run cd env ?ve w1 = (x2, w2)"
    by (cases "subprocess_run cd env ?ve w1")
  show ?thesis
    unfolding is_ots_done_def Let_def r1
    by (cases x1; cases x2) (auto simp: r2 split: exn.splits)
qed


text \<open>
  Claim C4, as amended. \<open>is_ots_done\<close> never lets a \<open>CalledProcessError\<close> escape. When the
  path of the proof holds no character 0, the tools can be started and their output can
  be decoded, it returns a boolean: \<open>False\<close> when the upgrade command exits with a status
  other than 0, and otherwise \<open>True\<close> exactly when the verify command exits with
  status 0 and its diagnostic output holds the words \<open>Bitcoin block\<close>, a space and a
  digit. On a path with the character 0 it raises \<open>ValueError\<close>.
\<close>

theorem is_ots_done_boolean:
  "(\<forall>c status. fst (is_ots_done cd env path w) \<noteq> Inl (CalledProcessError c status))
   \<and> (\<not> has_nul path \<and>
      env (Shell (ots_command ''asi0'' ''asi0'' ''upgrade'' path)) (files w) = Inr p1 \<and>
      decode cd (out_bytes p1) = Some o1 \<and> decode cd (err_bytes p1) = Some e1 \<and>
      exit_status p1 \<noteq> 0 \<longrightarrow>
        fst (is_ots_done cd env path w) = Inr False)
   \<and> (\<not> has_nul path \<and>
      env (Shell (ots_command ''asi0'' ''asi0'' ''upgrade'' path)) (files w) = Inr p1 \<and>
      decode cd (out_bytes p1) = Some o1 \<and> decode cd (err_bytes p1) = Some e1 \<and>
      exit_status p1 = 0 \<and>
      env (Shell (ots_command ''asi0'' ''asi0'' ''verify'' path)) (files_left p1) = Inr p2 \<and>
      decode cd (out_bytes p2) = Some o2 \<and> decode cd (err_bytes p2) = Some e2 \<longrightarrow>
        fst (is_ots_done cd env path w) =
          Inr (exit_status p2 = 0 \<and>
               (\<exists>pre d post. universal_newlines e2 = pre @ ''Bitcoin block '' @ d # post \<and>
                  is_digit d)))
   \<and> (has_nul path \<longrightarrow> fst (is_ots_done cd env path w) = Inl ValueError)"
proof (intro conjI allI impI)
  fix c status
  show "fst (is_ots_done cd env path w) \<noteq> Inl (CalledProcessError c status)"
    by (rule is_ots_done_no_CalledProcessError)
next
  assume "\<not> has_nul path \<and>
      env (Shell (ots_command ''asi0'' ''asi0'' ''upgrade'' path)) (files w) = Inr p1 \<and>
      decode cd (out_bytes p1) = Some o1 \<and> decode cd (err_bytes p1) = Some e1 \<and>
      exit_status p1 \<noteq> 0"
  then show "fst (is_ots_done cd env path w) = Inr False"
    using is_ots_done_value(1) [of path env w p1 cd o1 e1] by simp
next
  assume a: "\<not> has_nul path \<and>
      env (Shell (ots_command ''asi0'' ''asi0'' ''upgrade'' path)) (files w) = Inr p1 \<and>
      decode cd (out_bytes p1) = Some o1 \<and> decode cd (err_bytes p1) = Some e1 \<and>
      exit_status p1 = 0 \<and>
      env (Shell (ots_command ''asi0'' ''asi0'' ''verify'' path)) (files_left p1) = Inr p2 \<and>
      decode cd (out_bytes p2) = Some o2 \<and> decode cd (err_bytes p2) = Some e2"
  then have "fst (is_ots_done cd env path w) =
      Inr (exit_status p2 = 0 \<and> re_search match_block_height (universal_newlines e2) \<noteq> None)"
    using is_ots_done_value(2) [of path env w p1 cd o1 e1 p2 o2 e2] by simp
  then show "fst (is_ots_done cd env path w) =
          Inr (exit_status p2 = 0 \<and>
               (\<exists>pre d post. universal_newlines e2 = pre @ ''Bitcoin block '' @ d # post \<and>
                  is_digit d))"
    unfolding search_block_height_iff .
next
  assume "has_nul path"
  then have "cmd_has_nul (Shell (ots_command ''asi0'' ''asi0'' ''upgrade'' path))"
    by (simp add: ots_command_nul)
  then show "fst (is_ots_done cd env path w) = Inl ValueError"
    unfolding is_ots_done_def Let_def by (simp add: subprocess_run_nul)
qed

theorem is_ots_done_boolean_witness:
  "fst (is_ots_done
     \<lparr>decode = (\<lambda>b. if list_all (\<lambda>c. (of_char c :: nat) < 128) b then Some b else None),
      encode = (\<lambda>t. if list_all (\<lambda>c. (of_char c :: nat) < 128) t then Some t else None)\<rparr>
     (\<lambda>c fs. Inr \<lparr>exit_status = 0, out_bytes = [],
                   err_bytes = ''Pending confirmation in Bitcoin blockchain'', files_left = fs\<rparr>)
     ''p.ots'' \<lparr>files = [], console = [], ran = []\<rparr>) = Inr False
   \<and> \<not> (\<exists>pre d post. ''Pending confirmation in Bitcoin blockchain'' =
          pre @ ''Bitcoin block '' @ d # post \<and> is_digit d)"
proof -
  let ?cd = "\<lparr>decode = (\<lambda>b. if list_all (\<lambda>c. (of_char c :: nat) < 128) b then Some b else None),
      encode = (\<lambda>t. if list_all (\<lambda>c. (of_char c :: nat) < 128) t then Some t else None)\<rparr>"
  let ?err = "''Pending confirmation in Bitcoin blockchain''"
  let ?p = "\<lparr>exit_status = 0, out_bytes = [], err_bytes = ?err, files_left = [] :: filesystem\<rparr>"
  let ?env = "\<lambda>c fs. Inr \<lparr>exit_status = 0, out_bytes = [], err_bytes = ?err,
                           files_left = fs :: filesystem\<rparr> :: string + process"
  let ?w = "\<lparr>files = [], console = [], ran = []\<rparr>"
  have n: "re_search match_block_height ?err = None"
    by code_simp
  have m: "\<not> (\<exists>pre d post. ?err = pre @ ''Bitcoin block '' @ d # post \<and> is_digit d)"
    unfolding search_block_height_iff [symmetric] using n by simp
  have u: "universal_newlines ?err = ?err"
    by simp
  have h: "\<not> has_nul ''p.ots'' \<and>
      ?env (Shell (ots_command ''asi0'' ''asi0'' ''upgrade'' ''p.ots'')) (files ?w) = Inr ?p \<and>
      decode ?cd (out_bytes ?p) = Some [] \<and> decode ?cd (err_bytes ?p) = Some ?err \<and>
      exit_status ?p = 0 \<and>
      ?env (Shell (ots_command ''asi0'' ''asi0'' ''verify'' ''p.ots'')) (files_left ?p) = Inr ?p \<and>
      decode ?cd (out_bytes ?p) = Some [] \<and> decode ?cd (err_bytes ?p) = Some ?err"
    by (simp add: has_nul_def)
  have "fst (is_ots_done ?cd ?env ''p.ots'' ?w) =
          Inr (exit_status ?p = 0 \<and>
               (\<exists>pre d post. universal_newlines ?err = pre @ ''Bitcoin block '' @ d # post \<and>
                  is_digit d))"
    by (rule is_ots_done_boolean [of ?cd ?env "''p.ots''" ?w ?p "[]" ?err ?p "[]" ?err,
          THEN conjunct2, THEN conjunct2, THEN conjunct1, THEN mp, OF h])
  then have "fst (is_ots_done ?cd ?env ''p.ots'' ?w) = Inr False"
    unfolding u using m by simp
  with m show ?thesis by (intro conjI)
qed

text \<open>
  The claim as it stands fails: on a path that holds the character 0 the call raises.
\<close>

theorem is_ots_done_counterexample:
  "is_ots_done
     \<lparr>decode = (\<lambda>b. if list_all (\<lambda>c. (of_char c :: nat) < 128) b then Some b else None),
      encode = (\<lambda>t. if list_all (\<lambda>c. (of_char c :: nat) < 128) t then Some t else None)\<rparr>
     (\<lambda>c fs. Inr \<lparr>exit_status = 0, out_bytes = [], err_bytes = [], files_left = fs\<rparr>)
     [CHR 0x00] \<lparr>files = [], console = [], ran = []\<rparr>
   = (Inl ValueError, \<lparr>files = [], console = [], ran = []\<rparr>)"
  by (simp add: is_ots_done_def Let_def subprocess_run_nul ots_command_nul has_nul_def)


lemma get_ots_blockhash_value:
  assumes u: "answers cd env (Shell (ots_command ''asi0'' ''asi0'' ''upgrade'' path)) (files w) p1 o1 e1"
  shows "exit_status p1 \<noteq> 0 \<Longrightarrow>
         fst (get_ots_blockhash cd env path w) =
           Inr (''Failed to process: '' @
                str_exn (CalledProcessError (Shell (ots_command ''asi0'' ''asi0'' ''upgrade'' path))
                  (exit_status p1)))"
    and "exit_status p1 = 0 \<Longrightarrow>
         answers cd env (Shell (ots_command ''asi0'' ''asi0'' ''verify'' path)) (files_left p1) p2 o2 e2 \<Longrightarrow>
         exit_status p2 \<noteq> 0 \<Longrightarrow>
         fst (get_ots_blockhash cd env path w) =
           Inr (''Failed to process: '' @
                str_exn (CalledProcessError (Shell (ots_command ''asi0'' ''asi0'' ''verify'' path))
                  (exit_status p2)))"
    and "exit_status p1 = 0 \<Longrightarrow>
         answers cd env (Shell (ots_command ''asi0'' ''asi0'' ''verify'' path)) (files_left p1) p2 o2 e2 \<Longrightarrow>
         exit_status p2 = 0 \<Longrightarrow>
         re_search match_block_height (universal_newlines e2) = None \<Longrightarrow>
         fst (get_ots_blockhash cd env path w) = Inr ''Block height not found in OTS verification output''"
    and "exit_status p1 = 0 \<Longrightarrow>
         answers cd env (Shell (ots_command ''asi0'' ''asi0'' ''verify'' path)) (files_left p1) p2 o2 e2 \<Longrightarrow>
         exit_status p2 = 0 \<Longrightarrow>
         re_search match_block_height (universal_newlines e2) = Some h \<Longrightarrow>
         answers cd env (Shell (header_command h)) (files_left p2) p3 o3 e3 \<Longrightarrow>
         fst (get_ots_blockhash cd env path w) =
           Inr (if exit_status p3 \<noteq> 0
                then ''Failed to process: '' @
                     str_exn (CalledProcessError (Shell (header_command h)) (exit_status p3))
                else strip (universal_newlines o3))"
proof -
  let ?up = "Shell (ots_command ''asi0'' ''asi0'' ''upgrade'' path)"
  let ?ve = "Shell (ots_command ''asi0'' ''asi0'' ''verify'' path)"
  let ?w1 = "w\<lparr>files := files_left p1, ran := ran w @ [?up]\<rparr>"
  let ?w2 = "?w1\<lparr>files := files_left p2, ran := ran ?w1 @ [?ve]\<rparr>"
  have ru: "subprocess_run cd env ?up w =
     (if exit_status p1 \<noteq> 0 then Inl (CalledProcessError ?up (exit_status p1))
      else Inr \<lparr>returncode = exit_status p1, stdout = universal_newlines o1,
                stderr = universal_newlines e1\<rparr>, ?w1)"
    using subprocess_run_decoded [of ?up env w p1 cd o1 e1] u by (simp add: answers_def)
  have rv: "subprocess_run cd env ?ve ?w1 =
       (if exit_status p2 \<noteq> 0 then Inl (CalledProcessError ?ve (exit_status p2))
        else Inr \<lparr>returncode = exit_status p2, stdout = universal_newlines o2,
                  stderr = universal_newlines e2\<rparr>, ?w2)"
    if "answers cd env ?ve (files_left p1) p2 o2 e2"
    using subprocess_run_decoded [of ?ve env ?w1 p2 cd o2 e2] that by (simp add: answers_def)
  {
    assume "exit_status p1 \<noteq> 0"
    then show "fst (get_ots_blockhash cd env path w) =
           Inr (''Failed to process: '' @ str_exn (CalledProcessError ?up (exit_status p1)))"
      unfolding get_ots_blockhash_def Let_def ru by simp
  }
  {
    assume z: "exit_status p1 = 0" and v: "answers cd env ?ve (files_left p1) p2 o2 e2"
      and nz: "exit_status p2 \<noteq> 0"
    show "fst (get_ots_blockhash cd env path w) =
           Inr (''Failed to process: '' @ str_exn (CalledProcessError ?ve (exit_status p2)))"
      unfolding get_ots_blockhash_def Let_def ru using z nz by (simp add: rv [OF v])
  }
  {
    assume z: "exit_status p1 = 0" and v: "answers cd env ?ve (files_left p1) p2 o2 e2"
      and z2: "exit_status p2 = 0"
      and n: "re_search match_block_height (universal_newlines e2) = None"
    show "fst (get_ots_blockhash cd env path w) = Inr ''Block height not found in OTS verification output''"
      unfolding get_ots_blockhash_def Let_def ru using z z2 n by (simp add: rv [OF v])
  }
  {
    assume z: "exit_status p1 = 0" and v: "answers cd env ?ve (files_left p1) p2 o2 e2"
      and z2: "exit_status p2 = 0"
      and s: "re_search match_block_height (universal_newlines e2) = Some h"
      and l: "answers cd env (Shell (header_command h)) (files_left p2) p3 o3 e3"
    have rl: "subprocess_run cd env (Shell (header_command h)) w' =
       (if exit_status p3 \<noteq> 0
        then Inl (CalledProcessError (Shell (header_command h)) (exit_status p3))
        else Inr \<lparr>returncode = exit_status p3, stdout = universal_newlines o3,
                  stderr = universal_newlines e3\<rparr>,
        w'\<lparr>files := files_left p3, ran := ran w' @ [Shell (header_command h)]\<rparr>)"
      if "files w' = files_left p2" for w'
      using subprocess_run_decoded [of "Shell (header_command h)" env w' p3 cd o3 e3] l that
      by (simp add: answers_def)
    show "fst (get_ots_blockhash cd env path w) =
           Inr (if exit_status p3 \<noteq> 0
                then ''Failed to process: '' @
                     str_exn (CalledProcessError (Shell (header_command h)) (exit_status p3))
                else strip (universal_newlines o3))"
      unfolding get_ots_blockhash_def Let_def ru using z z2 s by (simp add: rv [OF v] rl)
  }
qed

lemma get_ots_blockhash_caught:
  "fst (get_ots_blockhash cd env path w) \<noteq> Inl (CalledProcessError c status)"
  "fst (get_ots_blockhash cd env path w) \<noteq> Inl AttributeError"
proof -
  let ?up = "Shell (ots_command ''asi0'' ''asi0'' ''upgrade'' path)"
  let ?ve = "Shell (ots_command ''asi0'' ''asi0'' ''verify'' path)"
  obtain x1 w1 where r1: "subprocess_run cd env ?up w = (x1, w1)"
    by (cases "subprocess_run cd env ?up w")
  obtain x2 w2 where r2: "subprocess_run cd env ?ve w1 = (x2, w2)"
    by (cases "subprocess_run cd env ?ve w1")
  have r3: "fst (case subprocess_run cd env c3 w3 of
                   (Inl e, w5) \<Rightarrow> (case e of
                       CalledProcessError c status \<Rightarrow> (Inr (''Failed to process: '' @ str_exn e), w5)
                     | AttributeError \<Rightarrow> (Inr ''Block height not found in OTS verification output'', w5)
                     | _ \<Rightarrow> (Inl e, w5))
                 | (Inr header_result, w5) \<Rightarrow> (Inr (strip (stdout header_result)), w5)) \<noteq> Inl e'"
    if "e' = CalledProcessError c status \<or> e' = AttributeError" for c3 w3 e'
  proof (cases "subprocess_run cd env c3 w3")
    case (Pair x3 w5)
    show ?thesis
    proof (cases x3)
      case (Inl e)
      with Pair that subprocess_run_raises [of cd env c3 w3 e w5] show ?thesis
        by (auto split: exn.splits)
    next
      case (Inr r)
      with Pair show ?thesis by simp
    qed
  qed
  have x1: "x1 \<noteq> Inl AttributeError" and x2: "x2 \<noteq> Inl AttributeError"
    using subprocess_run_raises [of cd env ?up w AttributeError w1]
      subprocess_run_raises [of cd env ?ve w1 AttributeError w2] r1 r2 by auto
  show "fst (get_ots_blockhash cd env path w) \<noteq> Inl (CalledProcessError c status)"
    unfolding get_ots_blockhash_def Let_def r1
    using x1 x2 by (cases x1; cases x2) (auto simp: r2 r3 split: exn.splits option.splits)
  show "fst (get_ots_blockhash cd env path w) \<noteq> Inl AttributeError"
    unfolding get_ots_blockhash_def Let_def r1
    using x1 x2 by (cases x1; cases x2) (auto simp: r2 r3 split: exn.splits option.splits)
qed

lemma pdf_get_ots_blockhash_value:
  assumes u: "answers cd env (Shell (ots_command rpc_user rpc_password ''upgrade'' path)) (files w) p1 o1 e1"
  shows "exit_status p1 \<noteq> 0 \<Longrightarrow>
         fst (pdf_get_ots_blockhash rpc_user rpc_password cd env path w) =
           Inr (''Failed to process: '' @
                str_exn (CalledProcessError (Shell (ots_command rpc_user rpc_password ''upgrade'' path))
                  (exit_status p1)))"
    and "exit_status p1 = 0 \<Longrightarrow>
         answers cd env (Shell (ots_command rpc_user rpc_password ''verify'' path)) (files_left p1) p2 o2 e2 \<Longrightarrow>
         exit_status p2 \<noteq> 0 \<Longrightarrow>
         fst (pdf_get_ots_blockhash rpc_user rpc_password cd env path w) =
           Inr (''Failed to process: '' @
                str_exn (CalledProcessError (Shell (ots_command rpc_user rpc_password ''verify'' path))
                  (exit_status p2)))"
    and "exit_status p1 = 0 \<Longrightarrow>
         answers cd env (Shell (ots_command rpc_user rpc_password ''verify'' path)) (files_left p1) p2 o2 e2 \<Longrightarrow>
         exit_status p2 = 0 \<Longrightarrow>
         re_search match_block_height (universal_newlines e2) = None \<Longrightarrow>
         fst (pdf_get_ots_blockhash rpc_user rpc_password cd env path w) = Inr ''Block height not found in OTS verification output''"
    and "exit_status p1 = 0 \<Longrightarrow>
         answers cd env (Shell (ots_command rpc_user rpc_password ''verify'' path)) (files_left p1) p2 o2 e2 \<Longrightarrow>
         exit_status p2 = 0 \<Longrightarrow>
         re_search match_block_height (universal_newlines e2) = Some h \<Longrightarrow>
         answers cd env (Shell (header_command h)) (files_left p2) p3 o3 e3 \<Longrightarrow>
         fst (pdf_get_ots_blockhash rpc_user rpc_password cd env path w) =
           Inr (if exit_status p3 \<noteq> 0
                then ''Failed to process: '' @
                     str_exn (CalledProcessError (Shell (header_command h)) (exit_status p3))
                else strip (universal_newlines o3))"
proof -
  let ?up = "Shell (ots_command rpc_user rpc_password ''upgrade'' path)"
  let ?ve = "Shell (ots_command rpc_user rpc_password ''verify'' path)"
  let ?w1 = "w\<lparr>files := files_left p1, ran := ran w @ [?up]\<rparr>"
  let ?w2 = "?w1\<lparr>files := files_left p2, ran := ran ?w1 @ [?ve]\<rparr>"
  have ru: "subprocess_run cd env ?up w =
     (if exit_status p1 \<noteq> 0 then Inl (CalledProcessError ?up (exit_status p1))
      else Inr \<lparr>returncode = exit_status p1, stdout = universal_newlines o1,
                stderr = universal_newlines e1\<rparr>, ?w1)"
    using subprocess_run_decoded [of ?up env w p1 cd o1 e1] u by (simp add: answers_def)
  have rv: "subprocess_run cd env ?ve ?w1 =
       (if exit_status p2 \<noteq> 0 then Inl (CalledProcessError ?ve (exit_status p2))
        else Inr \<lparr>returncode = exit_status p2, stdout = universal_newlines o2,
                  stderr = universal_newlines e2\<rparr>, ?w2)"
    if "answers cd env ?ve (files_left p1) p2 o2 e2"
    using subprocess_run_decoded [of ?ve env ?w1 p2 cd o2 e2] that by (simp add: answers_def)
  {
    assume "exit_status p1 \<noteq> 0"
    then show "fst (pdf_get_ots_blockhash rpc_user rpc_password cd env path w) =
           Inr (''Failed to process: '' @ str_exn (CalledProcessError ?up (exit_status p1)))"
      unfolding pdf_get_ots_blockhash_def Let_def ru by simp
  }
  {
    assume z: "exit_status p1 = 0" and v: "answers cd env ?ve (files_left p1) p2 o2 e2"
      and nz: "exit_status p2 \<noteq> 0"
    show "fst (pdf_get_ots_blockhash rpc_user rpc_password cd env path w) =
           Inr (''Failed to process: '' @ str_exn (CalledProcessError ?ve (exit_status p2)))"
      unfolding pdf_get_ots_blockhash_def Let_def ru using z nz by (simp add: rv [OF v])
  }
  {
    assume z: "exit_status p1 = 0" and v: "answers cd env ?ve (files_left p1) p2 o2 e2"
      and z2: "exit_status p2 = 0"
      and n: "re_search match_block_height (universal_newlines e2) = None"
    show "fst (pdf_get_ots_blockhash rpc_user rpc_password cd env path w) = Inr ''Block height not found in OTS verification output''"
      unfolding pdf_get_ots_blockhash_def Let_def ru using z z2 n by (simp add: rv [OF v])
  }
  {
    assume z: "exit_status p1 = 0" and v: "answers cd env ?ve (files_left p1) p2 o2 e2"
      and z2: "exit_status p2 = 0"
      and s: "re_search match_block_height (universal_newlines e2) = Some h"
      and l: "answers cd env (Shell (header_command h)) (files_left p2) p3 o3 e3"
    have rl: "subprocess_run cd env (Shell (header_command h)) w' =
       (if exit_status p3 \<noteq> 0
        then Inl (CalledProcessError (Shell (header_command h)) (exit_status p3))
        else Inr \<lparr>returncode = exit_status p3, stdout = universal_newlines o3,
                  stderr = universal_newlines e3\<rparr>,
        w'\<lparr>files := files_left p3, ran := ran w' @ [Shell (header_command h)]\<rparr>)"
      if "files w' = files_left p2" for w'
      using subprocess_run_decoded [of "Shell (header_command h)" env w' p3 cd o3 e3] l that
      by (simp add: answers_def)
    show "fst (pdf_get_ots_blockhash rpc_user rpc_password cd env path w) =
           Inr (if exit_status p3 \<noteq> 0
                then ''Failed to process: '' @
                     str_exn (CalledProcessError (Shell (header_command h)) (exit_status p3))
                else strip (universal_newlines o3))"
      unfolding pdf_get_ots_blockhash_def Let_def ru using z z2 s by (simp add: rv [OF v] rl)
  }
qed

lemma pdf_get_ots_blockhash_caught:
  "fst (pdf_get_ots_blockhash rpc_user rpc_password cd env path w) \<noteq> Inl (CalledProcessError c status)"
  "fst (pdf_get_ots_blockhash rpc_user rpc_password cd env path w) \<noteq> Inl AttributeError"
proof -
  let ?up = "Shell (ots_command rpc_user rpc_password ''upgrade'' path)"
  let ?ve = "Shell (ots_command rpc_user rpc_password ''verify'' path)"
  obtain x1 w1 where r1: "subprocess_run cd env ?up w = (x1, w1)"
    by (cases "subprocess_run cd env ?up w")
  obtain x2 w2 where r2: "subprocess_run cd env ?ve w1 = (x2, w2)"
    by (cases "subprocess_run cd env ?ve w1")
  have r3: "fst (case subprocess_run cd env c3 w3 of
                   (Inl e, w5) \<Rightarrow> (case e of
                       CalledProcessError c status \<Rightarrow> (Inr (''Failed to process: '' @ str_exn e), w5)
                     | AttributeError \<Rightarrow> (Inr ''Block height not found in OTS verification output'', w5)
                     | _ \<Rightarrow> (Inl e, w5))
                 | (Inr header_result, w5) \<Rightarrow> (Inr (strip (stdout header_result)), w5)) \<noteq> Inl e'"
    if "e' = CalledProcessError c status \<or> e' = AttributeError" for c3 w3 e'
  proof (cases "subprocess_run cd env c3 w3")
    case (Pair x3 w5)
    show ?thesis
    proof (cases x3)
      case (Inl e)
      with Pair that subprocess_run_raises [of cd env c3 w3 e w5] show ?thesis
        by (auto split: exn.splits)
    next
      case (Inr r)
      with Pair show ?thesis by simp
    qed
  qed
  have x1: "x1 \<noteq> Inl AttributeError" and x2: "x2 \<noteq> Inl AttributeError"
    using subprocess_run_raises [of cd env ?up w AttributeError w1]
      subprocess_run_raises [of cd env ?ve w1 AttributeError w2] r1 r2 by auto
  show "fst (pdf_get_ots_blockhash rpc_user rpc_password cd env path w) \<noteq> Inl (CalledProcessError c status)"
    unfolding pdf_get_ots_blockhash_def Let_def r1
    using x1 x2 by (cases x1; cases x2) (auto simp: r2 r3 split: exn.splits option.splits)
  show "fst (pdf_get_ots_blockhash rpc_user rpc_password cd env path w) \<noteq> Inl AttributeError"
    unfolding pdf_get_ots_blockhash_def Let_def r1
    using x1 x2 by (cases x1; cases x2) (auto simp: r2 r3 split: exn.splits option.splits)
qed


text \<open>
  Claim C3, as amended. \<open>get_ots_blockhash\<close> does not signal a failed tool or an
  unreadable height: no \<open>CalledProcessError\<close> and no \<open>AttributeError\<close> leaves it, and
  when the tools run and their output decodes it returns a text in every case. When
  upgrade, verify or the lookup of the header exits with a non-zero status the text is
  \<open>Failed to process:\<close> followed by the message of the error; when the output of verify
  names no block height it is \<open>Block height not found in OTS verification output\<close>;
  otherwise it is the header the lookup printed, stripped. The caller receives the
  message where it expects the header. Both scripts define the function in this way.
\<close>

theorem get_ots_blockhash_returns_text:
  "((\<forall>c status. fst (get_ots_blockhash cd env path w) \<noteq> Inl (CalledProcessError c status))
   \<and> fst (get_ots_blockhash cd env path w) \<noteq> Inl AttributeError
   \<and> (answers cd env (Shell (ots_command ''asi0'' ''asi0'' ''upgrade'' path)) (files w) p1 o1 e1 \<and>
      exit_status p1 \<noteq> 0 \<longrightarrow>
        fst (get_ots_blockhash cd env path w) =
          Inr (''Failed to process: '' @
               str_exn (CalledProcessError (Shell (ots_command ''asi0'' ''asi0'' ''upgrade'' path))
                 (exit_status p1))))
   \<and> (answers cd env (Shell (ots_command ''asi0'' ''asi0'' ''upgrade'' path)) (files w) p1 o1 e1 \<and>
      exit_status p1 = 0 \<and>
      answers cd env (Shell (ots_command ''asi0'' ''asi0'' ''verify'' path)) (files_left p1) p2 o2 e2 \<and>
      exit_status p2 \<noteq> 0 \<longrightarrow>
        fst (get_ots_blockhash cd env path w) =
          Inr (''Failed to process: '' @
               str_exn (CalledProcessError (Shell (ots_command ''asi0'' ''asi0'' ''verify'' path))
                 (exit_status p2))))
   \<and> (answers cd env (Shell (ots_command ''asi0'' ''asi0'' ''upgrade'' path)) (files w) p1 o1 e1 \<and>
      exit_status p1 = 0 \<and>
      answers cd env (Shell (ots_command ''asi0'' ''asi0'' ''verify'' path)) (files_left p1) p2 o2 e2 \<and>
      exit_status p2 = 0 \<and>
      re_search match_block_height (universal_newlines e2) = None \<longrightarrow>
        fst (get_ots_blockhash cd env path w) = Inr ''Block height not found in OTS verification output'')
   \<and> (answers cd env (Shell (ots_command ''asi0'' ''asi0'' ''upgrade'' path)) (files w) p1 o1 e1 \<and>
      exit_status p1 = 0 \<and>
      answers cd env (Shell (ots_command ''asi0'' ''asi0'' ''verify'' path)) (files_left p1) p2 o2 e2 \<and>
      exit_status p2 = 0 \<and>
      re_search match_block_height (universal_newlines e2) = Some h \<and>
      answers cd env (Shell (header_command h)) (files_left p2) p3 o3 e3 \<longrightarrow>
        fst (get_ots_blockhash cd env path w) =
          Inr (if exit_status p3 \<noteq> 0
               then ''Failed to process: '' @
                    str_exn (CalledProcessError (Shell (header_command h)) (exit_status p3))
               else strip (universal_newlines o3))))
   \<and> ((\<forall>c status. fst (pdf_get_ots_blockhash rpc_user rpc_password cd env path w) \<noteq> Inl (CalledProcessError c status))
   \<and> fst (pdf_get_ots_blockhash rpc_user rpc_password cd env path w) \<noteq> Inl AttributeError
   \<and> (answers cd env (Shell (ots_command rpc_user rpc_password ''upgrade'' path)) (files w) p1 o1 e1 \<and>
      exit_status p1 \<noteq> 0 \<longrightarrow>
        fst (pdf_get_ots_blockhash rpc_user rpc_password cd env path w) =
          Inr (''Failed to process: '' @
               str_exn (CalledProcessError (Shell (ots_command rpc_user rpc_password ''upgrade'' path))
                 (exit_status p1))))
   \<and> (answers cd env (Shell (ots_command rpc_user rpc_password ''upgrade'' path)) (files w) p1 o1 e1 \<and>
      exit_status p1 = 0 \<and>
      answers cd env (Shell (ots_command rpc_user rpc_password ''verify'' path)) (files_left p1) p2 o2 e2 \<and>
      exit_status p2 \<noteq> 0 \<longrightarrow>
        fst (pdf_get_ots_blockhash rpc_user rpc_password cd env path w) =
          Inr (''Failed to process: '' @
               str_exn (CalledProcessError (Shell (ots_command rpc_user rpc_password ''verify'' path))
                 (exit_status p2))))
   \<and> (answers cd env (Shell (ots_command rpc_user rpc_password ''upgrade'' path)) (files w) p1 o1 e1 \<and>
      exit_status p1 = 0 \<and>
      answers cd env (Shell (ots_command rpc_user rpc_password ''verify'' path)) (files_left p1) p2 o2 e2 \<and>
      exit_status p2 = 0 \<and>
      re_search match_block_height (universal_newlines e2) = None \<longrightarrow>
        fst (pdf_get_ots_blockhash rpc_user rpc_password cd env path w) = Inr ''Block height not found in OTS verification output'')
   \<and> (answers cd env (Shell (ots_command rpc_user rpc_password ''upgrade'' path)) (files w) p1 o1 e1 \<and>
      exit_status p1 = 0 \<and>
      answers cd env (Shell (ots_command rpc_user rpc_password ''verify'' path)) (files_left p1) p2 o2 e2 \<and>
      exit_status p2 = 0 \<and>
      re_search match_block_height (universal_newlines e2) = Some h \<and>
      answers cd env (Shell (header_command h)) (files_left p2) p3 o3 e3 \<longrightarrow>
        fst (pdf_get_ots_blockhash rpc_user rpc_password cd env path w) =
          Inr (if exit_status p3 \<noteq> 0
               then ''Failed to process: '' @
                    str_exn (CalledProcessError (Shell (header_command h)) (exit_status p3))
               else strip (universal_newlines o3))))"
proof -
  have a: "(\<forall>c status. fst (get_ots_blockhash cd env path w) \<noteq> Inl (CalledProcessError c status))
   \<and> fst (get_ots_blockhash cd env path w) \<noteq> Inl AttributeError
   \<and> (answers cd env (Shell (ots_command ''asi0'' ''asi0'' ''upgrade'' path)) (files w) p1 o1 e1 \<and>
      exit_status p1 \<noteq> 0 \<longrightarrow>
        fst (get_ots_blockhash cd env path w) =
          Inr (''Failed to process: '' @
               str_exn (CalledProcessError (Shell (ots_command ''asi0'' ''asi0'' ''upgrade'' path))
                 (exit_status p1))))
   \<and> (answers cd env (Shell (ots_command ''asi0'' ''asi0'' ''upgrade'' path)) (files w) p1 o1 e1 \<and>
      exit_status p1 = 0 \<and>
      answers cd env (Shell (ots_command ''asi0'' ''asi0'' ''verify'' path)) (files_left p1) p2 o2 e2 \<and>
      exit_status p2 \<noteq> 0 \<longrightarrow>
        fst (get_ots_blockhash cd env path w) =
          Inr (''Failed to process: '' @
               str_exn (CalledProcessError (Shell (ots_command ''asi0'' ''asi0'' ''verify'' path))
                 (exit_status p2))))
   \<and> (answers cd env (Shell (ots_command ''asi0'' ''asi0'' ''upgrade'' path)) (files w) p1 o1 e1 \<and>
      exit_status p1 = 0 \<and>
      answers cd env (Shell (ots_command ''asi0'' ''asi0'' ''verify'' path)) (files_left p1) p2 o2 e2 \<and>
      exit_status p2 = 0 \<and>
      re_search match_block_height (universal_newlines e2) = None \<longrightarrow>
        fst (get_ots_blockhash cd env path w) = Inr ''Block height not found in OTS verification output'')
   \<and> (answers cd env (Shell (ots_command ''asi0'' ''asi0'' ''upgrade'' path)) (files w) p1 o1 e1 \<and>
      exit_status p1 = 0 \<and>
      answers cd env (Shell (ots_command ''asi0'' ''asi0'' ''verify'' path)) (files_left p1) p2 o2 e2 \<and>
      exit_status p2 = 0 \<and>
      re_search match_block_height (universal_newlines e2) = Some h \<and>
      answers cd env (Shell (header_command h)) (files_left p2) p3 o3 e3 \<longrightarrow>
        fst (get_ots_blockhash cd env path w) =
          Inr (if exit_status p3 \<noteq> 0
               then ''Failed to process: '' @
                    str_exn (CalledProcessError (Shell (header_command h)) (exit_status p3))
               else strip (universal_newlines o3)))"
  proof (intro conjI allI impI)
    fix c status
    show "fst (get_ots_blockhash cd env path w) \<noteq> Inl (CalledProcessError c status)"
      by (rule get_ots_blockhash_caught(1))
  next
    show "fst (get_ots_blockhash cd env path w) \<noteq> Inl AttributeError"
      by (rule get_ots_blockhash_caught(2))
  qed ((elim conjE, (rule get_ots_blockhash_value(1) | rule get_ots_blockhash_value(2)
        | rule get_ots_blockhash_value(3) | rule get_ots_blockhash_value(4)); assumption)+)
  have b: "(\<forall>c status. fst (pdf_get_ots_blockhash rpc_user rpc_password cd env path w) \<noteq> Inl (CalledProcessError c status))
   \<and> fst (pdf_get_ots_blockhash rpc_user rpc_password cd env path w) \<noteq> Inl AttributeError
   \<and> (answers cd env (Shell (ots_command rpc_user rpc_password ''upgrade'' path)) (files w) p1 o1 e1 \<and>
      exit_status p1 \<noteq> 0 \<longrightarrow>
        fst (pdf_get_ots_blockhash rpc_user rpc_password cd env path w) =
          Inr (''Failed to process: '' @
               str_exn (CalledProcessError (Shell (ots_command rpc_user rpc_password ''upgrade'' path))
                 (exit_status p1))))
   \<and> (answers cd env (Shell (ots_command rpc_user rpc_password ''upgrade'' path)) (files w) p1 o1 e1 \<and>
      exit_status p1 = 0 \<and>
      answers cd env (Shell (ots_command rpc_user rpc_password ''verify'' path)) (files_left p1) p2 o2 e2 \<and>
      exit_status p2 \<noteq> 0 \<longrightarrow>
        fst (pdf_get_ots_blockhash rpc_user rpc_password cd env path w) =
          Inr (''Failed to process: '' @
               str_exn (CalledProcessError (Shell (ots_command rpc_user rpc_password ''verify'' path))
                 (exit_status p2))))
   \<and> (answers cd env (Shell (ots_command rpc_user rpc_password ''upgrade'' path)) (files w) p1 o1 e1 \<and>
      exit_status p1 = 0 \<and>
      answers cd env (Shell (ots_command rpc_user rpc_password ''verify'' path)) (files_left p1) p2 o2 e2 \<and>
      exit_status p2 = 0 \<and>
      re_search match_block_height (universal_newlines e2) = None \<longrightarrow>
        fst (pdf_get_ots_blockhash rpc_user rpc_password cd env path w) = Inr ''Block height not found in OTS verification output'')
   \<and> (answers cd env (Shell (ots_command rpc_user rpc_password ''upgrade'' path)) (files w) p1 o1 e1 \<and>
      exit_status p1 = 0 \<and>
      answers cd env (Shell (ots_command rpc_user rpc_password ''verify'' path)) (files_left p1) p2 o2 e2 \<and>
      exit_status p2 = 0 \<and>
      re_search match_block_height (universal_newlines e2) = Some h \<and>
      answers cd env (Shell (header_command h)) (files_left p2) p3 o3 e3 \<longrightarrow>
        fst (pdf_get_ots_blockhash rpc_user rpc_password cd env path w) =
          Inr (if exit_status p3 \<noteq> 0
               then ''Failed to process: '' @
                    str_exn (CalledProcessError (Shell (header_command h)) (exit_status p3))
               else strip (universal_newlines o3)))"
  proof (intro conjI allI impI)
    fix c status
    show "fst (pdf_get_ots_blockhash rpc_user rpc_password cd env path w) \<noteq>
          Inl (CalledProcessError c status)"
      by (rule pdf_get_ots_blockhash_caught(1))
  next
    show "fst (pdf_get_ots_blockhash rpc_user rpc_password cd env path w) \<noteq> Inl AttributeError"
      by (rule pdf_get_ots_blockhash_caught(2))
  qed ((elim conjE, (rule pdf_get_ots_blockhash_value(1) | rule pdf_get_ots_blockhash_value(2)
        | rule pdf_get_ots_blockhash_value(3) | rule pdf_get_ots_blockhash_value(4)); assumption)+)
  from a b show ?thesis by (rule conjI)
qed

theorem get_ots_blockhash_returns_text_witness:
  "fst (get_ots_blockhash
     \<lparr>decode = (\<lambda>b. if list_all (\<lambda>c. (of_char c :: nat) < 128) b then Some b else None),
      encode = (\<lambda>t. if list_all (\<lambda>c. (of_char c :: nat) < 128) t then Some t else None)\<rparr>
     (\<lambda>c fs. Inr \<lparr>exit_status = (if c = Shell (header_command ''840000'') then 22 else 0),
                   out_bytes = [], err_bytes = ''Success! Bitcoin block 840000 attests existence'',
                   files_left = fs\<rparr>)
     ''p.ots'' \<lparr>files = [], console = [], ran = []\<rparr>) =
   Inr (''Failed to process: '' @ str_exn (CalledProcessError (Shell (header_command ''840000'')) 22))"
proof -
  let ?cd = "\<lparr>decode = (\<lambda>b. if list_all (\<lambda>c. (of_char c :: nat) < 128) b then Some b else None),
      encode = (\<lambda>t. if list_all (\<lambda>c. (of_char c :: nat) < 128) t then Some t else None)\<rparr>"
  let ?err = "''Success! Bitcoin block 840000 attests existence''"
  let ?env = "\<lambda>c fs. Inr \<lparr>exit_status = (if c = Shell (header_command ''840000'') then 22 else 0),
                 out_bytes = [], err_bytes = ?err, files_left = fs :: filesystem\<rparr> :: string + process"
  let ?w = "\<lparr>files = [], console = [], ran = []\<rparr>"
  let ?ok = "\<lparr>exit_status = 0, out_bytes = [], err_bytes = ?err, files_left = [] :: filesystem\<rparr>"
  let ?ko = "\<lparr>exit_status = 22, out_bytes = [], err_bytes = ?err, files_left = [] :: filesystem\<rparr>"
  have s: "re_search match_block_height ?err = Some ''840000''"
    by code_simp
  have un: "universal_newlines ?err = ?err"
    by simp
  have c: "ots_command a b v ''p.ots'' \<noteq> header_command ''840000''" for a b v
    by (simp add: ots_command_def header_command_def)
  have n: "\<not> cmd_has_nul (Shell (ots_command ''asi0'' ''asi0'' v ''p.ots''))"
    if "\<not> has_nul v" for v
    using that by (simp add: ots_command_nul has_nul_def)
  have n3: "\<not> cmd_has_nul (Shell (header_command ''840000''))"
    by (simp add: header_command_nul has_nul_def)
  have d: "decode ?cd [] = Some []" "decode ?cd ?err = Some ?err"
    by simp_all
  have h: "answers ?cd ?env (Shell (ots_command ''asi0'' ''asi0'' ''upgrade'' ''p.ots'')) (files ?w)
             ?ok [] ?err \<and>
      exit_status ?ok = 0 \<and>
      answers ?cd ?env (Shell (ots_command ''asi0'' ''asi0'' ''verify'' ''p.ots'')) (files_left ?ok)
        ?ok [] ?err \<and>
      exit_status ?ok = 0 \<and>
      re_search match_block_height (universal_newlines ?err) = Some ''840000'' \<and>
      answers ?cd ?env (Shell (header_command ''840000'')) (files_left ?ok) ?ko [] ?err"
    unfolding un answers_def using s c n [of "''upgrade''"] n [of "''verify''"] n3 d
    by (simp add: has_nul_def del: re_search.simps)
  have "fst (get_ots_blockhash ?cd ?env ''p.ots'' ?w) =
          Inr (if exit_status ?ko \<noteq> 0
               then ''Failed to process: '' @
                    str_exn (CalledProcessError (Shell (header_command ''840000'')) (exit_status ?ko))
               else strip (universal_newlines []))"
    by (rule get_ots_blockhash_returns_text [of ?cd ?env "''p.ots''" ?w ?ok "[]" ?err ?ok "[]" ?err
          "''840000''" ?ko "[]" ?err, THEN conjunct1, THEN conjunct2, THEN conjunct2,
          THEN conjunct2, THEN conjunct2, THEN conjunct2, THEN mp, OF h])
  then show ?thesis by simp
qed

text \<open>
  The claim as it stands fails: with an output of verify that names no block height the
  call ends normally, in both scripts, and its value is a message.
\<close>

theorem get_ots_blockhash_counterexample:
  "re_search match_block_height ''Pending confirmation in Bitcoin blockchain'' = None
   \<and> fst (get_ots_blockhash
       \<lparr>decode = (\<lambda>b. if list_all (\<lambda>c. (of_char c :: nat) < 128) b then Some b else None),
      encode = (\<lambda>t. if list_all (\<lambda>c. (of_char c :: nat) < 128) t then Some t else None)\<rparr>
       (\<lambda>c fs. Inr \<lparr>exit_status = 0, out_bytes = [],
                     err_bytes = ''Pending confirmation in Bitcoin blockchain'', files_left = fs\<rparr>)
       ''p.ots'' \<lparr>files = [], console = [], ran = []\<rparr>) =
     Inr ''Block height not found in OTS verification output''
   \<and> fst (pdf_get_ots_blockhash ''u'' ''pw''
       \<lparr>decode = (\<lambda>b. if list_all (\<lambda>c. (of_char c :: nat) < 128) b then Some b else None),
      encode = (\<lambda>t. if list_all (\<lambda>c. (of_char c :: nat) < 128) t then Some t else None)\<rparr>
       (\<lambda>c fs. Inr \<lparr>exit_status = 0, out_bytes = [],
                     err_bytes = ''Pending confirmation in Bitcoin blockchain'', files_left = fs\<rparr>)
       ''p.ots'' \<lparr>files = [], console = [], ran = []\<rparr>) =
     Inr ''Block height not found in OTS verification output''"
proof -
  let ?cd = "\<lparr>decode = (\<lambda>b. if list_all (\<lambda>c. (of_char c :: nat) < 128) b then Some b else None),
      encode = (\<lambda>t. if list_all (\<lambda>c. (of_char c :: nat) < 128) t then Some t else None)\<rparr>"
  let ?err = "''Pending confirmation in Bitcoin blockchain''"
  let ?env = "\<lambda>c fs. Inr \<lparr>exit_status = 0, out_bytes = [], err_bytes = ?err,
                           files_left = fs :: filesystem\<rparr> :: string + process"
  let ?w = "\<lparr>files = [], console = [], ran = []\<rparr>"
  let ?ok = "\<lparr>exit_status = 0, out_bytes = [], err_bytes = ?err, files_left = [] :: filesystem\<rparr>"
  have n: "re_search match_block_height ?err = None"
    by code_simp
  have un: "universal_newlines ?err = ?err"
    by simp
  have a: "answers ?cd ?env (Shell (ots_command u p v ''p.ots'')) [] ?ok [] ?err"
    if "\<not> has_nul u" "\<not> has_nul p" "\<not> has_nul v" for u p v
    using that by (simp add: answers_def ots_command_nul has_nul_def)
  have g: "fst (get_ots_blockhash ?cd ?env ''p.ots'' ?w) =
           Inr ''Block height not found in OTS verification output''"
    by (rule get_ots_blockhash_value(3) [of ?cd ?env "''p.ots''" ?w ?ok "[]" ?err ?ok "[]" ?err])
      (simp_all add: a has_nul_def un n del: re_search.simps)
  have p: "fst (pdf_get_ots_blockhash ''u'' ''pw'' ?cd ?env ''p.ots'' ?w) =
           Inr ''Block height not found in OTS verification output''"
    by (rule pdf_get_ots_blockhash_value(3) [of ?cd ?env "''u''" "''pw''" "''p.ots''" ?w ?ok "[]" ?err
          ?ok "[]" ?err])
      (simp_all add: a has_nul_def un n del: re_search.simps)
  from n g p show ?thesis by (intro conjI)
qed



section \<open>The digest of a file\<close>

lemma read_chunks_streaming:
  assumes "\<And>st a b. hash_update H (hash_update H st a) b = hash_update H st (a @ b)"
  shows "read_chunks H unread st = (if unread = [] then st else hash_update H st unread)"
  using assms
proof (induction H unread st rule: read_chunks.induct)
  case (1 H unread st)
  note assms = 1(2)
  show ?case
  proof (cases "unread = []")
    case True
    then show ?thesis by (simp add: read_chunks.simps [of H "[]" st])
  next
    case False
    then have c: "take 4096 unread \<noteq> []" by simp
    have "read_chunks H unread st =
          read_chunks H (drop 4096 unread) (hash_update H st (take 4096 unread))"
      using c by (simp add: read_chunks.simps [of H unread st] Let_def)
    also have "\<dots> = (if drop 4096 unread = [] then hash_update H st (take 4096 unread)
                      else hash_update H (hash_update H st (take 4096 unread)) (drop 4096 unread))"
      using 1(1) [OF refl c assms] by simp
    also have "\<dots> = hash_update H st unread"
    proof (cases "drop 4096 unread = []")
      case True
      then have "take 4096 unread = unread" by simp
      with True show ?thesis by simp
    next
      case False
      then show ?thesis by (simp add: assms)
    qed
    finally show ?thesis using False by simp
  qed
qed


text \<open>
  Claim C5. For a hash object that behaves as \<open>hashlib\<close> documents (feeding two chunks one
  after the other is feeding their concatenation, and feeding no bytes changes
  nothing), \<open>compute_sha256\<close> on a file that exists returns the hex digest of the hash
  fed with all bytes of the file at once, although it feeds them in chunks of 4096 bytes;
  files with the same bytes have the same digest.
\<close>

theorem compute_sha256_one_pass:
  "((\<forall>st a b. hash_update H (hash_update H st a) b = hash_update H st (a @ b)) \<and>
    (\<forall>st. hash_update H st [] = st) \<and>
    \<not> has_nul file_path \<and> map_of (files w) file_path = Some bytes \<longrightarrow>
      compute_sha256 H w file_path = Inr (hash_hexdigest H (hash_update H (hash_new H) bytes)))
   \<and> (\<not> has_nul file_path \<and> map_of (files w) file_path = Some bytes \<and>
      \<not> has_nul file_path' \<and> map_of (files w') file_path' = Some bytes \<longrightarrow>
        compute_sha256 H w file_path = compute_sha256 H w' file_path')"
proof (intro conjI impI)
  assume a: "(\<forall>st a b. hash_update H (hash_update H st a) b = hash_update H st (a @ b)) \<and>
    (\<forall>st. hash_update H st [] = st) \<and>
    \<not> has_nul file_path \<and> map_of (files w) file_path = Some bytes"
  then have "read_chunks H bytes (hash_new H) = hash_update H (hash_new H) bytes"
    using read_chunks_streaming [of H bytes "hash_new H"] by (cases "bytes = []") simp_all
  with a show "compute_sha256 H w file_path =
      Inr (hash_hexdigest H (hash_update H (hash_new H) bytes))"
    by (simp add: compute_sha256_def read_bytes_def)
next
  assume "\<not> has_nul file_path \<and> map_of (files w) file_path = Some bytes \<and>
      \<not> has_nul file_path' \<and> map_of (files w') file_path' = Some bytes"
  then show "compute_sha256 H w file_path = compute_sha256 H w' file_path'"
    by (simp add: compute_sha256_def read_bytes_def)
qed

theorem compute_sha256_one_pass_witness:
  "compute_sha256
     \<lparr>hash_new = 1, hash_update = (\<lambda>st bytes. fold (\<lambda>c s. (s * 31 + of_char c) mod 65521) bytes st),
      hash_hexdigest = dec\<rparr>
     \<lparr>files = [(''c.txt'', ''abc'')], console = [], ran = []\<rparr> ''c.txt''
   = Inr (dec (fold (\<lambda>c s. (s * 31 + of_char c) mod 65521) ''abc'' (1::nat)))
   \<and> compute_sha256
     \<lparr>hash_new = 1, hash_update = (\<lambda>st bytes. fold (\<lambda>c s. (s * 31 + of_char c) mod 65521) bytes st),
      hash_hexdigest = dec\<rparr>
     \<lparr>files = [(''c.txt'', ''abc'')], console = [], ran = []\<rparr> ''c.txt''
   = compute_sha256
     \<lparr>hash_new = 1, hash_update = (\<lambda>st bytes. fold (\<lambda>c s. (s * 31 + of_char c) mod 65521) bytes st),
      hash_hexdigest = dec\<rparr>
     \<lparr>files = [(''d.txt'', ''abc'')], console = [''x''], ran = []\<rparr> ''d.txt''"
proof -
  let ?H = "\<lparr>hash_new = 1::nat,
             hash_update = (\<lambda>st bytes. fold (\<lambda>c s. (s * 31 + of_char c) mod 65521) bytes st),
             hash_hexdigest = dec\<rparr>"
  let ?w = "\<lparr>files = [(''c.txt'', ''abc'')], console = [], ran = []\<rparr>"
  let ?w' = "\<lparr>files = [(''d.txt'', ''abc'')], console = [''x''], ran = []\<rparr>"
  have h: "(\<forall>st a b. hash_update ?H (hash_update ?H st a) b = hash_update ?H st (a @ b)) \<and>
    (\<forall>st. hash_update ?H st [] = st) \<and>
    \<not> has_nul ''c.txt'' \<and> map_of (files ?w) ''c.txt'' = Some ''abc''"
    by (simp add: has_nul_def)
  have g: "\<not> has_nul ''c.txt'' \<and> map_of (files ?w) ''c.txt'' = Some ''abc'' \<and>
           \<not> has_nul ''d.txt'' \<and> map_of (files ?w') ''d.txt'' = Some ''abc''"
    by (simp add: has_nul_def)
  note t = compute_sha256_one_pass [of ?H "''c.txt''" ?w "''abc''" "''d.txt''" ?w']
  from t [THEN conjunct1, THEN mp, OF h]
  have a: "compute_sha256 ?H ?w ''c.txt''
           = Inr (dec (fold (\<lambda>c s. (s * 31 + of_char c) mod 65521) ''abc'' (1::nat)))"
    by (simp only: hashlib.simps)
  from t [THEN conjunct2, THEN mp, OF g]
  have b: "compute_sha256 ?H ?w ''c.txt'' = compute_sha256 ?H ?w' ''d.txt''" .
  from a b show ?thesis by (intro conjI)
qed


section \<open>Archiving\<close>

lemma has_nul_basename: "has_nul (basename p) \<Longrightarrow> has_nul p"
  unfolding has_nul_def basename_def by (meson in_set_dropD)

lemma has_nul_path_join: "has_nul (path_join a b) \<Longrightarrow> has_nul a \<or> has_nul b"
  unfolding has_nul_def path_join_def by (auto split: if_splits)

lemma target_no_nul:
  "\<not> has_nul d \<Longrightarrow> \<not> has_nul f \<Longrightarrow> \<not> has_nul (path_join d (basename f))"
  using has_nul_basename has_nul_path_join by blast

lemma shutil_move_cases:
  assumes "path_exists w src" and "\<not> has_nul dst"
  shows "shutil_move refuse src dst w =
     (case refuse src dst of
        Some msg \<Rightarrow> (Inl (OSError msg), w)
      | None \<Rightarrow> (Inr (), w\<lparr>files := AList.update dst (the (map_of (files w) src))
                                     (AList.delete src (files w))\<rparr>))"
  using assms unfolding shutil_move_def path_exists_def
  by (auto split: option.splits)

lemma map_of_moved:
  "map_of (AList.update dst c (AList.delete src fs)) p =
     (if p = dst then Some c else if p = src then None else map_of fs p)"
  by (simp add: update_conv' delete_conv')

lemma move_each_step:
  assumes "\<not> has_nul d"
  shows "move_each refuse d (f # rest) w =
     (if path_exists w f then
        (case refuse f (path_join d (basename f)) of
           Some msg \<Rightarrow> (Inl (OSError msg), w)
         | None \<Rightarrow> move_each refuse d rest
             (w\<lparr>files := AList.update (path_join d (basename f)) (the (map_of (files w) f))
                            (AList.delete f (files w))\<rparr>))
      else move_each refuse d rest (print_line (''Warning: File not found: '' @ f) w))"
proof (cases "path_exists w f")
  case True
  then have "\<not> has_nul f" by (simp add: path_exists_def)
  with assms have "\<not> has_nul (path_join d (basename f))" by (rule target_no_nul)
  with True show ?thesis
    by (simp add: shutil_move_cases split: option.splits)
next
  case False
  then show ?thesis by simp
qed

lemma move_each_console:
  "\<exists>extra. console (snd (move_each refuse d fs w)) = console w @ extra"
proof (induction fs arbitrary: w)
  case Nil
  show ?case by simp
next
  case (Cons f rest)
  show ?case
  proof (cases "path_exists w f")
    case False
    from Cons [of "print_line (''Warning: File not found: '' @ f) w"] False
    show ?thesis by (auto simp: print_line_def)
  next
    case True
    show ?thesis
    proof (cases "shutil_move refuse f (path_join d (basename f)) w")
      case (Pair r w1)
      have c: "console w1 = console w"
        using Pair unfolding shutil_move_def by (auto split: if_splits option.splits)
      show ?thesis
      proof (cases r)
        case (Inl e)
        with True Pair c show ?thesis by simp
      next
        case (Inr u)
        with True Pair c Cons [of w1] show ?thesis by simp
      qed
    qed
  qed
qed

declare move_each.simps(2) [simp del]

lemma move_each_frame:
  assumes "\<not> has_nul d"
  shows "p \<notin> set fs \<Longrightarrow> p \<notin> (\<lambda>f. path_join d (basename f)) ` set fs \<Longrightarrow>
         map_of (files (snd (move_each refuse d fs w))) p = map_of (files w) p"
proof (induction fs arbitrary: w)
  case Nil
  show ?case by simp
next
  case (Cons f rest)
  from Cons.prems have p: "p \<noteq> f" "p \<noteq> path_join d (basename f)"
    "p \<notin> set rest" "p \<notin> (\<lambda>f. path_join d (basename f)) ` set rest" by auto
  show ?case
    using Cons.IH [OF p(3,4)] p(1,2)
    by (simp add: move_each_step [OF assms] map_of_moved print_line_def split: option.splits)
qed

lemma move_each_all:
  assumes "\<not> has_nul d"
  shows "\<forall>f\<in>set fs. refuse f (path_join d (basename f)) = None \<Longrightarrow>
         fst (move_each refuse d fs w) = Inr ()"
proof (induction fs arbitrary: w)
  case Nil
  show ?case by simp
next
  case (Cons f rest)
  then show ?case by (simp add: move_each_step [OF assms])
qed

lemma move_each_raised:
  assumes "\<not> has_nul d"
  shows "fst (move_each refuse d fs w) = Inl e \<Longrightarrow>
         \<exists>f\<in>set fs. \<exists>msg. refuse f (path_join d (basename f)) = Some msg \<and> e = OSError msg"
proof (induction fs arbitrary: w)
  case Nil
  then show ?case by simp
next
  case (Cons f rest)
  from Cons.prems show ?case
    by (auto simp: move_each_step [OF assms] split: if_splits option.splits dest: Cons.IH)
qed

lemma move_each_moved:
  assumes "\<not> has_nul d"
  shows "fst (move_each refuse d fs w) = Inr () \<Longrightarrow>
         distinct (map (\<lambda>f. path_join d (basename f)) fs) \<Longrightarrow>
         \<forall>f\<in>set fs. path_join d (basename f) \<notin> set fs \<Longrightarrow>
         g \<in> set fs \<Longrightarrow> path_exists w g \<Longrightarrow>
         map_of (files (snd (move_each refuse d fs w))) (path_join d (basename g)) = map_of (files w) g
         \<and> map_of (files (snd (move_each refuse d fs w))) g = None"
proof (induction fs arbitrary: w)
  case Nil
  then show ?case by simp
next
  case (Cons f rest)
  let ?D = "\<lambda>f. path_join d (basename f)"
  from Cons.prems(2) have dist: "?D f \<notin> ?D ` set rest" "distinct (map ?D rest)" by auto
  then have fr: "f \<notin> set rest" by auto
  from Cons.prems(3) have al: "?D f \<noteq> f" "?D f \<notin> set rest" "\<forall>h\<in>set rest. ?D h \<noteq> f"
    "\<forall>h\<in>set rest. ?D h \<notin> set rest" by auto
  show ?case
  proof (cases "path_exists w f")
    case False
    let ?w1 = "print_line (''Warning: File not found: '' @ f) w"
    from False Cons.prems(5) have gf: "g \<noteq> f" by auto
    with Cons.prems(4) have gr: "g \<in> set rest" by simp
    from False Cons.prems(1) have r: "fst (move_each refuse d rest ?w1) = Inr ()"
      by (simp add: move_each_step [OF assms])
    from Cons.prems(5) have e: "path_exists ?w1 g" by (simp add: path_exists_def print_line_def)
    from Cons.IH [OF r dist(2) al(4) gr e] False show ?thesis
      by (simp add: move_each_step [OF assms] print_line_def)
  next
    case True
    let ?w1 = "w\<lparr>files := AList.update (?D f) (the (map_of (files w) f)) (AList.delete f (files w))\<rparr>"
    from True Cons.prems(1) have n: "refuse f (?D f) = None"
      and r: "fst (move_each refuse d rest ?w1) = Inr ()"
      and s: "move_each refuse d (f # rest) w = move_each refuse d rest ?w1"
      by (auto simp: move_each_step [OF assms] split: option.splits)
    show ?thesis
    proof (cases "g = f")
      case True
      have a: "map_of (files (snd (move_each refuse d rest ?w1))) (?D f) = map_of (files ?w1) (?D f)"
        using al(2) dist(1) by (intro move_each_frame [OF assms]) auto
      have b: "map_of (files (snd (move_each refuse d rest ?w1))) f = map_of (files ?w1) f"
        using fr al(3) by (intro move_each_frame [OF assms]) auto
      from Cons.prems(5) True have "map_of (files w) f \<noteq> None" by (simp add: path_exists_def)
      with a b al(1) True s show ?thesis by (auto simp: map_of_moved)
    next
      case False
      with Cons.prems(4) have gr: "g \<in> set rest" by simp
      with al(2) have "g \<noteq> ?D f" by auto
      with False Cons.prems(5) have e: "path_exists ?w1 g" and m: "map_of (files ?w1) g = map_of (files w) g"
        by (simp_all add: path_exists_def map_of_moved)
      from Cons.IH [OF r dist(2) al(4) gr e] s m show ?thesis by simp
    qed
  qed
qed

lemma move_each_warned:
  assumes "\<not> has_nul d"
  shows "fst (move_each refuse d fs w) = Inr () \<Longrightarrow>
         \<forall>f\<in>set fs. path_join d (basename f) \<noteq> g \<Longrightarrow>
         g \<in> set fs \<Longrightarrow> \<not> path_exists w g \<Longrightarrow>
         ''Warning: File not found: '' @ g \<in> set (console (snd (move_each refuse d fs w)))"
proof (induction fs arbitrary: w)
  case Nil
  then show ?case by simp
next
  case (Cons f rest)
  let ?D = "\<lambda>f. path_join d (basename f)"
  show ?case
  proof (cases "path_exists w f")
    case False
    let ?w1 = "print_line (''Warning: File not found: '' @ f) w"
    from False Cons.prems(1) have r: "fst (move_each refuse d rest ?w1) = Inr ()"
      and s: "move_each refuse d (f # rest) w = move_each refuse d rest ?w1"
      by (simp_all add: move_each_step [OF assms])
    show ?thesis
    proof (cases "g = f")
      case True
      obtain extra where "console (snd (move_each refuse d rest ?w1)) = console ?w1 @ extra"
        using move_each_console by blast
      with True s show ?thesis by (simp add: print_line_def)
    next
      case False
      with Cons.prems(3) have gr: "g \<in> set rest" by simp
      from Cons.prems(4) have e: "\<not> path_exists ?w1 g" by (simp add: path_exists_def print_line_def)
      from Cons.prems(2) have "\<forall>f\<in>set rest. ?D f \<noteq> g" by simp
      from Cons.IH [OF r this gr e] s show ?thesis by simp
    qed
  next
    case True
    let ?w1 = "w\<lparr>files := AList.update (?D f) (the (map_of (files w) f)) (AList.delete f (files w))\<rparr>"
    from True Cons.prems(1) have r: "fst (move_each refuse d rest ?w1) = Inr ()"
      and s: "move_each refuse d (f # rest) w = move_each refuse d rest ?w1"
      by (auto simp: move_each_step [OF assms] split: option.splits)
    from True Cons.prems(4) have "g \<noteq> f" by auto
    with Cons.prems(3) have gr: "g \<in> set rest" by simp
    from Cons.prems(2) have "?D f \<noteq> g" by simp
    with Cons.prems(4) \<open>g \<noteq> f\<close> have e: "\<not> path_exists ?w1 g"
      by (auto simp: path_exists_def map_of_moved)
    from Cons.prems(2) have "\<forall>f\<in>set rest. ?D f \<noteq> g" by simp
    from Cons.IH [OF r this gr e] s show ?thesis by simp
  qed
qed

lemma makedirs_made:
  "os_makedirs denied d w = Inr () \<Longrightarrow> \<not> has_nul d"
  unfolding os_makedirs_def by (auto split: if_splits)

lemma move_files_to_final_made:
  assumes "os_makedirs denied (path_join (dirname (dirname pathfile)) ''final'') w = Inr ()"
  shows "move_files_to_final denied refuse pathfile signed_txt_path pdf_path w =
     (case move_each refuse (path_join (dirname (dirname pathfile)) ''final'')
             [pathfile, signed_txt_path, pdf_path] w of
        (Inr u, w') \<Rightarrow> (Inr True, w')
      | (Inl e, w') \<Rightarrow> (Inr False, print_line (''Error moving files: '' @ str_exn e) w'))"
  using assms by (simp add: move_files_to_final_def Let_def)

lemma move_files_to_final_not_made:
  assumes "os_makedirs denied (path_join (dirname (dirname pathfile)) ''final'') w = Inl e"
  shows "move_files_to_final denied refuse pathfile signed_txt_path pdf_path w = (Inl e, w)"
  using assms by (simp add: move_files_to_final_def Let_def)


text \<open>
  Claim C9. \<open>move_files_to_final\<close> first makes the folder \<open>final\<close>; an error there leaves
  the function and nothing is moved. After that:
  when no move is refused the result is \<open>True\<close>, whichever of the three files are missing;
  the result is \<open>False\<close> only when a move was refused, and the message is printed;
  when the result is \<open>True\<close> and the three files have three places in \<open>final\<close>, none of
  them a file to move, each file that existed is in \<open>final\<close> under its own name with its
  bytes and has left its place, and each missing file has its warning on the console;
  when the second move is refused the result is \<open>False\<close> and the first file stays moved;
  no other file is touched.
\<close>

theorem move_files_to_final_relocates:
  "(os_makedirs denied (path_join (dirname (dirname pathfile)) ''final'') w = Inr () \<and>
    (\<forall>f\<in>set [pathfile, signed_txt_path, pdf_path]. refuse f (final_path pathfile f) = None) \<longrightarrow>
      fst (move_files_to_final denied refuse pathfile signed_txt_path pdf_path w) = Inr True)
   \<and> (fst (move_files_to_final denied refuse pathfile signed_txt_path pdf_path w) = Inr False \<longrightarrow>
      (\<exists>f\<in>set [pathfile, signed_txt_path, pdf_path]. \<exists>msg.
         refuse f (final_path pathfile f) = Some msg \<and>
         last (console (snd (move_files_to_final denied refuse pathfile signed_txt_path pdf_path w)))
           = ''Error moving files: '' @ msg))
   \<and> (fst (move_files_to_final denied refuse pathfile signed_txt_path pdf_path w) = Inr True \<and>
      distinct (map (final_path pathfile) [pathfile, signed_txt_path, pdf_path]) \<and>
      (\<forall>f\<in>set [pathfile, signed_txt_path, pdf_path].
         final_path pathfile f \<notin> set [pathfile, signed_txt_path, pdf_path]) \<longrightarrow>
      (\<forall>f\<in>set [pathfile, signed_txt_path, pdf_path].
         if path_exists w f
         then map_of (files (snd (move_files_to_final denied refuse pathfile signed_txt_path pdf_path w)))
                (final_path pathfile f) = map_of (files w) f \<and>
              map_of (files (snd (move_files_to_final denied refuse pathfile signed_txt_path pdf_path w)))
                f = None
         else ''Warning: File not found: '' @ f \<in>
              set (console (snd (move_files_to_final denied refuse pathfile signed_txt_path pdf_path w)))))
   \<and> (os_makedirs denied (path_join (dirname (dirname pathfile)) ''final'') w = Inr () \<and>
      distinct (map (final_path pathfile) [pathfile, signed_txt_path, pdf_path]) \<and>
      (\<forall>f\<in>set [pathfile, signed_txt_path, pdf_path].
         final_path pathfile f \<notin> set [pathfile, signed_txt_path, pdf_path]) \<and>
      path_exists w pathfile \<and> refuse pathfile (final_path pathfile pathfile) = None \<and>
      path_exists w signed_txt_path \<and>
      refuse signed_txt_path (final_path pathfile signed_txt_path) = Some msg \<longrightarrow>
      fst (move_files_to_final denied refuse pathfile signed_txt_path pdf_path w) = Inr False \<and>
      map_of (files (snd (move_files_to_final denied refuse pathfile signed_txt_path pdf_path w)))
        (final_path pathfile pathfile) = map_of (files w) pathfile \<and>
      map_of (files (snd (move_files_to_final denied refuse pathfile signed_txt_path pdf_path w)))
        pathfile = None \<and>
      map_of (files (snd (move_files_to_final denied refuse pathfile signed_txt_path pdf_path w)))
        signed_txt_path = map_of (files w) signed_txt_path)
   \<and> (p \<notin> set [pathfile, signed_txt_path, pdf_path] \<and>
      p \<notin> final_path pathfile ` set [pathfile, signed_txt_path, pdf_path] \<longrightarrow>
      map_of (files (snd (move_files_to_final denied refuse pathfile signed_txt_path pdf_path w))) p
        = map_of (files w) p)
   \<and> (os_makedirs denied (path_join (dirname (dirname pathfile)) ''final'') w = Inl e \<longrightarrow>
      move_files_to_final denied refuse pathfile signed_txt_path pdf_path w = (Inl e, w))"
proof -
  let ?d = "path_join (dirname (dirname pathfile)) ''final''"
  let ?fs = "[pathfile, signed_txt_path, pdf_path]"
  let ?mv = "move_files_to_final denied refuse pathfile signed_txt_path pdf_path w"
  let ?D = "\<lambda>f. path_join ?d (basename f)"
  have fp: "final_path pathfile = ?D"
    by (simp add: final_path_def fun_eq_iff)
  show ?thesis
  proof (cases "os_makedirs denied ?d w")
    case (Inl e')
    have mv: "?mv = (Inl e', w)"
      using Inl by (rule move_files_to_final_not_made)
    show ?thesis
      unfolding mv using Inl by simp
  next
    case (Inr u)
    then have made: "os_makedirs denied ?d w = Inr ()" by simp
    then have nn: "\<not> has_nul ?d" by (rule makedirs_made)
    note mv = move_files_to_final_made [OF made, of refuse signed_txt_path pdf_path]
    obtain r w' where each: "move_each refuse ?d ?fs w = (r, w')"
      by (cases "move_each refuse ?d ?fs w")
    have c1: "(\<forall>f\<in>set ?fs. refuse f (final_path pathfile f) = None) \<longrightarrow> fst ?mv = Inr True"
    proof
      assume "\<forall>f\<in>set ?fs. refuse f (final_path pathfile f) = None"
      then have "\<forall>f\<in>set ?fs. refuse f (?D f) = None" unfolding fp .
      with nn have "fst (move_each refuse ?d ?fs w) = Inr ()"
        by (rule move_each_all [where d = ?d and fs = ?fs and refuse = refuse and w = w])
      with each have "r = Inr ()" by simp
      with each show "fst ?mv = Inr True" unfolding mv by simp
    qed
    have c2: "fst ?mv = Inr False \<longrightarrow>
      (\<exists>f\<in>set ?fs. \<exists>msg. refuse f (final_path pathfile f) = Some msg \<and>
         last (console (snd ?mv)) = ''Error moving files: '' @ msg)"
    proof
      assume f: "fst ?mv = Inr False"
      then obtain e' where e': "r = Inl e'"
        unfolding mv each by (cases r) simp_all
      with each have "fst (move_each refuse ?d ?fs w) = Inl e'" by simp
      with nn have "\<exists>f\<in>set ?fs. \<exists>msg. refuse f (?D f) = Some msg \<and> e' = OSError msg"
        by (rule move_each_raised [where d = ?d and fs = ?fs and refuse = refuse and w = w])
      then obtain g msg where g: "g \<in> set ?fs" "refuse g (?D g) = Some msg" "e' = OSError msg"
        by blast
      have "last (console (snd ?mv)) = ''Error moving files: '' @ msg"
        unfolding mv each e' g(3) by (simp add: print_line_def str_exn_def)
      with g(1,2) show "\<exists>f\<in>set ?fs. \<exists>msg. refuse f (final_path pathfile f) = Some msg \<and>
         last (console (snd ?mv)) = ''Error moving files: '' @ msg"
        unfolding fp by blast
    qed
    have c3: "fst ?mv = Inr True \<and> distinct (map (final_path pathfile) ?fs) \<and>
        (\<forall>f\<in>set ?fs. final_path pathfile f \<notin> set ?fs) \<longrightarrow>
        (\<forall>f\<in>set ?fs.
           if path_exists w f
           then map_of (files (snd ?mv)) (final_path pathfile f) = map_of (files w) f \<and>
                map_of (files (snd ?mv)) f = None
           else ''Warning: File not found: '' @ f \<in> set (console (snd ?mv)))"
    proof (intro impI ballI)
      fix f
      assume a: "fst ?mv = Inr True \<and> distinct (map (final_path pathfile) ?fs) \<and>
        (\<forall>f\<in>set ?fs. final_path pathfile f \<notin> set ?fs)" and f: "f \<in> set ?fs"
      from a have r: "r = Inr ()"
        unfolding mv each by (cases r) simp_all
      then have ok: "fst (move_each refuse ?d ?fs w) = Inr ()" using each by simp
      have s: "snd ?mv = snd (move_each refuse ?d ?fs w)"
        unfolding mv each r by simp
      from a have di: "distinct (map ?D ?fs)" and al: "\<forall>f\<in>set ?fs. ?D f \<notin> set ?fs"
        unfolding fp by blast+
      show "if path_exists w f
           then map_of (files (snd ?mv)) (final_path pathfile f) = map_of (files w) f \<and>
                map_of (files (snd ?mv)) f = None
           else ''Warning: File not found: '' @ f \<in> set (console (snd ?mv))"
      proof (cases "path_exists w f")
        case True
        have "map_of (files (snd (move_each refuse ?d ?fs w))) (?D f) = map_of (files w) f
            \<and> map_of (files (snd (move_each refuse ?d ?fs w))) f = None"
          using nn ok di al f True
          by (rule move_each_moved [where d = ?d and fs = ?fs and refuse = refuse and w = w and g = f])
        with True show ?thesis
          unfolding s fp by simp
      next
        case False
        from al f have "\<forall>g\<in>set ?fs. ?D g \<noteq> f" by blast
        with nn ok have "''Warning: File not found: '' @ f
            \<in> set (console (snd (move_each refuse ?d ?fs w)))"
          using f False
          by (rule move_each_warned [where d = ?d and fs = ?fs and refuse = refuse and w = w and g = f])
        with False show ?thesis
          unfolding s by simp
      qed
    qed
    have c4: "distinct (map (final_path pathfile) ?fs) \<and>
        (\<forall>f\<in>set ?fs. final_path pathfile f \<notin> set ?fs) \<and>
        path_exists w pathfile \<and> refuse pathfile (final_path pathfile pathfile) = None \<and>
        path_exists w signed_txt_path \<and>
        refuse signed_txt_path (final_path pathfile signed_txt_path) = Some msg \<longrightarrow>
        fst ?mv = Inr False \<and>
        map_of (files (snd ?mv)) (final_path pathfile pathfile) = map_of (files w) pathfile \<and>
        map_of (files (snd ?mv)) pathfile = None \<and>
        map_of (files (snd ?mv)) signed_txt_path = map_of (files w) signed_txt_path"
    proof
      assume a: "distinct (map (final_path pathfile) ?fs) \<and>
        (\<forall>f\<in>set ?fs. final_path pathfile f \<notin> set ?fs) \<and>
        path_exists w pathfile \<and> refuse pathfile (final_path pathfile pathfile) = None \<and>
        path_exists w signed_txt_path \<and>
        refuse signed_txt_path (final_path pathfile signed_txt_path) = Some msg"
      let ?w1 = "w\<lparr>files := AList.update (?D pathfile) (the (map_of (files w) pathfile))
                               (AList.delete pathfile (files w))\<rparr>"
      from a have ne: "signed_txt_path \<noteq> pathfile" "signed_txt_path \<noteq> ?D pathfile"
        "?D pathfile \<noteq> pathfile"
        unfolding fp by auto
      from a have ex: "path_exists w pathfile" "path_exists w signed_txt_path"
        and rf: "refuse pathfile (?D pathfile) = None" "refuse signed_txt_path (?D signed_txt_path) = Some msg"
        unfolding fp by blast+
      from ex(2) ne have ex1: "path_exists ?w1 signed_txt_path"
        by (simp add: path_exists_def map_of_moved)
      have "move_each refuse ?d ?fs w = move_each refuse ?d [signed_txt_path, pdf_path] ?w1"
        using ex(1) rf(1) by (simp add: move_each_step [OF nn])
      also have "\<dots> = (Inl (OSError msg), ?w1)"
        using ex1 rf(2) by (simp only: move_each_step [OF nn] if_True option.case)
      finally have e: "move_each refuse ?d ?fs w = (Inl (OSError msg), ?w1)" .
      from ex(1) have "map_of (files w) pathfile \<noteq> None" by (simp add: path_exists_def)
      then show "fst ?mv = Inr False \<and>
        map_of (files (snd ?mv)) (final_path pathfile pathfile) = map_of (files w) pathfile \<and>
        map_of (files (snd ?mv)) pathfile = None \<and>
        map_of (files (snd ?mv)) signed_txt_path = map_of (files w) signed_txt_path"
        unfolding mv e fp using ne by (auto simp: print_line_def map_of_moved)
    qed
    have c5: "p \<notin> set ?fs \<and> p \<notin> final_path pathfile ` set ?fs \<longrightarrow>
        map_of (files (snd ?mv)) p = map_of (files w) p"
    proof
      assume "p \<notin> set ?fs \<and> p \<notin> final_path pathfile ` set ?fs"
      then have "p \<notin> set ?fs" "p \<notin> ?D ` set ?fs" unfolding fp by blast+
      with nn have "map_of (files (snd (move_each refuse ?d ?fs w))) p = map_of (files w) p"
        by (rule move_each_frame [where d = ?d and fs = ?fs and refuse = refuse and w = w and p = p])
      then have "map_of (files w') p = map_of (files w) p" using each by simp
      then show "map_of (files (snd ?mv)) p = map_of (files w) p"
        unfolding mv each by (cases r) (simp_all add: print_line_def)
    qed
    from c1 c2 c3 c4 c5 made show ?thesis
      by (intro conjI impI) (blast | simp)+
  qed
qed

theorem move_files_to_final_relocates_witness:
  "fst (move_files_to_final (\<lambda>path. None) (\<lambda>src dst. None)
          ''a/work/c.ots'' ''a/work/c.txt.asc'' ''a/work/c.pdf''
          \<lparr>files = [(''a/work/c.ots'', ''proof''), (''a/work/c.pdf'', ''pdf'')],
           console = [], ran = []\<rparr>) = Inr True
   \<and> map_of (files (snd (move_files_to_final (\<lambda>path. None) (\<lambda>src dst. None)
          ''a/work/c.ots'' ''a/work/c.txt.asc'' ''a/work/c.pdf''
          \<lparr>files = [(''a/work/c.ots'', ''proof''), (''a/work/c.pdf'', ''pdf'')],
           console = [], ran = []\<rparr>))) ''a/final/c.pdf'' = Some ''pdf''
   \<and> map_of (files (snd (move_files_to_final (\<lambda>path. None) (\<lambda>src dst. None)
          ''a/work/c.ots'' ''a/work/c.txt.asc'' ''a/work/c.pdf''
          \<lparr>files = [(''a/work/c.ots'', ''proof''), (''a/work/c.pdf'', ''pdf'')],
           console = [], ran = []\<rparr>))) ''a/work/c.pdf'' = None
   \<and> ''Warning: File not found: a/work/c.txt.asc'' \<in>
       set (console (snd (move_files_to_final (\<lambda>path. None) (\<lambda>src dst. None)
          ''a/work/c.ots'' ''a/work/c.txt.asc'' ''a/work/c.pdf''
          \<lparr>files = [(''a/work/c.ots'', ''proof''), (''a/work/c.pdf'', ''pdf'')],
           console = [], ran = []\<rparr>)))"
proof -
  let ?denied = "\<lambda>path :: string. None :: string option"
  let ?refuse = "\<lambda>(src :: string) (dst :: string). None :: string option"
  let ?w = "\<lparr>files = [(''a/work/c.ots'', ''proof''), (''a/work/c.pdf'', ''pdf'')],
             console = [], ran = []\<rparr>"
  let ?fs = "[''a/work/c.ots'', ''a/work/c.txt.asc'', ''a/work/c.pdf'']"
  let ?mv = "move_files_to_final ?denied ?refuse ''a/work/c.ots'' ''a/work/c.txt.asc'' ''a/work/c.pdf'' ?w"
  note t = move_files_to_final_relocates [of ?denied "''a/work/c.ots''" ?w
      "''a/work/c.txt.asc''" "''a/work/c.pdf''" ?refuse]
  have d: "path_join (dirname (dirname ''a/work/c.ots'')) ''final'' = ''a/final''"
    by code_simp
  have f1: "final_path ''a/work/c.ots'' ''a/work/c.ots'' = ''a/final/c.ots''"
    and f2: "final_path ''a/work/c.ots'' ''a/work/c.txt.asc'' = ''a/final/c.txt.asc''"
    and f3: "final_path ''a/work/c.ots'' ''a/work/c.pdf'' = ''a/final/c.pdf''"
    by code_simp+
  have made: "os_makedirs ?denied (path_join (dirname (dirname ''a/work/c.ots'')) ''final'') ?w = Inr ()"
    unfolding d by (simp add: os_makedirs_def has_nul_def)
  have h1: "os_makedirs ?denied (path_join (dirname (dirname ''a/work/c.ots'')) ''final'') ?w = Inr () \<and>
    (\<forall>f\<in>set ?fs. ?refuse f (final_path ''a/work/c.ots'' f) = None)"
    using made by simp
  from t [THEN conjunct1, THEN mp, OF h1]
  have r: "fst ?mv = Inr True" .
  have h3: "fst ?mv = Inr True \<and> distinct (map (final_path ''a/work/c.ots'') ?fs) \<and>
      (\<forall>f\<in>set ?fs. final_path ''a/work/c.ots'' f \<notin> set ?fs)"
    using r by (simp add: f1 f2 f3)
  note m = t [THEN conjunct2, THEN conjunct2, THEN conjunct1, THEN mp, OF h3]
  have e3: "path_exists ?w ''a/work/c.pdf''" and e2: "\<not> path_exists ?w ''a/work/c.txt.asc''"
    by (simp_all add: path_exists_def has_nul_def)
  from m [THEN bspec, of "''a/work/c.pdf''"] e3
  have a: "map_of (files (snd ?mv)) ''a/final/c.pdf'' = Some ''pdf''"
    and b: "map_of (files (snd ?mv)) ''a/work/c.pdf'' = None"
    by (simp_all add: f3)
  from m [THEN bspec, of "''a/work/c.txt.asc''"] e2
  have c: "''Warning: File not found: a/work/c.txt.asc'' \<in> set (console (snd ?mv))"
    by simp
  from r a b c show ?thesis by (intro conjI)
qed


section \<open>The plaintext certificates\<close>

lemma and_then_Inr:
  "and_then r k = (Inr y, w') \<longleftrightarrow> (\<exists>x w1. r = (Inr x, w1) \<and> k x w1 = (Inr y, w'))"
  unfolding and_then_def by (cases r; cases "fst r") auto

lemma sign_certificate_Inr:
  assumes "sign_certificate env file_path w = (Inr signed_file, w')"
  shows "signed_file = slice_int file_path 0 (- 4) @ ''-signed.txt'' \<and>
         ran w' = ran w @ [Shell (sign_command signed_file file_path)]"
  using assms unfolding sign_certificate_def subprocess_run_plain_def Let_def
  by (auto split: if_splits sum.splits prod.splits)

lemma os_remove_Inr:
  assumes "os_remove path w = (Inr u, w')"
  shows "map_of (files w') path = None \<and> ran w' = ran w"
  using assms unfolding os_remove_def
  by (auto simp: delete_conv' split: if_splits)

lemma timestamp_file_Inr:
  assumes "timestamp_file env file_path w = (Inr u, w')"
  shows "\<exists>p. env (Shell (timestamp_command file_path)) (files w) = Inr p \<and> exit_status p = 0 \<and>
             files w' = files_left p \<and> ran w' = ran w @ [Shell (timestamp_command file_path)]"
  using assms unfolding timestamp_file_def subprocess_run_plain_def Let_def
  by (auto split: if_splits sum.splits)

lemma write_sign_stamp:
  assumes "and_then (write_text cd file_path certificate_content w0) (\<lambda>written w.
     and_then (Inr (), print_line (a @ file_path) w) (\<lambda>printed w.
     and_then (sign_certificate env file_path w) (\<lambda>signed_file w.
     and_then (Inr (), print_line (b @ signed_file) w) (\<lambda>printed w.
     and_then (os_remove file_path w) (\<lambda>removed w.
     and_then (timestamp_file env signed_file w) (\<lambda>stamped w.
     (Inr (), print_line (c @ signed_file) w))))))) = (Inr (), w')"
  shows "\<exists>fs p. map_of fs file_path = None \<and>
           env (Shell (timestamp_command (slice_int file_path 0 (- 4) @ ''-signed.txt''))) fs = Inr p \<and>
           exit_status p = 0 \<and> files w' = files_left p \<and>
           (\<exists>earlier. ran w' = earlier @
              [Shell (sign_command (slice_int file_path 0 (- 4) @ ''-signed.txt'') file_path),
               Shell (timestamp_command (slice_int file_path 0 (- 4) @ ''-signed.txt''))])"
proof -
  from assms obtain w1 w2 signed_file w3 w4 w5 w6 where
    s: "sign_certificate env file_path w2 = (Inr signed_file, w3)"
    and p: "w4 = print_line (b @ signed_file) w3"
    and r: "os_remove file_path w4 = (Inr (), w5)"
    and t: "timestamp_file env signed_file w5 = (Inr (), w6)"
    and e: "w' = print_line (c @ signed_file) w6"
    unfolding and_then_Inr by auto
  from sign_certificate_Inr [OF s]
  have sf: "signed_file = slice_int file_path 0 (- 4) @ ''-signed.txt''"
    and r3: "ran w3 = ran w2 @ [Shell (sign_command signed_file file_path)]" by simp_all
  from os_remove_Inr [OF r] have g: "map_of (files w5) file_path = None" and r5: "ran w5 = ran w4"
    by simp_all
  from timestamp_file_Inr [OF t] obtain p where
    q: "env (Shell (timestamp_command signed_file)) (files w5) = Inr p" "exit_status p = 0"
       "files w6 = files_left p" "ran w6 = ran w5 @ [Shell (timestamp_command signed_file)]"
    by blast
  have "ran w' = ran w2 @ [Shell (sign_command signed_file file_path),
                            Shell (timestamp_command signed_file)]"
    using e q(4) r5 p r3 by (simp add: print_line_def)
  moreover have "files w' = files_left p" using e q(3) by (simp add: print_line_def)
  ultimately show ?thesis using g q(1,2) unfolding sf by blast
qed

lemma and_then_InrE:
  assumes "and_then r k = (Inr y, w')"
  obtains x w1 where "r = (Inr x, w1)" and "k x w1 = (Inr y, w')"
  using assms unfolding and_then_Inr by blast

lemma bitcoin_generate_certificate_Inr:
  assumes "bitcoin_generate_certificate lib cd env edition_data result_data result_folder_path w = (Inr (), w')"
  shows "\<exists>fs p. map_of fs (bitcoin_certificate_path result_folder_path) = None \<and>
           env (Shell (timestamp_command (signed_path (bitcoin_certificate_path result_folder_path)))) fs = Inr p \<and>
           exit_status p = 0 \<and> files w' = files_left p \<and>
           (\<exists>earlier. ran w' = earlier @
              [Shell (sign_command (signed_path (bitcoin_certificate_path result_folder_path))
                        (bitcoin_certificate_path result_folder_path)),
               Shell (timestamp_command (signed_path (bitcoin_certificate_path result_folder_path)))])"
  using assms
  unfolding bitcoin_generate_certificate_def Let_def bitcoin_certificate_path_def signed_path_def
  apply -
  apply (erule and_then_InrE)
  apply (erule and_then_InrE)
  apply (erule and_then_InrE)
  apply (erule and_then_InrE)
  apply (erule and_then_InrE)
  apply (erule and_then_InrE)
  apply (erule and_then_InrE)
  apply (erule and_then_InrE)
  apply (erule and_then_InrE)
  apply (erule and_then_InrE)
  apply (erule write_sign_stamp)
  done

lemma course_generate_certificate_Inr:
  assumes "course_generate_certificate lib cd env denied username fullname course_id w = (Inr (), w')"
  shows "\<exists>fs p. map_of fs (course_certificate_path username course_id) = None \<and>
           env (Shell (timestamp_command (signed_path (course_certificate_path username course_id)))) fs = Inr p \<and>
           exit_status p = 0 \<and> files w' = files_left p \<and>
           (\<exists>earlier. ran w' = earlier @
              [Shell (sign_command (signed_path (course_certificate_path username course_id))
                        (course_certificate_path username course_id)),
               Shell (timestamp_command (signed_path (course_certificate_path username course_id)))])"
  using assms
  unfolding course_generate_certificate_def Let_def course_certificate_path_def signed_path_def
  apply -
  apply (erule and_then_InrE)
  apply (erule and_then_InrE)
  apply (erule and_then_InrE)
  apply (erule and_then_InrE)
  apply (erule and_then_InrE)
  apply (erule and_then_InrE)
  apply (erule and_then_InrE)
  apply (erule and_then_InrE)
  apply (erule and_then_InrE)
  apply (erule and_then_InrE)
  apply (erule and_then_InrE)
  apply (erule and_then_InrE)
  apply (erule and_then_InrE)
  apply (erule write_sign_stamp)
  done


text \<open>
  Claim C10. When \<open>generate_certificate\<close> returns, in either script, the last thing it
  ran is the stamping of the signed file, right after the signing, and the stamping
  tool started on files without the unsigned certificate and left the files there are
  now. So when the tool that stamps the signed file does not bring the unsigned file
  back, the unsigned certificate is not on disk after a call that returns.
\<close>

theorem unsigned_certificate_removed:
  "(fst (bitcoin_generate_certificate lib cd env edition_data result_data result_folder_path w) = Inr () \<longrightarrow>
      (\<exists>fs p. map_of fs (bitcoin_certificate_path result_folder_path) = None \<and>
         env (Shell (timestamp_command (signed_path (bitcoin_certificate_path result_folder_path)))) fs = Inr p \<and>
         exit_status p = 0 \<and>
         files (snd (bitcoin_generate_certificate lib cd env edition_data result_data result_folder_path w))
           = files_left p) \<and>
      (\<exists>earlier.
         ran (snd (bitcoin_generate_certificate lib cd env edition_data result_data result_folder_path w))
           = earlier @
             [Shell (sign_command (signed_path (bitcoin_certificate_path result_folder_path))
                       (bitcoin_certificate_path result_folder_path)),
              Shell (timestamp_command (signed_path (bitcoin_certificate_path result_folder_path)))]))
   \<and> (fst (bitcoin_generate_certificate lib cd env edition_data result_data result_folder_path w) = Inr () \<and>
      (\<forall>fs p. env (Shell (timestamp_command (signed_path (bitcoin_certificate_path result_folder_path)))) fs = Inr p \<and>
              map_of fs (bitcoin_certificate_path result_folder_path) = None \<longrightarrow>
              map_of (files_left p) (bitcoin_certificate_path result_folder_path) = None) \<longrightarrow>
      map_of (files (snd (bitcoin_generate_certificate lib cd env edition_data result_data result_folder_path w)))
        (bitcoin_certificate_path result_folder_path) = None)
   \<and> (fst (course_generate_certificate lib cd env denied username fullname course_id w) = Inr () \<longrightarrow>
      (\<exists>fs p. map_of fs (course_certificate_path username course_id) = None \<and>
         env (Shell (timestamp_command (signed_path (course_certificate_path username course_id)))) fs = Inr p \<and>
         exit_status p = 0 \<and>
         files (snd (course_generate_certificate lib cd env denied username fullname course_id w))
           = files_left p) \<and>
      (\<exists>earlier.
         ran (snd (course_generate_certificate lib cd env denied username fullname course_id w))
           = earlier @
             [Shell (sign_command (signed_path (course_certificate_path username course_id))
                       (course_certificate_path username course_id)),
              Shell (timestamp_command (signed_path (course_certificate_path username course_id)))]))
   \<and> (fst (course_generate_certificate lib cd env denied username fullname course_id w) = Inr () \<and>
      (\<forall>fs p. env (Shell (timestamp_command (signed_path (course_certificate_path username course_id)))) fs = Inr p \<and>
              map_of fs (course_certificate_path username course_id) = None \<longrightarrow>
              map_of (files_left p) (course_certificate_path username course_id) = None) \<longrightarrow>
      map_of (files (snd (course_generate_certificate lib cd env denied username fullname course_id w)))
        (course_certificate_path username course_id) = None)"
proof -
  let ?b = "bitcoin_generate_certificate lib cd env edition_data result_data result_folder_path w"
  let ?c = "course_generate_certificate lib cd env denied username fullname course_id w"
  have b: "\<exists>fs p. map_of fs (bitcoin_certificate_path result_folder_path) = None \<and>
           env (Shell (timestamp_command (signed_path (bitcoin_certificate_path result_folder_path)))) fs = Inr p \<and>
           exit_status p = 0 \<and> files (snd ?b) = files_left p \<and>
           (\<exists>earlier. ran (snd ?b) = earlier @
              [Shell (sign_command (signed_path (bitcoin_certificate_path result_folder_path))
                        (bitcoin_certificate_path result_folder_path)),
               Shell (timestamp_command (signed_path (bitcoin_certificate_path result_folder_path)))])"
    if "fst ?b = Inr ()"
  proof -
    from that have "?b = (Inr (), snd ?b)" by (cases ?b) simp
    then show ?thesis by (rule bitcoin_generate_certificate_Inr)
  qed
  have c: "\<exists>fs p. map_of fs (course_certificate_path username course_id) = None \<and>
           env (Shell (timestamp_command (signed_path (course_certificate_path username course_id)))) fs = Inr p \<and>
           exit_status p = 0 \<and> files (snd ?c) = files_left p \<and>
           (\<exists>earlier. ran (snd ?c) = earlier @
              [Shell (sign_command (signed_path (course_certificate_path username course_id))
                        (course_certificate_path username course_id)),
               Shell (timestamp_command (signed_path (course_certificate_path username course_id)))])"
    if "fst ?c = Inr ()"
  proof -
    from that have "?c = (Inr (), snd ?c)" by (cases ?c) simp
    then show ?thesis by (rule course_generate_certificate_Inr)
  qed
  show ?thesis
  proof (intro conjI impI)
    assume "fst ?b = Inr ()"
    from b [OF this] show "\<exists>fs p. map_of fs (bitcoin_certificate_path result_folder_path) = None \<and>
         env (Shell (timestamp_command (signed_path (bitcoin_certificate_path result_folder_path)))) fs = Inr p \<and>
         exit_status p = 0 \<and> files (snd ?b) = files_left p" by blast
  next
    assume "fst ?b = Inr ()"
    from b [OF this] show "\<exists>earlier. ran (snd ?b) = earlier @
             [Shell (sign_command (signed_path (bitcoin_certificate_path result_folder_path))
                       (bitcoin_certificate_path result_folder_path)),
              Shell (timestamp_command (signed_path (bitcoin_certificate_path result_folder_path)))]" by blast
  next
    assume a: "fst ?b = Inr () \<and>
      (\<forall>fs p. env (Shell (timestamp_command (signed_path (bitcoin_certificate_path result_folder_path)))) fs = Inr p \<and>
              map_of fs (bitcoin_certificate_path result_folder_path) = None \<longrightarrow>
              map_of (files_left p) (bitcoin_certificate_path result_folder_path) = None)"
    then have "fst ?b = Inr ()" by simp
    from b [OF this] obtain fs p where
      "map_of fs (bitcoin_certificate_path result_folder_path) = None"
      "env (Shell (timestamp_command (signed_path (bitcoin_certificate_path result_folder_path)))) fs = Inr p"
      "files (snd ?b) = files_left p" by blast
    with a show "map_of (files (snd ?b)) (bitcoin_certificate_path result_folder_path) = None"
      by simp
  next
    assume "fst ?c = Inr ()"
    from c [OF this] show "\<exists>fs p. map_of fs (course_certificate_path username course_id) = None \<and>
         env (Shell (timestamp_command (signed_path (course_certificate_path username course_id)))) fs = Inr p \<and>
         exit_status p = 0 \<and> files (snd ?c) = files_left p" by blast
  next
    assume "fst ?c = Inr ()"
    from c [OF this] show "\<exists>earlier. ran (snd ?c) = earlier @
             [Shell (sign_command (signed_path (course_certificate_path username course_id))
                       (course_certificate_path username course_id)),
              Shell (timestamp_command (signed_path (course_certificate_path username course_id)))]" by blast
  next
    assume a: "fst ?c = Inr () \<and>
      (\<forall>fs p. env (Shell (timestamp_command (signed_path (course_certificate_path username course_id)))) fs = Inr p \<and>
              map_of fs (course_certificate_path username course_id) = None \<longrightarrow>
              map_of (files_left p) (course_certificate_path username course_id) = None)"
    then have "fst ?c = Inr ()" by simp
    from c [OF this] obtain fs p where
      "map_of fs (course_certificate_path username course_id) = None"
      "env (Shell (timestamp_command (signed_path (course_certificate_path username course_id)))) fs = Inr p"
      "files (snd ?c) = files_left p" by blast
    with a show "map_of (files (snd ?c)) (course_certificate_path username course_id) = None"
      by simp
  qed
qed

theorem unsigned_certificate_removed_witness:
  "fst (bitcoin_generate_certificate
     \<lparr>requests_get = (\<lambda>url. Inr \<lparr>response_text = ''--- name: Intro --- text'',
                                       response_json = Some (PList [PDict [(PStr ''sha'', PStr ''1f'')]])\<rparr>),
      yaml_safe_load = (\<lambda>s. Some (PDict [(PStr ''level'', PStr ''beginner''), (PStr ''hours'', PInt 3),
                                          (PStr ''name'', PStr ''Intro''), (PStr ''goal'', PStr ''Learn'')])),
      str_format = (\<lambda>template values. Inr template),
      builtin_sum = (\<lambda>scores. Inr (PInt 0)),
      at_least = (\<lambda>score bound. Inr True),
      builtin_str = (\<lambda>value. ''value''),
      str_upper = (\<lambda>s. s),
      today = ''2024-05-04''\<rparr>
     \<lparr>decode = (\<lambda>b. if list_all (\<lambda>c. (of_char c :: nat) < 128) b then Some b else None),
      encode = (\<lambda>t. if list_all (\<lambda>c. (of_char c :: nat) < 128) t then Some t else None)\<rparr>
     (\<lambda>c fs. Inr \<lparr>exit_status = 0, out_bytes = ''7'', err_bytes = [], files_left = fs\<rparr>)
     (PDict [(PStr ''exam_id'', PStr ''e1'')]) (PDict [(PStr ''username'', PStr ''ann'')]) ''r''
     \<lparr>files = [(''../templates/pbn_bitcoin_certificate.txt'', ''Certificate''),
              (''../templates/pbn_course_certificate.txt'', ''Certificate'')],
      console = [], ran = []\<rparr>) = Inr ()
   \<and> map_of (files (snd (bitcoin_generate_certificate
     \<lparr>requests_get = (\<lambda>url. Inr \<lparr>response_text = ''--- name: Intro --- text'',
                                       response_json = Some (PList [PDict [(PStr ''sha'', PStr ''1f'')]])\<rparr>),
      yaml_safe_load = (\<lambda>s. Some (PDict [(PStr ''level'', PStr ''beginner''), (PStr ''hours'', PInt 3),
                                          (PStr ''name'', PStr ''Intro''), (PStr ''goal'', PStr ''Learn'')])),
      str_format = (\<lambda>template values. Inr template),
      builtin_sum = (\<lambda>scores. Inr (PInt 0)),
      at_least = (\<lambda>score bound. Inr True),
      builtin_str = (\<lambda>value. ''value''),
      str_upper = (\<lambda>s. s),
      today = ''2024-05-04''\<rparr>
     \<lparr>decode = (\<lambda>b. if list_all (\<lambda>c. (of_char c :: nat) < 128) b then Some b else None),
      encode = (\<lambda>t. if list_all (\<lambda>c. (of_char c :: nat) < 128) t then Some t else None)\<rparr>
     (\<lambda>c fs. Inr \<lparr>exit_status = 0, out_bytes = ''7'', err_bytes = [], files_left = fs\<rparr>)
     (PDict [(PStr ''exam_id'', PStr ''e1'')]) (PDict [(PStr ''username'', PStr ''ann'')]) ''r''
     \<lparr>files = [(''../templates/pbn_bitcoin_certificate.txt'', ''Certificate''),
              (''../templates/pbn_course_certificate.txt'', ''Certificate'')],
      console = [], ran = []\<rparr>))) (bitcoin_certificate_path ''r'') = None
   \<and> fst (course_generate_certificate
     \<lparr>requests_get = (\<lambda>url. Inr \<lparr>response_text = ''--- name: Intro --- text'',
                                       response_json = Some (PList [PDict [(PStr ''sha'', PStr ''1f'')]])\<rparr>),
      yaml_safe_load = (\<lambda>s. Some (PDict [(PStr ''level'', PStr ''beginner''), (PStr ''hours'', PInt 3),
                                          (PStr ''name'', PStr ''Intro''), (PStr ''goal'', PStr ''Learn'')])),
      str_format = (\<lambda>template values. Inr template),
      builtin_sum = (\<lambda>scores. Inr (PInt 0)),
      at_least = (\<lambda>score bound. Inr True),
      builtin_str = (\<lambda>value. ''value''),
      str_upper = (\<lambda>s. s),
      today = ''2024-05-04''\<rparr>
     \<lparr>decode = (\<lambda>b. if list_all (\<lambda>c. (of_char c :: nat) < 128) b then Some b else None),
      encode = (\<lambda>t. if list_all (\<lambda>c. (of_char c :: nat) < 128) t then Some t else None)\<rparr>
     (\<lambda>c fs. Inr \<lparr>exit_status = 0, out_bytes = ''7'', err_bytes = [], files_left = fs\<rparr>)
     (\<lambda>path. None) ''ann'' ''Ann'' ''btc101''
     \<lparr>files = [(''../templates/pbn_bitcoin_certificate.txt'', ''Certificate''),
              (''../templates/pbn_course_certificate.txt'', ''Certificate'')],
      console = [], ran = []\<rparr>) = Inr ()
   \<and> map_of (files (snd (course_generate_certificate
     \<lparr>requests_get = (\<lambda>url. Inr \<lparr>response_text = ''--- name: Intro --- text'',
                                       response_json = Some (PList [PDict [(PStr ''sha'', PStr ''1f'')]])\<rparr>),
      yaml_safe_load = (\<lambda>s. Some (PDict [(PStr ''level'', PStr ''beginner''), (PStr ''hours'', PInt 3),
                                          (PStr ''name'', PStr ''Intro''), (PStr ''goal'', PStr ''Learn'')])),
      str_format = (\<lambda>template values. Inr template),
      builtin_sum = (\<lambda>scores. Inr (PInt 0)),
      at_least = (\<lambda>score bound. Inr True),
      builtin_str = (\<lambda>value. ''value''),
      str_upper = (\<lambda>s. s),
      today = ''2024-05-04''\<rparr>
     \<lparr>decode = (\<lambda>b. if list_all (\<lambda>c. (of_char c :: nat) < 128) b then Some b else None),
      encode = (\<lambda>t. if list_all (\<lambda>c. (of_char c :: nat) < 128) t then Some t else None)\<rparr>
     (\<lambda>c fs. Inr \<lparr>exit_status = 0, out_bytes = ''7'', err_bytes = [], files_left = fs\<rparr>)
     (\<lambda>path. None) ''ann'' ''Ann'' ''btc101''
     \<lparr>files = [(''../templates/pbn_bitcoin_certificate.txt'', ''Certificate''),
              (''../templates/pbn_course_certificate.txt'', ''Certificate'')],
      console = [], ran = []\<rparr>))) (course_certificate_path ''ann'' ''btc101'') = None"
proof -
  let ?lib = "\<lparr>requests_get = (\<lambda>url. Inr \<lparr>response_text = ''--- name: Intro --- text'',
                                       response_json = Some (PList [PDict [(PStr ''sha'', PStr ''1f'')]])\<rparr>),
      yaml_safe_load = (\<lambda>s. Some (PDict [(PStr ''level'', PStr ''beginner''), (PStr ''hours'', PInt 3),
                                          (PStr ''name'', PStr ''Intro''), (PStr ''goal'', PStr ''Learn'')])),
      str_format = (\<lambda>template values. Inr template),
      builtin_sum = (\<lambda>scores. Inr (PInt 0)),
      at_least = (\<lambda>score bound. Inr True),
      builtin_str = (\<lambda>value. ''value''),
      str_upper = (\<lambda>s. s),
      today = ''2024-05-04''\<rparr>"
  let ?cd = "\<lparr>decode = (\<lambda>b. if list_all (\<lambda>c. (of_char c :: nat) < 128) b then Some b else None),
      encode = (\<lambda>t. if list_all (\<lambda>c. (of_char c :: nat) < 128) t then Some t else None)\<rparr>"
  let ?env = "(\<lambda>c fs. Inr \<lparr>exit_status = 0, out_bytes = ''7'', err_bytes = [], files_left = fs\<rparr>) :: programs"
  let ?w = "\<lparr>files = [(''../templates/pbn_bitcoin_certificate.txt'', ''Certificate''),
              (''../templates/pbn_course_certificate.txt'', ''Certificate'')],
      console = [], ran = []\<rparr>"
  let ?ed = "PDict [(PStr ''exam_id'', PStr ''e1'')]"
  let ?rd = "PDict [(PStr ''username'', PStr ''ann'')]"
  let ?b = "bitcoin_generate_certificate ?lib ?cd ?env ?ed ?rd ''r'' ?w"
  let ?c = "course_generate_certificate ?lib ?cd ?env (\<lambda>path. None) ''ann'' ''Ann'' ''btc101'' ?w"
  note t = unsigned_certificate_removed [of ?lib ?cd ?env ?ed ?rd "''r''" ?w "\<lambda>path. None"
      "''ann''" "''Ann''" "''btc101''"]
  have rb: "fst ?b = Inr ()"
    by code_simp
  have rc: "fst ?c = Inr ()"
    by code_simp
  have hb: "fst ?b = Inr () \<and>
      (\<forall>fs p. ?env (Shell (timestamp_command (signed_path (bitcoin_certificate_path ''r'')))) fs = Inr p \<and>
              map_of fs (bitcoin_certificate_path ''r'') = None \<longrightarrow>
              map_of (files_left p) (bitcoin_certificate_path ''r'') = None)"
    using rb by auto
  have hc: "fst ?c = Inr () \<and>
      (\<forall>fs p. ?env (Shell (timestamp_command (signed_path (course_certificate_path ''ann'' ''btc101'')))) fs = Inr p \<and>
              map_of fs (course_certificate_path ''ann'' ''btc101'') = None \<longrightarrow>
              map_of (files_left p) (course_certificate_path ''ann'' ''btc101'') = None)"
    using rc by auto
  from t [THEN conjunct2, THEN conjunct1, THEN mp, OF hb]
  have a: "map_of (files (snd ?b)) (bitcoin_certificate_path ''r'') = None" .
  from t [THEN conjunct2, THEN conjunct2, THEN conjunct2, THEN mp, OF hc]
  have b: "map_of (files (snd ?c)) (course_certificate_path ''ann'' ''btc101'') = None" .
  from rb a rc b show ?thesis by (intro conjI)
qed

end
